(* ===== verification/Prelude.thy ===== *)
theory Prelude
  imports Main "HOL-Library.AList" "HOL-Library.Multiset" "HOL-Library.List_Lexorder" "HOL-Library.Char_ord"
begin

text \<open>
  Shared vocabulary of the development: the Python and SQLite notions that every module
  of the repository uses.
  \<^item> Python exceptions that the modelled code can raise, as the datatype \<open>py_error\<close>;
    a fallible operation returns \<open>py_error + 'a\<close>.
  \<^item> A Python \<open>dict\<close> as an association list with distinct keys in insertion order;
    \<open>d[k] = v\<close> is \<open>AList.update k v d\<close> (replace in place, else append), and a
    dict comprehension over a sequence of pairs is \<open>py_dict_of\<close>.
  \<^item> The string methods the code calls (\<open>strip\<close>, \<open>lower\<close>, \<open>split\<close>,
    \<open>endswith\<close>) on ASCII text, and \<open>input()\<close> reading from a list of lines.
  \<^item> SQLite compares TEXT values with the BINARY collation, i.e. byte-wise
    lexicographically with a proper prefix smaller: the order of
    \<open>HOL-Library.List_Lexorder\<close> on \<open>string\<close>.
\<close>

named_theorems py_defs "equations of the Python helper functions, for evaluation"

type_synonym path = string
type_synonym host = string
type_synonym timestamp = string
type_synonym py_dict = "(string \<times> string) list"

datatype py_error =
    OperationalError string  \<comment> \<open>sqlite3.OperationalError with its message\<close>
  | DatabaseFull             \<comment> \<open>SQLITE_FULL: AUTOINCREMENT ran out of rowids\<close>
  | ValueError string
  | EOFError                 \<comment> \<open>input() at the end of standard input\<close>
  | FileNotFoundError path   \<comment> \<open>open() of a missing file\<close>
  | JSONDecodeError          \<comment> \<open>json.load on a file that is not JSON\<close>
  | KeyError string          \<comment> \<open>d[k] on a dict without the key\<close>
  | TypeError string

subsection \<open>Python dicts\<close>

definition py_dict_of :: "('k \<times> 'v) list \<Rightarrow> ('k \<times> 'v) list" where
  "py_dict_of ps = fold (\<lambda>(k, v) d. AList.update k v d) ps []"

definition py_get :: "('k \<times> 'v) list \<Rightarrow> 'k \<Rightarrow> 'v \<Rightarrow> 'v" where
  "py_get d k dflt = (case map_of d k of Some v \<Rightarrow> v | None \<Rightarrow> dflt)"

subsection \<open>Strings\<close>

definition py_isspace :: "char \<Rightarrow> bool" where
  "py_isspace c \<longleftrightarrow> (let n = of_char c :: nat in (9 \<le> n \<and> n \<le> 13) \<or> (28 \<le> n \<and> n \<le> 32))"

definition py_strip :: "string \<Rightarrow> string" where
  "py_strip s = rev (dropWhile py_isspace (rev (dropWhile py_isspace s)))"

definition py_lower_char :: "char \<Rightarrow> char" where
  "py_lower_char c = (let n = of_char c :: nat in if 65 \<le> n \<and> n \<le> 90 then char_of (n + 32) else c)"

definition py_lower :: "string \<Rightarrow> string" where
  "py_lower s = map py_lower_char s"

fun py_split :: "char \<Rightarrow> string \<Rightarrow> string list" where
  "py_split c [] = [[]]"
| "py_split c (x # xs) =
     (if x = c then [] # py_split c xs
      else (case py_split c xs of w # ws \<Rightarrow> (x # w) # ws | [] \<Rightarrow> [[x]]))"

definition py_endswith :: "string \<Rightarrow> string \<Rightarrow> bool" where
  "py_endswith s suffix \<longleftrightarrow> suffix = drop (length s - length suffix) s \<and> length suffix \<le> length s"

type_synonym stdin = "string list"

fun py_input :: "stdin \<Rightarrow> py_error + (string \<times> stdin)" where
  "py_input [] = Inl EOFError"
| "py_input (l # ls) = Inr (l, ls)"

text \<open>\<open>if x:\<close> on a value that is \<open>None\<close> or a string: false for \<open>None\<close> and \<open>''\<close>.\<close>

definition py_truthy_str :: "string option \<Rightarrow> bool" where
  "py_truthy_str x = (case x of None \<Rightarrow> False | Some s \<Rightarrow> s \<noteq> [])"

text \<open>
  \<open>SELECT DISTINCT\<close> emits a row the first time the scan meets it; HOL's
  \<open>remdups\<close> keeps the last occurrence, so the first-occurrence order is written out.
\<close>

definition sql_distinct :: "'a list \<Rightarrow> 'a list" where
  "sql_distinct xs = rev (remdups (rev xs))"

subsection \<open>ORDER BY ... DESC\<close>

text \<open>
  SQLite leaves the order of rows with equal sort keys open; the model fixes it as the
  order the rows arrive in (a stable sort), which is the tie-break the lemmas about
  sortedness do not depend on.
\<close>

fun insort_desc_key :: "('a \<Rightarrow> 'k::linorder) \<Rightarrow> 'a \<Rightarrow> 'a list \<Rightarrow> 'a list" where
  "insort_desc_key f x [] = [x]"
| "insort_desc_key f x (y # ys) = (if f y \<le> f x then x # y # ys else y # insort_desc_key f x ys)"

definition sort_desc_key :: "('a \<Rightarrow> 'k::linorder) \<Rightarrow> 'a list \<Rightarrow> 'a list" where
  "sort_desc_key f xs = foldr (insort_desc_key f) xs []"

declare py_dict_of_def [py_defs] py_get_def [py_defs] py_isspace_def [py_defs]
  py_strip_def [py_defs] py_lower_char_def [py_defs] py_lower_def [py_defs]
  py_endswith_def [py_defs] py_truthy_str_def [py_defs] sort_desc_key_def [py_defs]
  sql_distinct_def [py_defs]

subsection \<open>Lemmas on dicts\<close>

lemma fold_update_distinct [simp]:
  "distinct (map fst d) \<Longrightarrow> distinct (map fst (fold (\<lambda>(k, v) d. AList.update k v d) ps d))"
  by (induction ps arbitrary: d) (auto simp: AList.distinct_update)

lemma map_of_fold_update:
  "map_of (fold (\<lambda>(k, v) d. AList.update k v d) ps d) = map_of d ++ map_of (rev ps)"
  by (induction ps arbitrary: d) (auto simp: AList.update_conv' map_add_def fun_eq_iff split: option.splits)

lemma py_dict_of_distinct [simp]: "distinct (map fst (py_dict_of ps))"
  by (simp add: py_dict_of_def)

lemma map_of_py_dict_of [simp]: "map_of (py_dict_of ps) = map_of (rev ps)"
  by (simp add: py_dict_of_def map_of_fold_update)

lemma update_fresh [simp]: "k \<notin> fst ` set d \<Longrightarrow> AList.update k v d = d @ [(k, v)]"
  by (induction d) auto

lemma fold_update_fresh:
  "distinct (map fst ps) \<Longrightarrow> set (map fst ps) \<inter> set (map fst d) = {} \<Longrightarrow>
   fold (\<lambda>(k, v) d. AList.update k v d) ps d = d @ ps"
proof (induction ps arbitrary: d)
  case Nil
  then show ?case by simp
next
  case (Cons p ps)
  obtain k v where p: "p = (k, v)" by (cases p)
  with Cons.prems have "AList.update k v d = d @ [(k, v)]"
    by auto
  with Cons p show ?case by auto
qed

lemma py_dict_of_id [simp]: "distinct (map fst ps) \<Longrightarrow> py_dict_of ps = ps"
  using fold_update_fresh [of ps "[]"] by (simp add: py_dict_of_def)

lemma fold_update_keys:
  "fst ` set (fold (\<lambda>(k, v) d. AList.update k v d) ps d) = fst ` set d \<union> fst ` set ps"
proof (induction ps arbitrary: d)
  case (Cons p ps)
  obtain k v where p: "p = (k, v)" by (cases p)
  have "fst ` set (fold (\<lambda>(k, v) d. AList.update k v d) ps (AList.update k v d)) =
        fst ` set (AList.update k v d) \<union> fst ` set ps"
    by (rule Cons.IH)
  with p show ?case by (simp add: AList.dom_update)
qed simp

lemma py_dict_of_keys [simp]: "fst ` set (py_dict_of ps) = fst ` set ps"
  by (simp add: py_dict_of_def fold_update_keys)

lemma set_sql_distinct [simp]: "set (sql_distinct xs) = set xs"
  by (simp add: sql_distinct_def)

lemma distinct_sql_distinct [simp]: "distinct (sql_distinct xs)"
  by (simp add: sql_distinct_def)

lemma sql_distinct_id [simp]: "distinct xs \<Longrightarrow> sql_distinct xs = xs"
  by (simp add: sql_distinct_def distinct_remdups_id)

lemma find_append_Some [simp]: "find P xs = Some x \<Longrightarrow> find P (xs @ ys) = Some x"
  by (induction xs) auto

subsection \<open>Lemmas on the descending sort\<close>

lemma mset_insort_desc_key [simp]: "mset (insort_desc_key f x xs) = add_mset x (mset xs)"
  by (induction xs) auto

lemma set_insort_desc_key [simp]: "set (insort_desc_key f x xs) = insert x (set xs)"
  by (metis mset_insort_desc_key set_mset_mset set_mset_add_mset_insert)

lemma mset_sort_desc_key [simp]: "mset (sort_desc_key f xs) = mset xs"
  by (induction xs) (simp_all add: sort_desc_key_def)

lemma set_sort_desc_key [simp]: "set (sort_desc_key f xs) = set xs"
  by (metis mset_sort_desc_key set_mset_mset)

lemma distinct_sort_desc_key [simp]: "distinct (sort_desc_key f xs) = distinct xs"
  by (rule mset_eq_imp_distinct_iff) simp

lemma sorted_insort_desc_key:
  "sorted_wrt (\<lambda>a b. f b \<le> f a) xs \<Longrightarrow> sorted_wrt (\<lambda>a b. f b \<le> f a) (insort_desc_key f x xs)"
  by (induction xs) auto

lemma sorted_sort_desc_key: "sorted_wrt (\<lambda>a b. f b \<le> f a) (sort_desc_key f xs)"
  by (induction xs) (simp_all add: sort_desc_key_def sorted_insort_desc_key)

subsection \<open>Association lists related pointwise\<close>

lemma map_of_rel:
  assumes "list_all2 (\<lambda>(k, x) (k', y). k' = k \<and> P x y) ps qs"
  shows "(case map_of ps k of None \<Rightarrow> map_of qs k = None | Some x \<Rightarrow> \<exists>y. map_of qs k = Some y \<and> P x y)"
  using assms by (induction rule: list_all2_induct) (auto split: option.splits)

lemma keys_rel:
  assumes "list_all2 (\<lambda>(k, x) (k', y). k' = k \<and> P x y) ps qs"
  shows "map fst qs = map fst ps"
  using assms by (induction rule: list_all2_induct) auto

end
