(* ===== verification/Schema.thy ===== *)
theory Schema
  imports Prelude
begin

text \<open>
  The persistent state of the system: one SQLite file with the tables \<open>images\<close> and
  \<open>tags\<close> created by \<open>create_schema\<close> (src/initialize_db.py), the config that
  selects the file in each module, and the SQL statements that the modules run against it.
  A table is \<open>None\<close> until \<open>CREATE TABLE\<close> ran; its rows are kept in rowid order,
  which is the order of a full table scan. The AUTOINCREMENT counters of
  \<open>sqlite_sequence\<close> are the fields \<open>images_seq\<close> and \<open>tags_seq\<close>.
  \<open>CURRENT_TIMESTAMP\<close> is the argument \<open>now\<close> (UTC text \<open>YYYY-MM-DD HH:MM:SS\<close>).
\<close>

named_theorems sql_defs "equations of the SQL statements, for evaluation"

record image_row =
  im_id :: int
  im_file_path :: string
  im_pc_name :: string
  im_added_time :: timestamp

record tag_row =
  tg_id :: int
  tg_image_id :: int
  tg_category :: string
  tg_value :: string

record db =
  images_tbl :: "image_row list option"
  tags_tbl :: "tag_row list option"
  images_seq :: int
  tags_seq :: int

definition empty_db :: db where
  "empty_db = \<lparr>images_tbl = None, tags_tbl = None, images_seq = 0, tags_seq = 0\<rparr>"

definition rows_of :: "'a list option \<Rightarrow> 'a list" where
  "rows_of t = (case t of None \<Rightarrow> [] | Some rs \<Rightarrow> rs)"

subsection \<open>Schema manager (initialize_db.py)\<close>

definition create_table_if_not_exists :: "'a list option \<Rightarrow> 'a list option" where
  "create_table_if_not_exists t = (case t of None \<Rightarrow> Some [] | Some rs \<Rightarrow> Some rs)"

definition create_schema :: "db \<Rightarrow> db" where
  "create_schema d =
     d\<lparr>images_tbl := create_table_if_not_exists (images_tbl d),
       tags_tbl := create_table_if_not_exists (tags_tbl d)\<rparr>"

subsection \<open>Configuration: which file each module opens\<close>

record config =
  use_production_db :: bool
  prod_db_path :: path
  test_db_path :: path

definition initialize_db_path :: "config \<Rightarrow> path" where
  "initialize_db_path c = (if \<not> use_production_db c then test_db_path c else prod_db_path c)"

definition db_interface_DB_PATH :: "config \<Rightarrow> path" where
  "db_interface_DB_PATH c = (if use_production_db c then prod_db_path c else test_db_path c)"

definition tagger_DB_PATH :: "config \<Rightarrow> path" where
  "tagger_DB_PATH c = (if use_production_db c then prod_db_path c else test_db_path c)"

definition search_db_path :: "config \<Rightarrow> path" where
  "search_db_path c = test_db_path c"

text \<open>
  The file system maps a path to the database in it; \<open>sqlite3.connect\<close> on a path
  with no database creates an empty one, so a missing file reads as \<open>empty_db\<close>.
\<close>

type_synonym files = "path \<Rightarrow> db"

subsection \<open>SQLite AUTOINCREMENT\<close>

text \<open>
  A new rowid is one more than the larger of the \<open>sqlite_sequence\<close> entry and the largest
  rowid in the table; when that is already the largest 64-bit signed integer the insert
  fails with \<open>SQLITE_FULL\<close>.
\<close>

definition sqlite_max_rowid :: int where
  "sqlite_max_rowid = 9223372036854775807"

definition autoinc_rowid :: "int \<Rightarrow> int list \<Rightarrow> py_error + int" where
  "autoinc_rowid seq ids =
     (let m = max seq (fold max ids 0) in
      if m < sqlite_max_rowid then Inr (m + 1) else Inl DatabaseFull)"

subsection \<open>The SQL statements\<close>

definition no_such_table :: "string \<Rightarrow> py_error" where
  "no_such_table t = OperationalError (''no such table: '' @ t)"

text \<open>\<open>INSERT INTO images (file_path, pc_name) VALUES (?, ?)\<close>, then \<open>cur.lastrowid\<close>.\<close>

definition sql_insert_image :: "timestamp \<Rightarrow> path \<Rightarrow> host \<Rightarrow> db \<Rightarrow> py_error + (int \<times> db)" where
  "sql_insert_image now fp pc d =
     (case images_tbl d of
        None \<Rightarrow> Inl (no_such_table ''images'')
      | Some rs \<Rightarrow>
          (case autoinc_rowid (images_seq d) (map im_id rs) of
             Inl e \<Rightarrow> Inl e
           | Inr i \<Rightarrow> Inr (i, d\<lparr>images_tbl := Some (rs @ [\<lparr>im_id = i, im_file_path = fp,
                                  im_pc_name = pc, im_added_time = now\<rparr>]),
                             images_seq := i\<rparr>)))"

text \<open>\<open>INSERT INTO tags (image_id, tag_category, tag_value) VALUES (?, ?, ?)\<close>.\<close>

definition sql_insert_tag :: "int \<Rightarrow> string \<Rightarrow> string \<Rightarrow> db \<Rightarrow> py_error + db" where
  "sql_insert_tag iid cat val d =
     (case tags_tbl d of
        None \<Rightarrow> Inl (no_such_table ''tags'')
      | Some rs \<Rightarrow>
          (case autoinc_rowid (tags_seq d) (map tg_id rs) of
             Inl e \<Rightarrow> Inl e
           | Inr i \<Rightarrow> Inr (d\<lparr>tags_tbl := Some (rs @ [\<lparr>tg_id = i, tg_image_id = iid,
                                  tg_category = cat, tg_value = val\<rparr>]),
                             tags_seq := i\<rparr>)))"

text \<open>\<open>SELECT tag_category, tag_value FROM tags WHERE image_id = ?\<close>.\<close>

definition tag_pairs :: "tag_row list \<Rightarrow> int \<Rightarrow> (string \<times> string) list" where
  "tag_pairs rs iid = map (\<lambda>r. (tg_category r, tg_value r)) (filter (\<lambda>r. tg_image_id r = iid) rs)"

definition sql_select_tags_of :: "int \<Rightarrow> db \<Rightarrow> py_error + (string \<times> string) list" where
  "sql_select_tags_of iid d =
     (case tags_tbl d of None \<Rightarrow> Inl (no_such_table ''tags'') | Some rs \<Rightarrow> Inr (tag_pairs rs iid))"

text \<open>
  A connection runs its statements in one implicit transaction: \<open>conn.commit()\<close>
  publishes them, and an exception before the commit drops the connection, which rolls the
  transaction back. \<open>sql_txn\<close> runs a body on the database and keeps its result only
  when the body returns.
\<close>

definition sql_txn :: "db \<Rightarrow> (db \<Rightarrow> py_error + db) \<Rightarrow> (py_error + unit) \<times> db" where
  "sql_txn d body = (case body d of Inl e \<Rightarrow> (Inl e, d) | Inr d' \<Rightarrow> (Inr (), d'))"

subsection \<open>Invariant of the stored data\<close>

text \<open>
  What the data model promises (spec, section 3) and the code keeps without the store
  enforcing it (SQLite checks no foreign key unless \<open>PRAGMA foreign_keys\<close> is on):
  rowids strictly increasing in table order, positive and within the AUTOINCREMENT
  counter, which stays within the 64-bit bound; every tag row names an existing image;
  and an image has at most one tag row per category.
\<close>

definition ids_ok :: "int \<Rightarrow> int list \<Rightarrow> bool" where
  "ids_ok seq ids \<longleftrightarrow>
     sorted_wrt (<) ids \<and> list_all (\<lambda>i. 0 < i \<and> i \<le> seq) ids \<and> 0 \<le> seq \<and> seq \<le> sqlite_max_rowid"

definition image_ids :: "db \<Rightarrow> int list" where
  "image_ids d = map im_id (rows_of (images_tbl d))"

definition wf_db :: "db \<Rightarrow> bool" where
  "wf_db d \<longleftrightarrow>
     ids_ok (images_seq d) (image_ids d) \<and>
     ids_ok (tags_seq d) (map tg_id (rows_of (tags_tbl d))) \<and>
     list_all (\<lambda>t. tg_image_id t \<in> set (image_ids d)) (rows_of (tags_tbl d)) \<and>
     distinct (map (\<lambda>t. (tg_image_id t, tg_category t)) (rows_of (tags_tbl d)))"

declare empty_db_def [sql_defs] rows_of_def [sql_defs] create_table_if_not_exists_def [sql_defs]
  create_schema_def [sql_defs] sqlite_max_rowid_def [sql_defs] autoinc_rowid_def [sql_defs]
  no_such_table_def [sql_defs] sql_insert_image_def [sql_defs] sql_insert_tag_def [sql_defs]
  tag_pairs_def [sql_defs] sql_select_tags_of_def [sql_defs] sql_txn_def [sql_defs]
  ids_ok_def [sql_defs] image_ids_def [sql_defs] wf_db_def [sql_defs]

lemma rows_of_simps [simp]: "rows_of None = []" "rows_of (Some rs) = rs"
  by (simp_all add: rows_of_def)

subsection \<open>AUTOINCREMENT under the invariant\<close>

lemma fold_max_le: "a \<le> s \<Longrightarrow> \<forall>x\<in>set xs. x \<le> s \<Longrightarrow> fold max xs a \<le> (s::int)"
  by (induction xs arbitrary: a) auto

lemma ids_ok_fold_max: "ids_ok seq ids \<Longrightarrow> max seq (fold max ids 0) = seq"
  by (auto simp: ids_ok_def list_all_iff intro!: max_absorb1 fold_max_le)

lemma autoinc_rowid_ok [simp]:
  "ids_ok seq ids \<Longrightarrow>
   autoinc_rowid seq ids = (if seq < sqlite_max_rowid then Inr (seq + 1) else Inl DatabaseFull)"
  by (simp add: autoinc_rowid_def ids_ok_fold_max)

lemma ids_ok_snoc:
  "ids_ok seq ids \<Longrightarrow> seq < sqlite_max_rowid \<Longrightarrow> ids_ok (seq + 1) (ids @ [seq + 1])"
  by (fastforce simp: ids_ok_def list_all_iff sorted_wrt_append)

lemma ids_ok_fresh: "ids_ok seq ids \<Longrightarrow> i \<in> set ids \<Longrightarrow> i < seq + 1"
  by (auto simp: ids_ok_def list_all_iff)

lemma ids_ok_distinct: "ids_ok seq ids \<Longrightarrow> distinct ids"
  by (simp add: ids_ok_def strict_sorted_iff)

lemma sql_insert_image_ok:
  "images_tbl d = Some rs \<Longrightarrow> ids_ok (images_seq d) (map im_id rs) \<Longrightarrow>
   sql_insert_image now fp pc d =
     (if images_seq d < sqlite_max_rowid
      then Inr (images_seq d + 1,
                d\<lparr>images_tbl := Some (rs @ [\<lparr>im_id = images_seq d + 1, im_file_path = fp,
                                         im_pc_name = pc, im_added_time = now\<rparr>]),
                  images_seq := images_seq d + 1\<rparr>)
      else Inl DatabaseFull)"
  by (simp add: sql_insert_image_def)

lemma sql_insert_tag_ok:
  "tags_tbl d = Some rs \<Longrightarrow> ids_ok (tags_seq d) (map tg_id rs) \<Longrightarrow>
   sql_insert_tag iid cat val d =
     (if tags_seq d < sqlite_max_rowid
      then Inr (d\<lparr>tags_tbl := Some (rs @ [\<lparr>tg_id = tags_seq d + 1, tg_image_id = iid,
                                         tg_category = cat, tg_value = val\<rparr>]),
                  tags_seq := tags_seq d + 1\<rparr>)
      else Inl DatabaseFull)"
  by (simp add: sql_insert_tag_def)

lemma wf_db_image_ids_distinct: "wf_db d \<Longrightarrow> distinct (image_ids d)"
  unfolding wf_db_def by (blast intro: ids_ok_distinct)

subsection \<open>The schema manager\<close>

lemma create_schema_tables:
  "\<exists>is ts. images_tbl (create_schema d) = Some is \<and> tags_tbl (create_schema d) = Some ts"
  by (simp add: create_schema_def create_table_if_not_exists_def split: option.split)

lemma create_schema_rows [simp]:
  "rows_of (images_tbl (create_schema d)) = rows_of (images_tbl d)"
  "rows_of (tags_tbl (create_schema d)) = rows_of (tags_tbl d)"
  "images_seq (create_schema d) = images_seq d"
  "tags_seq (create_schema d) = tags_seq d"
  by (simp_all add: create_schema_def create_table_if_not_exists_def rows_of_def split: option.split)

lemma wf_db_create_schema: "wf_db d \<Longrightarrow> wf_db (create_schema d)"
  by (simp add: wf_db_def image_ids_def)

text \<open>
  C8. \<open>create_schema\<close> is idempotent and safe on every start: afterwards both tables
  exist, the rows and the AUTOINCREMENT counters of existing tables are untouched, and
  running it again changes nothing.
\<close>

theorem create_schema_idempotent:
  "create_schema (create_schema d) = create_schema d \<and>
   images_tbl (create_schema d) \<noteq> None \<and> tags_tbl (create_schema d) \<noteq> None \<and>
   rows_of (images_tbl (create_schema d)) = rows_of (images_tbl d) \<and>
   rows_of (tags_tbl (create_schema d)) = rows_of (tags_tbl d) \<and>
   images_seq (create_schema d) = images_seq d \<and> tags_seq (create_schema d) = tags_seq d"
  by (simp add: create_schema_def create_table_if_not_exists_def rows_of_def split: option.split)

lemma wf_db_empty: "wf_db empty_db"
  by (simp add: wf_db_def empty_db_def ids_ok_def image_ids_def rows_of_def sqlite_max_rowid_def)

end
