(* ===== verification/Store.thy ===== *)
theory Store
  imports Schema
begin

text \<open>
  The catalog store: the database access functions of src/tagger.py
  (\<open>image_exists\<close>, \<open>get_tags_for_image\<close>, \<open>insert_image_with_tags\<close>) and
  \<open>add_image\<close> of src/db_interface.py. Each opens a connection, runs its statements and
  closes it; the inserting ones commit, and an exception before the commit rolls back
  (\<open>sql_txn\<close>). The host name (\<open>socket.gethostname()\<close>) and the insertion time
  are arguments.
  The lemmas give every branch of the insert (success, missing table, exhausted rowids),
  the round trip insert/read-back of the tag dict, and that the insert keeps \<open>wf_db\<close>.
\<close>

definition image_exists :: "path \<Rightarrow> db \<Rightarrow> py_error + int option" where
  "image_exists fp d =
     (case images_tbl d of
        None \<Rightarrow> Inl (no_such_table ''images'')
      | Some rs \<Rightarrow> Inr (map_option im_id (find (\<lambda>r. im_file_path r = fp) rs)))"

definition get_tags_for_image :: "int \<Rightarrow> db \<Rightarrow> py_error + py_dict" where
  "get_tags_for_image iid d =
     (case sql_select_tags_of iid d of Inl e \<Rightarrow> Inl e | Inr rows \<Rightarrow> Inr (py_dict_of rows))"

text \<open>The loop \<open>for cat, val in tags.items(): cur.execute(INSERT INTO tags ...)\<close>.\<close>

fun insert_tags :: "int \<Rightarrow> py_dict \<Rightarrow> db \<Rightarrow> py_error + db" where
  "insert_tags iid [] d = Inr d"
| "insert_tags iid ((cat, val) # kvs) d =
     (case sql_insert_tag iid cat val d of Inl e \<Rightarrow> Inl e | Inr d' \<Rightarrow> insert_tags iid kvs d')"

definition insert_image_with_tags :: "host \<Rightarrow> timestamp \<Rightarrow> path \<Rightarrow> py_dict \<Rightarrow> db \<Rightarrow> (py_error + unit) \<times> db" where
  "insert_image_with_tags pc now fp tags d =
     sql_txn d (\<lambda>d0. case sql_insert_image now fp pc d0 of
                        Inl e \<Rightarrow> Inl e
                      | Inr (image_id, d1) \<Rightarrow> insert_tags image_id tags d1)"

definition add_image :: "host \<Rightarrow> timestamp \<Rightarrow> path \<Rightarrow> py_dict \<Rightarrow> db \<Rightarrow> (py_error + unit) \<times> db" where
  "add_image pc now fp tags d =
     sql_txn d (\<lambda>d0. case sql_insert_image now fp pc d0 of
                        Inl e \<Rightarrow> Inl e
                      | Inr (image_id, d1) \<Rightarrow> insert_tags image_id tags d1)"

text \<open>The rows a successful insert appends, as the lemmas state them.\<close>

fun new_tag_rows :: "int \<Rightarrow> int \<Rightarrow> py_dict \<Rightarrow> tag_row list" where
  "new_tag_rows s iid [] = []"
| "new_tag_rows s iid ((c, v) # kvs) =
     \<lparr>tg_id = s + 1, tg_image_id = iid, tg_category = c, tg_value = v\<rparr> # new_tag_rows (s + 1) iid kvs"

definition new_image_row :: "db \<Rightarrow> timestamp \<Rightarrow> path \<Rightarrow> host \<Rightarrow> image_row" where
  "new_image_row d now fp pc =
     \<lparr>im_id = images_seq d + 1, im_file_path = fp, im_pc_name = pc, im_added_time = now\<rparr>"

definition inserted_db :: "db \<Rightarrow> timestamp \<Rightarrow> path \<Rightarrow> host \<Rightarrow> py_dict \<Rightarrow> db" where
  "inserted_db d now fp pc tags =
     d\<lparr>images_tbl := Some (rows_of (images_tbl d) @ [new_image_row d now fp pc]),
       images_seq := images_seq d + 1,
       tags_tbl := map_option (\<lambda>ts. ts @ new_tag_rows (tags_seq d) (images_seq d + 1) tags) (tags_tbl d),
       tags_seq := tags_seq d + int (length tags)\<rparr>"

definition insert_fails :: "py_dict \<Rightarrow> db \<Rightarrow> bool" where
  "insert_fails tags d \<longleftrightarrow>
     images_tbl d = None \<or> sqlite_max_rowid \<le> images_seq d \<or> (tags \<noteq> [] \<and> tags_tbl d = None) \<or>
     sqlite_max_rowid < tags_seq d + int (length tags)"

subsection \<open>The appended tag rows\<close>

lemma tag_pairs_append [simp]: "tag_pairs (xs @ ys) i = tag_pairs xs i @ tag_pairs ys i"
  by (simp add: tag_pairs_def)

lemma tag_pairs_new_tag_rows [simp]:
  "tag_pairs (new_tag_rows s iid kvs) i = (if i = iid then kvs else [])"
  by (induction s iid kvs rule: new_tag_rows.induct) (auto simp: tag_pairs_def)

lemma new_tag_rows_keys:
  "map (\<lambda>t. (tg_image_id t, tg_category t)) (new_tag_rows s iid kvs) = map (\<lambda>(c, v). (iid, c)) kvs"
  by (induction s iid kvs rule: new_tag_rows.induct) auto

lemma new_tag_rows_image [simp]: "t \<in> set (new_tag_rows s iid kvs) \<Longrightarrow> tg_image_id t = iid"
  by (induction s iid kvs rule: new_tag_rows.induct) auto

lemma ids_ok_new_tag_rows:
  "ids_ok s ids \<Longrightarrow> s + int (length kvs) \<le> sqlite_max_rowid \<Longrightarrow>
   ids_ok (s + int (length kvs)) (ids @ map tg_id (new_tag_rows s iid kvs))"
proof (induction s iid kvs arbitrary: ids rule: new_tag_rows.induct)
  case (1 s iid)
  then show ?case by simp
next
  case (2 s iid c v kvs)
  then have "ids_ok (s + 1) (ids @ [s + 1])" by (simp add: ids_ok_snoc)
  with "2.IH" [of "ids @ [s + 1]"] "2.prems" show ?case by (simp add: add.assoc)
qed

lemma insert_tags_Inr:
  assumes "tags_tbl d = Some ts" and "ids_ok (tags_seq d) (map tg_id ts)"
    and "tags_seq d + int (length kvs) \<le> sqlite_max_rowid"
  shows "insert_tags iid kvs d =
           Inr (d\<lparr>tags_tbl := Some (ts @ new_tag_rows (tags_seq d) iid kvs),
                  tags_seq := tags_seq d + int (length kvs)\<rparr>)"
  using assms
proof (induction iid kvs d arbitrary: ts rule: insert_tags.induct)
  case (2 iid cat val kvs d)
  let ?r = "\<lparr>tg_id = tags_seq d + 1, tg_image_id = iid, tg_category = cat, tg_value = val\<rparr>"
  from "2.prems" have "ids_ok (tags_seq d + 1) (map tg_id (ts @ [?r]))"
    by (simp add: ids_ok_snoc)
  with "2.IH" [of _ "ts @ [?r]"] "2.prems" show ?case
    by (simp add: sql_insert_tag_ok add.assoc)
qed simp

lemma insert_tags_full:
  assumes "tags_tbl d = Some ts" and "ids_ok (tags_seq d) (map tg_id ts)"
    and "sqlite_max_rowid < tags_seq d + int (length kvs)"
  shows "insert_tags iid kvs d = Inl DatabaseFull"
  using assms
proof (induction iid kvs d arbitrary: ts rule: insert_tags.induct)
  case (1 iid d)
  then show ?case by (simp add: ids_ok_def)
next
  case (2 iid cat val kvs d)
  let ?r = "\<lparr>tg_id = tags_seq d + 1, tg_image_id = iid, tg_category = cat, tg_value = val\<rparr>"
  from "2.prems" have "tags_seq d < sqlite_max_rowid \<Longrightarrow> ids_ok (tags_seq d + 1) (map tg_id (ts @ [?r]))"
    by (simp add: ids_ok_snoc)
  with "2.IH" [of _ "ts @ [?r]"] "2.prems" show ?case
    by (simp add: sql_insert_tag_ok)
qed

lemma insert_tags_no_table:
  "tags_tbl d = None \<Longrightarrow> kvs \<noteq> [] \<Longrightarrow> insert_tags iid kvs d = Inl (no_such_table ''tags'')"
  by (cases kvs) (auto simp: sql_insert_tag_def)

subsection \<open>Inserting an image with its tags\<close>

lemma wf_db_ids:
  assumes "wf_db d"
  shows "ids_ok (images_seq d) (image_ids d)" and "ids_ok (tags_seq d) (map tg_id (rows_of (tags_tbl d)))"
  using assms by (simp_all add: wf_db_def)

lemma wf_db_seq_bounds:
  assumes "wf_db d"
  shows "images_seq d \<le> sqlite_max_rowid" and "tags_seq d \<le> sqlite_max_rowid"
  using assms by (simp_all add: wf_db_def ids_ok_def)

lemma insert_image_with_tags_result:
  assumes "wf_db d"
  shows "insert_image_with_tags pc now fp tags d =
    (if images_tbl d = None then (Inl (no_such_table ''images''), d)
     else if sqlite_max_rowid \<le> images_seq d then (Inl DatabaseFull, d)
     else if tags \<noteq> [] \<and> tags_tbl d = None then (Inl (no_such_table ''tags''), d)
     else if sqlite_max_rowid < tags_seq d + int (length tags) then (Inl DatabaseFull, d)
     else (Inr (), inserted_db d now fp pc tags))"
proof (cases "images_tbl d")
  case None
  then show ?thesis by (simp add: insert_image_with_tags_def sql_txn_def sql_insert_image_def)
next
  case (Some rs)
  note ids = wf_db_ids [OF assms]
  with Some have img: "sql_insert_image now fp pc d =
     (if images_seq d < sqlite_max_rowid
      then Inr (images_seq d + 1,
                d\<lparr>images_tbl := Some (rs @ [new_image_row d now fp pc]), images_seq := images_seq d + 1\<rparr>)
      else Inl DatabaseFull)"
    by (simp add: sql_insert_image_ok image_ids_def new_image_row_def)
  show ?thesis
  proof (cases "tags_tbl d")
    case None
    with ids have "0 \<le> tags_seq d \<and> tags_seq d \<le> sqlite_max_rowid" by (simp add: ids_ok_def)
    with Some None img show ?thesis
      by (cases tags) (auto simp: insert_image_with_tags_def sql_txn_def inserted_db_def insert_tags_no_table)
  next
    case T: (Some ts)
    with ids have "ids_ok (tags_seq d) (map tg_id ts)" by simp
    with Some T img show ?thesis
      by (auto simp: insert_image_with_tags_def sql_txn_def inserted_db_def insert_tags_Inr insert_tags_full)
  qed
qed

lemma insert_image_with_tags_fail:
  assumes "wf_db d" and "insert_fails tags d"
  shows "\<exists>e \<in> {no_such_table ''images'', no_such_table ''tags'', DatabaseFull}.
           insert_image_with_tags pc now fp tags d = (Inl e, d)"
  using assms(2) wf_db_seq_bounds [OF assms(1)]
  unfolding insert_fails_def insert_image_with_tags_result [OF assms(1)]
  by auto

lemma insert_image_with_tags_success:
  assumes "wf_db d" and "\<not> insert_fails tags d"
  shows "insert_image_with_tags pc now fp tags d = (Inr (), inserted_db d now fp pc tags)"
  using assms(2) unfolding insert_fails_def insert_image_with_tags_result [OF assms(1)]
  by auto

lemma distinct_new_keys:
  "distinct (map fst kvs) \<Longrightarrow> distinct (map (\<lambda>(c, v). (i, c)) kvs)"
  by (induction kvs) (auto simp: image_iff)

lemma wf_db_inserted:
  assumes wf: "wf_db d" and ok: "\<not> insert_fails tags d" and dist: "distinct (map fst tags)"
  shows "wf_db (inserted_db d now fp pc tags)"
proof -
  from ok have img: "images_tbl d \<noteq> None" and room: "images_seq d < sqlite_max_rowid"
    and troom: "tags_seq d + int (length tags) \<le> sqlite_max_rowid"
    and tbl: "tags \<noteq> [] \<longrightarrow> tags_tbl d \<noteq> None"
    by (auto simp: insert_fails_def)
  let ?i = "images_seq d + 1"
  let ?d' = "inserted_db d now fp pc tags"
  note ids = wf_db_ids [OF wf]
  from img have iids: "image_ids ?d' = image_ids d @ [?i]"
    by (auto simp: image_ids_def inserted_db_def new_image_row_def)
  have old_ref: "\<forall>t \<in> set (rows_of (tags_tbl d)). tg_image_id t \<in> set (image_ids d)"
    using wf by (simp add: wf_db_def list_all_iff)
  have old_lt: "\<forall>t \<in> set (rows_of (tags_tbl d)). tg_image_id t < ?i"
    using old_ref ids_ok_fresh [OF ids(1)] by blast
  have c1: "ids_ok (images_seq ?d') (image_ids ?d')"
    using ids_ok_snoc [OF ids(1) room] iids by (simp add: inserted_db_def)
  have c2: "ids_ok (tags_seq ?d') (map tg_id (rows_of (tags_tbl ?d')))"
  proof (cases "tags_tbl d")
    case None
    with tbl ids show ?thesis by (simp add: inserted_db_def)
  next
    case (Some ts)
    with ids ids_ok_new_tag_rows [OF _ troom] show ?thesis by (simp add: inserted_db_def)
  qed
  have c3: "list_all (\<lambda>t. tg_image_id t \<in> set (image_ids ?d')) (rows_of (tags_tbl ?d'))"
    using old_ref iids by (cases "tags_tbl d") (auto simp: inserted_db_def list_all_iff)
  have c4: "distinct (map (\<lambda>t. (tg_image_id t, tg_category t)) (rows_of (tags_tbl ?d')))"
  proof (cases "tags_tbl d")
    case None
    with wf show ?thesis by (simp add: wf_db_def inserted_db_def)
  next
    case (Some ts)
    have "distinct (map (\<lambda>t. (tg_image_id t, tg_category t)) ts)"
      using wf Some by (simp add: wf_db_def)
    moreover have "\<forall>t \<in> set ts. tg_image_id t < ?i" using old_lt Some by simp
    ultimately show ?thesis
      using Some distinct_new_keys [OF dist, of ?i]
      by (auto simp: inserted_db_def new_tag_rows_keys)
  qed
  from c1 c2 c3 c4 show ?thesis by (simp add: wf_db_def)
qed

lemma wf_db_fresh_image_tags:
  assumes "wf_db d" and "tags_tbl d = Some ts"
  shows "tag_pairs ts (images_seq d + 1) = []"
proof -
  have "\<forall>t \<in> set ts. tg_image_id t \<in> set (image_ids d)"
    using assms by (simp add: wf_db_def list_all_iff)
  with ids_ok_fresh [OF wf_db_ids(1) [OF assms(1)]] show ?thesis
    by (fastforce simp: tag_pairs_def filter_empty_conv)
qed

lemma find_sorted_least:
  "sorted_wrt (<) (map im_id rs) \<Longrightarrow> find P rs = Some r \<Longrightarrow> r' \<in> set rs \<Longrightarrow> P r' \<Longrightarrow>
   im_id r \<le> im_id r'"
  by (induction rs) (auto split: if_splits)

lemma add_image_eq_insert: "add_image = insert_image_with_tags"
  by (simp add: fun_eq_iff add_image_def insert_image_with_tags_def)

lemma image_exists_Some_mem:
  "image_exists fp d = Inr (Some i) \<Longrightarrow> i \<in> set (image_ids d)"
  by (auto simp: image_exists_def image_ids_def find_Some_iff split: option.splits)

lemma image_exists_inserted:
  assumes "image_exists fp d = Inr (Some i)"
  shows "image_exists fp (inserted_db d now fp' pc tags) = Inr (Some i)"
  using assms by (auto simp: image_exists_def inserted_db_def split: option.splits)

lemma get_tags_inserted_other:
  assumes "i \<noteq> images_seq d + 1"
  shows "get_tags_for_image i (inserted_db d now fp pc tags) = get_tags_for_image i d"
  using assms
  by (auto simp: get_tags_for_image_def sql_select_tags_of_def inserted_db_def split: option.splits)

lemma image_exists_not_new:
  assumes "wf_db d" and "image_exists fp d = Inr (Some i)"
  shows "i \<noteq> images_seq d + 1"
  using ids_ok_fresh [OF wf_db_ids(1) [OF assms(1)] image_exists_Some_mem [OF assms(2)]] by simp

lemma insert_image_with_tags_effect:
  assumes "wf_db d"
  shows "snd (insert_image_with_tags pc now fp tags d) = d \<or>
         (\<not> insert_fails tags d \<and> insert_image_with_tags pc now fp tags d = (Inr (), inserted_db d now fp pc tags))"
proof (cases "insert_fails tags d")
  case True
  from insert_image_with_tags_fail [OF assms True, of pc now fp] show ?thesis by auto
next
  case False
  with insert_image_with_tags_success [OF assms] show ?thesis by simp
qed

text \<open>
  C4. A successful insert into a well-formed catalog with both tables appends one image
  row carrying the path, the host and the time with a fresh id, and reading the tags of
  that id back gives exactly the dict that was inserted.
\<close>

theorem insert_then_get_tags:
  assumes "wf_db d" and "images_tbl d = Some rs" and "tags_tbl d = Some ts"
    and "images_seq d < sqlite_max_rowid" and "tags_seq d + int (length tags) \<le> sqlite_max_rowid"
    and "distinct (map fst tags)"
  shows "\<exists>d' i. insert_image_with_tags pc now fp tags d = (Inr (), d') \<and>
           images_tbl d' = Some (rs @ [\<lparr>im_id = i, im_file_path = fp, im_pc_name = pc, im_added_time = now\<rparr>]) \<and>
           i \<notin> set (map im_id rs) \<and> get_tags_for_image i d' = Inr tags"
proof -
  let ?i = "images_seq d + 1"
  have res: "insert_image_with_tags pc now fp tags d = (Inr (), inserted_db d now fp pc tags)"
    using insert_image_with_tags_success [OF assms(1)] assms(2-5) by (simp add: insert_fails_def)
  have "\<forall>j \<in> set (map im_id rs). j < ?i"
    using ids_ok_fresh [OF wf_db_ids(1) [OF assms(1)]] assms(2) by (simp add: image_ids_def)
  then have "?i \<notin> set (map im_id rs)" by blast
  moreover have "get_tags_for_image ?i (inserted_db d now fp pc tags) = Inr tags"
    using wf_db_fresh_image_tags [OF assms(1,3)] assms(3,6)
    by (simp add: get_tags_for_image_def sql_select_tags_of_def inserted_db_def)
  ultimately show ?thesis
    using res assms(2) by (auto simp: inserted_db_def new_image_row_def)
qed

text \<open>
  C5. Inserting keeps the catalog well formed: ids unique, increasing and within the
  AUTOINCREMENT bound, every tag on an existing image, one tag per category per image,
  whatever branch the insert takes.
\<close>

theorem insert_image_with_tags_wf:
  assumes "wf_db d" and "distinct (map fst tags)"
  shows "wf_db (snd (insert_image_with_tags pc now fp tags d))"
proof (cases "insert_fails tags d")
  case True
  from insert_image_with_tags_fail [OF assms(1) True, of pc now fp] obtain e where
    "insert_image_with_tags pc now fp tags d = (Inl e, d)" by blast
  with assms(1) show ?thesis by simp
next
  case False
  with insert_image_with_tags_success [OF assms(1)] wf_db_inserted [OF assms(1) _ assms(2)]
  show ?thesis by simp
qed

text \<open>
  C6. Every failure of the insert is a missing table or exhausted rowids, and it leaves
  the database as it was: the image row written before a failing tag insert is rolled back.
\<close>

theorem insert_image_with_tags_rollback:
  assumes "wf_db d" and "fst (insert_image_with_tags pc now fp tags d) = Inl e"
  shows "snd (insert_image_with_tags pc now fp tags d) = d \<and>
         e \<in> {no_such_table ''images'', no_such_table ''tags'', DatabaseFull}"
proof (cases "insert_fails tags d")
  case True
  from insert_image_with_tags_fail [OF assms(1) True, of pc now fp] obtain e' where
    "e' \<in> {no_such_table ''images'', no_such_table ''tags'', DatabaseFull}" and
    "insert_image_with_tags pc now fp tags d = (Inl e', d)" by blast
  with assms(2) show ?thesis by simp
next
  case False
  with insert_image_with_tags_success [OF assms(1)] assms(2) show ?thesis by simp
qed

text \<open>
  C10. \<open>image_exists\<close> answers with the id of the earliest stored image with exactly
  that path (the least id among the rows with that path), or \<open>None\<close> when no row has it.
\<close>

theorem image_exists_least:
  assumes "wf_db d" and "images_tbl d = Some rs"
  shows "image_exists fp d =
           Inr (let ids = map im_id (filter (\<lambda>r. im_file_path r = fp) rs)
                in if ids = [] then None else Some (Min (set ids)))"
proof (cases "find (\<lambda>r. im_file_path r = fp) rs")
  case None
  then show ?thesis using assms(2) by (auto simp: image_exists_def find_None_iff filter_empty_conv)
next
  case (Some r)
  have sorted: "sorted_wrt (<) (map im_id rs)"
    using assms by (simp add: wf_db_def ids_ok_def image_ids_def)
  from Some have r: "r \<in> set rs" "im_file_path r = fp"
    by (auto simp: find_Some_iff)
  have "Min (set (map im_id (filter (\<lambda>r. im_file_path r = fp) rs))) = im_id r"
    by (rule Min_eqI) (use r find_sorted_least [OF sorted Some] in auto)
  with Some r assms(2) show ?thesis by (auto simp: image_exists_def filter_empty_conv)
qed

end
