(* ===== verification/Query.thy ===== *)
theory Query
  imports Schema
begin

text \<open>
  The query engine of src/search.py: the category and value listings, the per-value
  image count, and the dynamic conjunctive search, with the filter parser that feeds it.
  \<open>search_images_by_tags\<close> builds one condition per filter pair (an \<open>EXISTS\<close> over
  \<open>tags\<close>), one for the host and one for the date when they are given, joins them with
  \<open>AND\<close> and runs the query; for every result row it reads the image's tag dict and asks
  on standard input whether to open the file. The conditions are the datatype \<open>cond\<close>,
  the query is \<open>sql_select_images\<close>, the per-row loop is \<open>show_results\<close>.
  Opening the file is an operating-system effect; the model records the answer only.
\<close>

subsection \<open>Listings and counts\<close>

definition list_tag_categories :: "db \<Rightarrow> py_error + string list" where
  "list_tag_categories d =
     (case tags_tbl d of
        None \<Rightarrow> Inl (no_such_table ''tags'')
      | Some ts \<Rightarrow> Inr (sql_distinct (map tg_category ts)))"

definition list_values_for_category :: "string \<Rightarrow> db \<Rightarrow> py_error + string list" where
  "list_values_for_category cat d =
     (case tags_tbl d of
        None \<Rightarrow> Inl (no_such_table ''tags'')
      | Some ts \<Rightarrow> Inr (sql_distinct (map tg_value (filter (\<lambda>t. tg_category t = cat) ts))))"

text \<open>
  \<open>SELECT tag_value, COUNT(DISTINCT image_id) FROM tags WHERE tag_category = ?
  GROUP BY tag_value ORDER BY COUNT(*) DESC\<close>: SQLite forms the groups in ascending
  value order, then sorts them by the number of rows of each group; the result pairs
  the value with the number of distinct images.
\<close>

definition value_group :: "tag_row list \<Rightarrow> string \<Rightarrow> string \<times> nat \<times> nat" where
  "value_group rows v =
     (let g = filter (\<lambda>t. tg_value t = v) rows
      in (v, length (remdups (map tg_image_id g)), length g))"

definition group_by_tag :: "string \<Rightarrow> db \<Rightarrow> py_error + (string \<times> nat) list" where
  "group_by_tag cat d =
     (case tags_tbl d of
        None \<Rightarrow> Inl (no_such_table ''tags'')
      | Some ts \<Rightarrow>
          (let rows = filter (\<lambda>t. tg_category t = cat) ts;
               groups = map (value_group rows) (sort (remdups (map tg_value rows)))
           in Inr (map (\<lambda>(v, n, _). (v, n)) (sort_desc_key (\<lambda>(_, _, k). k) groups))))"

definition get_all_tags_for_image :: "db \<Rightarrow> int \<Rightarrow> py_error + py_dict" where
  "get_all_tags_for_image d iid =
     (case sql_select_tags_of iid d of Inl e \<Rightarrow> Inl e | Inr rows \<Rightarrow> Inr (py_dict_of rows))"

subsection \<open>The dynamic search\<close>

datatype cond =
    TagIs string string     \<comment> \<open>\<open>EXISTS (SELECT 1 FROM tags t WHERE t.image_id = images.id AND ...)\<close>\<close>
  | PcNameIs string         \<comment> \<open>\<open>images.pc_name = ?\<close>\<close>
  | AddedSince timestamp    \<comment> \<open>\<open>images.added_time >= ?\<close>\<close>

definition search_conditions :: "py_dict \<Rightarrow> string option \<Rightarrow> string option \<Rightarrow> cond list" where
  "search_conditions filters pc date =
     map (\<lambda>(c, v). TagIs c v) filters
     @ (if py_truthy_str pc then [PcNameIs (the pc)] else [])
     @ (if py_truthy_str date then [AddedSince (the date)] else [])"

fun eval_cond :: "tag_row list \<Rightarrow> image_row \<Rightarrow> cond \<Rightarrow> bool" where
  "eval_cond ts r (TagIs c v) =
     list_ex (\<lambda>t. tg_image_id t = im_id r \<and> tg_category t = c \<and> tg_value t = v) ts"
| "eval_cond ts r (PcNameIs p) = (im_pc_name r = p)"
| "eval_cond ts r (AddedSince dt) = (dt \<le> im_added_time r)"

fun is_tag_cond :: "cond \<Rightarrow> bool" where
  "is_tag_cond (TagIs c v) = True"
| "is_tag_cond _ = False"

text \<open>
  \<open>SELECT DISTINCT images.id, images.file_path, images.pc_name, images.added_time
  FROM images WHERE c1 AND ... AND cn ORDER BY images.added_time DESC\<close>.
  With no condition the text reads \<open>WHERE ORDER BY\<close>, which SQLite refuses.
\<close>

definition sql_select_images :: "cond list \<Rightarrow> db \<Rightarrow> py_error + image_row list" where
  "sql_select_images conds d =
     (if conds = [] then Inl (OperationalError ''near \"ORDER\": syntax error'')
      else case images_tbl d of
        None \<Rightarrow> Inl (no_such_table ''images'')
      | Some ims \<Rightarrow>
          (if list_ex is_tag_cond conds \<and> tags_tbl d = None then Inl (no_such_table ''tags'')
           else Inr (sort_desc_key im_added_time
                  (sql_distinct (filter (\<lambda>r. list_all (eval_cond (rows_of (tags_tbl d)) r) conds) ims)))))"

text \<open>
  The loop over the result rows: read the image's tags, print them, and ask
  \<open>Open this image? [y/N]\<close>; the answer \<open>y\<close> (after \<open>strip().lower()\<close>) opens it.
\<close>

fun show_results :: "db \<Rightarrow> image_row list \<Rightarrow> stdin \<Rightarrow>
                     py_error + ((image_row \<times> py_dict \<times> bool) list \<times> stdin)" where
  "show_results d [] inp = Inr ([], inp)"
| "show_results d (r # rs) inp =
     (case get_all_tags_for_image d (im_id r) of
        Inl e \<Rightarrow> Inl e
      | Inr tg \<Rightarrow>
          (case py_input inp of
             Inl e \<Rightarrow> Inl e
           | Inr (ans, inp') \<Rightarrow>
               (case show_results d rs inp' of
                  Inl e \<Rightarrow> Inl e
                | Inr (out, inp'') \<Rightarrow> Inr ((r, tg, py_lower (py_strip ans) = ''y'') # out, inp''))))"

definition search_images_by_tags :: "py_dict \<Rightarrow> string option \<Rightarrow> string option \<Rightarrow> db \<Rightarrow> stdin \<Rightarrow>
                                     py_error + ((image_row \<times> py_dict \<times> bool) list \<times> stdin)" where
  "search_images_by_tags filters pc date d inp =
     (case sql_select_images (search_conditions filters pc date) d of
        Inl e \<Rightarrow> Inl e
      | Inr rows \<Rightarrow> show_results d rows inp)"

subsection \<open>The filter prompt\<close>

text \<open>
  \<open>prompt_filters\<close>: the input line is stripped and split at commas; the items that
  contain \<open>=\<close> are stripped and split at \<open>=\<close>, and each must give exactly a key
  and a value, else unpacking raises \<open>ValueError\<close>. Later keys overwrite earlier ones.
\<close>

fun filter_dict :: "string list \<Rightarrow> py_dict \<Rightarrow> py_error + py_dict" where
  "filter_dict [] acc = Inr acc"
| "filter_dict (p # ps) acc =
     (case py_split (CHR ''='') p of
        [k, v] \<Rightarrow> filter_dict ps (AList.update (py_strip k) (py_strip v) acc)
      | _ \<Rightarrow> Inl (ValueError ''too many values to unpack (expected 2)''))"

definition prompt_filters :: "stdin \<Rightarrow> py_error + (py_dict \<times> stdin)" where
  "prompt_filters inp =
     (case py_input inp of
        Inl e \<Rightarrow> Inl e
      | Inr (line, inp') \<Rightarrow>
          (let raw = py_strip line;
               pairs = map py_strip (filter (\<lambda>item. CHR ''='' \<in> set item) (py_split (CHR '','') raw))
           in case filter_dict pairs [] of Inl e \<Rightarrow> Inl e | Inr fs \<Rightarrow> Inr (fs, inp')))"

declare list_tag_categories_def [sql_defs] list_values_for_category_def [sql_defs]
  value_group_def [sql_defs] group_by_tag_def [sql_defs] get_all_tags_for_image_def [sql_defs]
  search_conditions_def [sql_defs] sql_select_images_def [sql_defs]
  search_images_by_tags_def [sql_defs] prompt_filters_def [sql_defs]

subsection \<open>The search query\<close>

lemma list_all_tag_conds:
  "list_all (eval_cond ts r) (map (\<lambda>(c, v). TagIs c v) filters) \<longleftrightarrow>
     (\<forall>(c, v) \<in> set filters. \<exists>t \<in> set ts. tg_image_id t = im_id r \<and> tg_category t = c \<and> tg_value t = v)"
  by (induction filters) (auto simp: list_ex_iff)

lemma list_all_search_conditions:
  "list_all (eval_cond ts r) (search_conditions filters pc date) \<longleftrightarrow>
     (\<forall>(c, v) \<in> set filters. \<exists>t \<in> set ts. tg_image_id t = im_id r \<and> tg_category t = c \<and> tg_value t = v) \<and>
     (py_truthy_str pc \<longrightarrow> im_pc_name r = the pc) \<and>
     (py_truthy_str date \<longrightarrow> the date \<le> im_added_time r)"
  by (simp add: search_conditions_def list_all_tag_conds)

lemma search_conditions_tag [simp]:
  "list_ex is_tag_cond (search_conditions filters pc date) \<longleftrightarrow> filters \<noteq> []"
  by (cases filters) (auto simp: search_conditions_def)

lemma search_conditions_empty:
  "search_conditions filters pc date = [] \<longleftrightarrow>
     filters = [] \<and> \<not> py_truthy_str pc \<and> \<not> py_truthy_str date"
  by (simp add: search_conditions_def)

lemma sql_select_images_ok:
  assumes "conds \<noteq> []" and "images_tbl d = Some ims" and "tags_tbl d = Some ts"
  shows "sql_select_images conds d =
           Inr (sort_desc_key im_added_time (sql_distinct (filter (\<lambda>r. list_all (eval_cond ts r) conds) ims)))"
  using assms by (simp add: sql_select_images_def)

text \<open>
  C1. Conjunctive matching: with both tables present and at least one condition, the
  search query returns exactly the stored images that carry, for every filter pair, a tag
  row with that category and that value (extra tags and extra values do not matter),
  that were inserted on the given host if one is given, and whose insertion time is not
  before the given date if one is given.
\<close>

theorem search_conjunctive:
  assumes "images_tbl d = Some ims" and "tags_tbl d = Some ts"
    and "search_conditions filters pc date \<noteq> []"
  shows "\<exists>rows. sql_select_images (search_conditions filters pc date) d = Inr rows \<and>
           set rows = {r \<in> set ims.
             (\<forall>(c, v) \<in> set filters. \<exists>t \<in> set ts. tg_image_id t = im_id r \<and> tg_category t = c \<and> tg_value t = v) \<and>
             (py_truthy_str pc \<longrightarrow> im_pc_name r = the pc) \<and>
             (py_truthy_str date \<longrightarrow> the date \<le> im_added_time r)}"
  using sql_select_images_ok [OF assms(3,1,2)] by (auto simp: list_all_search_conditions)

text \<open>
  C2. The rows of a search come most recent first (\<open>added_time\<close> descending) and no
  image appears twice.
\<close>

theorem search_order_distinct:
  assumes "wf_db d" and "sql_select_images conds d = Inr rows"
  shows "sorted_wrt (\<lambda>a b. im_added_time b \<le> im_added_time a) rows \<and> distinct (map im_id rows)"
proof -
  let ?P = "\<lambda>r. list_all (eval_cond (rows_of (tags_tbl d)) r) conds"
  obtain ims where ims: "images_tbl d = Some ims"
    and rows: "rows = sort_desc_key im_added_time (sql_distinct (filter ?P ims))"
    using assms(2) by (auto simp: sql_select_images_def split: option.splits if_splits)
  have dm: "distinct (map im_id ims)"
    using wf_db_image_ids_distinct [OF assms(1)] ims by (simp add: image_ids_def)
  then have "distinct (filter ?P ims)" by (simp add: distinct_map)
  with rows have rows': "rows = sort_desc_key im_added_time (filter ?P ims)" by simp
  have "mset (map im_id rows) = mset (map im_id (filter ?P ims))"
    by (simp add: rows')
  moreover have "distinct (map im_id (filter ?P ims))"
    using dm by (simp add: distinct_map_filter)
  ultimately have "distinct (map im_id rows)"
    by (metis mset_eq_imp_distinct_iff)
  with rows show ?thesis by (simp add: sorted_sort_desc_key)
qed

text \<open>
  C3. A search with no tag filter, no host and no date builds the query text
  \<open>WHERE ORDER BY ...\<close>, which SQLite rejects: the call raises
  \<open>sqlite3.OperationalError\<close> on every database instead of listing the whole catalog.
\<close>

theorem search_without_constraints_fails:
  assumes "\<not> py_truthy_str pc" and "\<not> py_truthy_str date"
  shows "search_images_by_tags [] pc date d inp = Inl (OperationalError ''near \"ORDER\": syntax error'')"
  using assms by (simp add: search_images_by_tags_def sql_select_images_def search_conditions_empty)

subsection \<open>Showing the results\<close>

lemma show_results_ok:
  "tags_tbl d = Some ts \<Longrightarrow> length rows \<le> length inp \<Longrightarrow>
   show_results d rows inp =
     Inr (map2 (\<lambda>r a. (r, py_dict_of (tag_pairs ts (im_id r)), py_lower (py_strip a) = ''y''))
            rows (take (length rows) inp), drop (length rows) inp)"
proof (induction rows arbitrary: inp)
  case (Cons r rows)
  then obtain a inp' where "inp = a # inp'" by (cases inp) auto
  with Cons show ?case
    by (simp add: get_all_tags_for_image_def sql_select_tags_of_def)
qed simp

lemma show_results_eof:
  "tags_tbl d = Some ts \<Longrightarrow> length inp < length rows \<Longrightarrow> show_results d rows inp = Inl EOFError"
proof (induction rows arbitrary: inp)
  case (Cons r rows)
  then show ?case
    by (cases inp) (simp_all add: get_all_tags_for_image_def sql_select_tags_of_def split: sum.split)
qed simp

subsection \<open>Listings and counts\<close>

text \<open>
  C9. Both listings read the tags table once and name each category (each value of the
  category) exactly once: no duplicates, nothing missing, nothing invented.
\<close>

theorem listings_distinct_complete:
  assumes "tags_tbl d = Some ts"
  shows "(\<exists>cs. list_tag_categories d = Inr cs \<and> distinct cs \<and> set cs = tg_category ` set ts) \<and>
         (\<exists>vs. list_values_for_category cat d = Inr vs \<and> distinct vs \<and>
                set vs = tg_value ` {t \<in> set ts. tg_category t = cat})"
  using assms by (simp add: list_tag_categories_def list_values_for_category_def)

lemma distinct_fst_of_pairs:
  "distinct (map (\<lambda>t. (f t, g t)) xs) \<Longrightarrow> \<forall>t \<in> set xs. g t = c \<Longrightarrow> distinct (map f xs)"
  by (induction xs) (auto simp: image_iff)

lemma wf_db_category_images_distinct:
  assumes "wf_db d" and "tags_tbl d = Some ts"
  shows "distinct (map tg_image_id (filter (\<lambda>t. tg_category t = cat) ts))"
proof -
  have "distinct (map (\<lambda>t. (tg_image_id t, tg_category t)) ts)"
    using assms by (simp add: wf_db_def)
  then have "distinct (map (\<lambda>t. (tg_image_id t, tg_category t)) (filter (\<lambda>t. tg_category t = cat) ts))"
    by (simp add: distinct_map_filter)
  then show ?thesis by (rule distinct_fst_of_pairs [where c = cat]) simp
qed

lemma map_fst_drop_third: "map fst (map (\<lambda>(v, n, _). (v, n)) xs) = map fst xs"
  by (induction xs) auto

lemma map_fst_value_group: "map fst (map (value_group rows) vs) = vs"
  by (induction vs) (simp_all add: value_group_def Let_def)

lemma value_group_counts:
  "value_group rows v = (v, card (tg_image_id ` {t \<in> set rows. tg_value t = v}), length (filter (\<lambda>t. tg_value t = v) rows))"
  by (simp add: value_group_def Let_def length_remdups_card_conv)

lemma value_group_unique_images:
  "distinct (map tg_image_id rows) \<Longrightarrow> fst (snd (value_group rows v)) = snd (snd (value_group rows v))"
  by (simp add: value_group_def Let_def distinct_map_filter distinct_remdups_id)

text \<open>
  C7. The per-value counts: every value of the category appears once, paired with the
  number of distinct images that carry it, and on a well-formed catalog (one tag per
  category per image) the list is ordered by that count, largest first; the query orders
  by \<open>COUNT(*)\<close>, which agrees with the displayed count exactly because of that
  invariant.
\<close>

theorem group_by_tag_counts:
  assumes "wf_db d" and "tags_tbl d = Some ts"
  shows "\<exists>out. group_by_tag cat d = Inr out \<and> distinct (map fst out) \<and>
           set (map fst out) = tg_value ` {t \<in> set ts. tg_category t = cat} \<and>
           (\<forall>(v, n) \<in> set out. n = card (tg_image_id ` {t \<in> set ts. tg_category t = cat \<and> tg_value t = v})) \<and>
           sorted_wrt (\<lambda>a b. snd b \<le> snd a) out"
proof -
  let ?rows = "filter (\<lambda>t. tg_category t = cat) ts"
  let ?groups = "map (value_group ?rows) (sort (remdups (map tg_value ?rows)))"
  let ?sorted = "sort_desc_key (\<lambda>(_, _, k). k) ?groups"
  let ?out = "map (\<lambda>(v, n, _). (v, n)) ?sorted"
  have out: "group_by_tag cat d = Inr ?out"
    using assms(2) by (simp add: group_by_tag_def Let_def)
  have fsts: "map fst ?out = map fst ?sorted" by (rule map_fst_drop_third)
  have "mset (map fst ?sorted) = mset (map fst ?groups)"
    by (simp only: mset_map mset_sort_desc_key)
  then have "mset (map fst ?sorted) = mset (sort (remdups (map tg_value ?rows)))"
    by (simp only: map_fst_value_group)
  then have keys: "distinct (map fst ?out) \<and> set (map fst ?out) = tg_value ` {t \<in> set ts. tg_category t = cat}"
    unfolding fsts using mset_eq_imp_distinct_iff mset_eq_setD by fastforce
  have counts: "\<forall>(v, n) \<in> set ?out. n = card (tg_image_id ` {t \<in> set ts. tg_category t = cat \<and> tg_value t = v})"
    by (auto simp: value_group_counts)
  have dist: "distinct (map tg_image_id ?rows)"
    by (rule wf_db_category_images_distinct [OF assms])
  have S: "sorted_wrt (\<lambda>a b. (\<lambda>(_, _, k). k) b \<le> (\<lambda>(_, _, k). k) a) ?sorted"
    by (rule sorted_sort_desc_key)
  have eq: "fst (snd g) = snd (snd g)" if "g \<in> set ?sorted" for g
    using that value_group_unique_images [OF dist] by auto
  have "sorted_wrt (\<lambda>a b. fst (snd b) \<le> fst (snd a)) ?sorted"
  proof (rule sorted_wrt_mono_rel [OF _ S])
    fix x y
    assume x: "x \<in> set ?sorted" and y: "y \<in> set ?sorted"
      and le: "(\<lambda>(_, _, k). k) y \<le> (\<lambda>(_, _, k). k) x"
    from le eq [OF x] eq [OF y] show "fst (snd y) \<le> fst (snd x)" by (simp add: split_beta)
  qed
  then have "sorted_wrt (\<lambda>a b. snd b \<le> snd a) ?out"
    by (simp add: sorted_wrt_map split_beta)
  with out keys counts show ?thesis by blast
qed

end
