(* ===== verification/Workflow.thy ===== *)
theory Workflow
  imports Store
begin

text \<open>
  The interactive tagging workflow of src/tagger.py on top of the catalog store:
  \<open>prompt_tags\<close> reads one line per field, \<open>tag_image\<close> checks the file, asks whether
  to overwrite an image already in the catalog, asks for the tags and for confirmation and
  inserts, and \<open>run_batch\<close> does this for every \<open>.jpg\<close>/\<open>.png\<close> file of a folder,
  passing the last saved tags on as defaults. Standard input is a list of lines (running out
  raises \<open>EOFError\<close>); the operating system (\<open>os.path.isfile\<close>, \<open>os.path.isdir\<close>,
  \<open>os.listdir\<close>, \<open>socket.gethostname\<close>) is the record \<open>os_env\<close>; the insertion
  time of the \<open>n\<close>-th file of a batch is \<open>clock n\<close>. The allowed values of
  tags_list.json are \<open>vocab\<close>; a value outside them is only reported.
\<close>

type_synonym vocab = "(string \<times> string list) list"

record os_env =
  is_file :: "path \<Rightarrow> bool"
  is_dir :: "path \<Rightarrow> bool"
  listdir :: "path \<Rightarrow> string list"
  hostname :: host

definition tagger_fields :: "string list" where
  "tagger_fields = [''material'', ''thickness'', ''used'', ''deviceID'', ''note'', ''operator'']"

definition not_allowed :: "vocab \<Rightarrow> string \<Rightarrow> string \<Rightarrow> bool" where
  "not_allowed voc key val = (case map_of voc key of None \<Rightarrow> False | Some allowed \<Rightarrow> val \<notin> set allowed)"

text \<open>
  One field: the stripped answer, or the previous value of the field when the answer is
  empty and there are previous tags (\<open>last_tags.get(key, "")\<close>).
\<close>

definition field_value :: "py_dict \<Rightarrow> string \<Rightarrow> string \<Rightarrow> string" where
  "field_value last_tags key line =
     (let val0 = py_strip line in if val0 = [] \<and> last_tags \<noteq> [] then py_get last_tags key [] else val0)"

text \<open>The loop of \<open>prompt_tags\<close> over the fields; it returns the dict and the warned keys.\<close>

fun prompt_fields :: "vocab \<Rightarrow> py_dict \<Rightarrow> string list \<Rightarrow> stdin \<Rightarrow> py_dict \<Rightarrow> string list \<Rightarrow>
                      py_error + ((py_dict \<times> string list) \<times> stdin)" where
  "prompt_fields voc last_tags [] inp tags warns = Inr ((tags, warns), inp)"
| "prompt_fields voc last_tags (key # keys) inp tags warns =
     (case py_input inp of
        Inl e \<Rightarrow> Inl e
      | Inr (line, inp') \<Rightarrow>
          (let val = field_value last_tags key line
           in if val \<noteq> []
              then prompt_fields voc last_tags keys inp' (AList.update key val tags)
                     (warns @ (if not_allowed voc key val then [key] else []))
              else prompt_fields voc last_tags keys inp' tags warns))"

definition prompt_tags :: "vocab \<Rightarrow> py_dict \<Rightarrow> stdin \<Rightarrow> py_error + ((py_dict \<times> string list) \<times> stdin)" where
  "prompt_tags voc last_tags inp = prompt_fields voc last_tags tagger_fields inp [] []"

definition py_answer :: "string \<Rightarrow> string" where
  "py_answer s = py_lower (py_strip s)"

text \<open>
  From \<open>tags = prompt_tags(last_tags)\<close> on: ask \<open>Save these tags? [Y/n]\<close>; \<open>n\<close>
  cancels, anything else saves. A failing insert is caught and reported; the previous
  defaults are kept.
\<close>

definition tag_and_save :: "vocab \<Rightarrow> host \<Rightarrow> timestamp \<Rightarrow> path \<Rightarrow> py_dict \<Rightarrow> db \<Rightarrow> stdin \<Rightarrow>
                            py_error + ((py_dict \<times> db) \<times> stdin)" where
  "tag_and_save voc pc now fp last_tags d inp =
     (case prompt_tags voc last_tags inp of
        Inl e \<Rightarrow> Inl e
      | Inr ((tags, _), inp1) \<Rightarrow>
          (case py_input inp1 of
             Inl e \<Rightarrow> Inl e
           | Inr (confirm, inp2) \<Rightarrow>
               (if py_answer confirm = ''n'' then Inr ((last_tags, d), inp2)
                else (case insert_image_with_tags pc now fp tags d of
                        (Inl _, d') \<Rightarrow> Inr ((last_tags, d'), inp2)
                      | (Inr _, d') \<Rightarrow> Inr ((tags, d'), inp2)))))"

definition tag_image :: "vocab \<Rightarrow> os_env \<Rightarrow> timestamp \<Rightarrow> path \<Rightarrow> py_dict \<Rightarrow> db \<Rightarrow> stdin \<Rightarrow>
                         py_error + ((py_dict \<times> db) \<times> stdin)" where
  "tag_image voc env now fp last_tags d inp =
     (if \<not> is_file env fp then Inr ((last_tags, d), inp)
      else case image_exists fp d of
        Inl e \<Rightarrow> Inl e
      | Inr existing \<Rightarrow>
          (if existing \<noteq> None \<and> the existing \<noteq> 0
           then (case get_tags_for_image (the existing) d of
                   Inl e \<Rightarrow> Inl e
                 | Inr _ \<Rightarrow>
                     (case py_input inp of
                        Inl e \<Rightarrow> Inl e
                      | Inr (action, inp1) \<Rightarrow>
                          (if py_answer action \<noteq> ''y'' then Inr ((last_tags, d), inp1)
                           else tag_and_save voc (hostname env) now fp last_tags d inp1)))
           else tag_and_save voc (hostname env) now fp last_tags d inp))"

text \<open>\<open>os.path.join(folder, fname)\<close> for a name without a separator (POSIX).\<close>

definition path_join :: "path \<Rightarrow> string \<Rightarrow> path" where
  "path_join folder name =
     (if folder = [] \<or> last folder = CHR ''/'' then folder @ name else folder @ ''/'' @ name)"

definition is_image_name :: "string \<Rightarrow> bool" where
  "is_image_name f = (py_endswith (py_lower f) ''.jpg'' \<or> py_endswith (py_lower f) ''.png'')"

fun batch_loop :: "vocab \<Rightarrow> os_env \<Rightarrow> (nat \<Rightarrow> timestamp) \<Rightarrow> nat \<Rightarrow> path \<Rightarrow> string list \<Rightarrow>
                   py_dict \<Rightarrow> db \<Rightarrow> stdin \<Rightarrow> py_error + ((py_dict \<times> db) \<times> stdin)" where
  "batch_loop voc env clock n folder [] last_tags d inp = Inr ((last_tags, d), inp)"
| "batch_loop voc env clock n folder (f # fs) last_tags d inp =
     (case tag_image voc env (clock n) (path_join folder f) last_tags d inp of
        Inl e \<Rightarrow> Inl e
      | Inr ((last_tags', d'), inp') \<Rightarrow> batch_loop voc env clock (Suc n) folder fs last_tags' d' inp')"

definition run_batch :: "vocab \<Rightarrow> os_env \<Rightarrow> (nat \<Rightarrow> timestamp) \<Rightarrow> db \<Rightarrow> stdin \<Rightarrow> py_error + (db \<times> stdin)" where
  "run_batch voc env clock d inp =
     (case py_input inp of
        Inl e \<Rightarrow> Inl e
      | Inr (line, inp1) \<Rightarrow>
          (let folder = py_strip line in
           if \<not> is_dir env folder then Inr (d, inp1)
           else (let files = filter is_image_name (listdir env folder) in
                 if files = [] then Inr (d, inp1)
                 else (case batch_loop voc env clock 0 folder files [] d inp1 of
                         Inl e \<Rightarrow> Inl e
                       | Inr ((_, d'), inp2) \<Rightarrow> Inr (d', inp2)))))"

text \<open>The catalog only grows: both tables keep their rows and may get new rows appended.\<close>

definition appends_only :: "db \<Rightarrow> db \<Rightarrow> bool" where
  "appends_only d d' \<longleftrightarrow>
     (\<exists>ns. rows_of (images_tbl d') = rows_of (images_tbl d) @ ns) \<and>
     (\<exists>nt. rows_of (tags_tbl d') = rows_of (tags_tbl d) @ nt)"

declare tagger_fields_def [py_defs] not_allowed_def [py_defs] field_value_def [py_defs] prompt_tags_def [py_defs]
  py_answer_def [py_defs] tag_and_save_def [py_defs] tag_image_def [py_defs]
  path_join_def [py_defs] is_image_name_def [py_defs] run_batch_def [py_defs]

subsection \<open>Prompting for the tags\<close>

lemma prompt_fields_result:
  assumes "length keys \<le> length inp" and "distinct keys" and "set keys \<inter> fst ` set tags = {}"
  shows "\<exists>warns'. prompt_fields voc lt keys inp tags warns =
           Inr ((tags @ filter (\<lambda>(k, v). v \<noteq> []) (zip keys (map2 (field_value lt) keys inp)), warns'),
                drop (length keys) inp)"
  using assms
proof (induction keys arbitrary: inp tags warns)
  case Nil
  then show ?case by simp
next
  case (Cons key keys)
  then obtain line inp' where inp: "inp = line # inp'" by (cases inp) auto
  show ?case
  proof (cases "field_value lt key line = []")
    case True
    with Cons.IH [of inp' tags warns] Cons.prems inp show ?thesis by auto
  next
    case False
    have "key \<notin> fst ` set tags" using Cons.prems by auto
    with Cons.IH [of inp' "tags @ [(key, field_value lt key line)]"] Cons.prems inp False
    show ?thesis by (auto simp: Let_def)
  qed
qed

lemma prompt_fields_eof:
  "length inp < length keys \<Longrightarrow> prompt_fields voc lt keys inp tags warns = Inl EOFError"
proof (induction keys arbitrary: inp tags warns)
  case (Cons key keys)
  then show ?case by (cases inp) (auto simp: Let_def)
qed simp

lemma prompt_fields_distinct:
  "prompt_fields voc lt keys inp tags warns = Inr ((tags', warns'), inp') \<Longrightarrow>
   distinct (map fst tags) \<Longrightarrow> distinct (map fst tags')"
proof (induction voc lt keys inp tags warns rule: prompt_fields.induct)
  case (2 voc lt key keys inp tags warns)
  then show ?case
    by (auto simp: Let_def AList.distinct_update split: sum.splits prod.splits if_splits)
qed simp

text \<open>
  C13. \<open>prompt_tags\<close> reads exactly one line for each of the six fields
  \<open>material, thickness, used, deviceID, note, operator\<close>, in this order, and returns
  the fields whose value is non-empty, in field order; the value is the answer with
  surrounding white space stripped, or, when that is empty and previous tags exist, the
  previous value of the field (\<open>last_tags.get(key, "")\<close>). The allowed values only
  produce warnings and never change the dict. With fewer than six lines it raises
  \<open>EOFError\<close>.
\<close>

theorem prompt_tags_result:
  "(length inp < 6 \<longrightarrow> prompt_tags voc lt inp = Inl EOFError) \<and>
   (6 \<le> length inp \<longrightarrow>
      (\<exists>warns. prompt_tags voc lt inp =
         Inr ((filter (\<lambda>(k, v). v \<noteq> [])
                 (zip [''material'', ''thickness'', ''used'', ''deviceID'', ''note'', ''operator'']
                   (map2 (\<lambda>key line. if py_strip line = [] \<and> lt \<noteq> [] then py_get lt key [] else py_strip line)
                      [''material'', ''thickness'', ''used'', ''deviceID'', ''note'', ''operator''] inp)), warns),
              drop 6 inp)))"
proof -
  have fv: "field_value lt = (\<lambda>key line. if py_strip line = [] \<and> lt \<noteq> [] then py_get lt key [] else py_strip line)"
    by (intro ext) (simp add: field_value_def Let_def)
  have len: "length tagger_fields = 6" and dist: "distinct tagger_fields"
    by (simp_all add: tagger_fields_def)
  show ?thesis
    unfolding tagger_fields_def [symmetric] prompt_tags_def
    using prompt_fields_result [of tagger_fields inp "[]" voc lt "[]"] prompt_fields_eof [of inp tagger_fields voc lt "[]" "[]"]
    by (simp add: len dist fv)
qed

subsection \<open>What one tagging step does to the catalog\<close>

lemma tag_and_save_effect:
  assumes wf: "wf_db d" and run: "tag_and_save voc pc now fp lt d inp = Inr ((lt', d'), inp')"
  shows "d' = d \<or> (\<exists>tags. distinct (map fst tags) \<and> \<not> insert_fails tags d \<and> d' = inserted_db d now fp pc tags)"
proof -
  from run obtain tags w inp1 where pt: "prompt_tags voc lt inp = Inr ((tags, w), inp1)"
    by (auto simp: tag_and_save_def split: sum.splits prod.splits)
  have dist: "distinct (map fst tags)"
    using prompt_fields_distinct pt by (fastforce simp: prompt_tags_def)
  show ?thesis
  proof (cases "py_input inp1")
    case (Inl e)
    with run pt show ?thesis by (simp add: tag_and_save_def)
  next
    case (Inr p)
    obtain confirm inp2 where p: "p = (confirm, inp2)" by (cases p)
    show ?thesis
    proof (cases "py_answer confirm = ''n''")
      case True
      with run pt Inr p show ?thesis by (simp add: tag_and_save_def)
    next
      case False
      obtain r d'' where ins_eq: "insert_image_with_tags pc now fp tags d = (r, d'')"
        by (cases "insert_image_with_tags pc now fp tags d")
      with run pt Inr p False have "d'' = d'"
        by (cases r) (simp_all add: tag_and_save_def)
      with ins_eq have ins: "snd (insert_image_with_tags pc now fp tags d) = d'" by simp
      from insert_image_with_tags_effect [OF wf, of pc now fp tags]
      have "d' = d \<or> (\<not> insert_fails tags d \<and> d' = inserted_db d now fp pc tags)"
      proof
        assume "snd (insert_image_with_tags pc now fp tags d) = d"
        with ins show ?thesis by simp
      next
        assume "\<not> insert_fails tags d \<and>
                insert_image_with_tags pc now fp tags d = (Inr (), inserted_db d now fp pc tags)"
        with ins show ?thesis by simp
      qed
      with dist show ?thesis by blast
    qed
  qed
qed

lemma tag_image_effect:
  assumes wf: "wf_db d" and run: "tag_image voc env now fp lt d inp = Inr ((lt', d'), inp')"
  shows "d' = d \<or>
         (\<exists>tags. distinct (map fst tags) \<and> \<not> insert_fails tags d \<and> d' = inserted_db d now fp (hostname env) tags)"
  using run tag_and_save_effect [OF wf]
  by (auto simp: tag_image_def split: if_splits sum.splits prod.splits option.splits)

lemma inserted_db_appends: "appends_only d (inserted_db d now fp pc tags)"
  by (cases "tags_tbl d") (auto simp: appends_only_def inserted_db_def)

lemma appends_only_refl: "appends_only d d"
  by (auto simp: appends_only_def)

lemma appends_only_trans: "appends_only d1 d2 \<Longrightarrow> appends_only d2 d3 \<Longrightarrow> appends_only d1 d3"
  by (auto simp: appends_only_def)

lemma tag_image_wf_appends:
  assumes "wf_db d" and "tag_image voc env now fp lt d inp = Inr ((lt', d'), inp')"
  shows "wf_db d' \<and> appends_only d d'"
  using tag_image_effect [OF assms] wf_db_inserted [OF assms(1)] assms(1)
  by (auto simp: inserted_db_appends appends_only_refl)

text \<open>
  C11. Tagging a file, including the overwrite path confirmed with \<open>y\<close>, never changes
  what the catalog says about an image already stored under a path: \<open>image_exists\<close>
  still finds the same id and that image keeps its tags. An overwrite adds a second
  image row with the same path instead of replacing the tags.
\<close>

theorem tag_image_keeps_existing:
  assumes "wf_db d" and "image_exists fp d = Inr (Some i)"
    and "tag_image voc env now fp' lt d inp = Inr ((lt', d'), inp')"
  shows "image_exists fp d' = Inr (Some i) \<and> get_tags_for_image i d' = get_tags_for_image i d"
  using tag_image_effect [OF assms(1,3)] image_exists_inserted [OF assms(2)]
    get_tags_inserted_other [OF image_exists_not_new [OF assms(1,2)]] assms(2)
  by auto

subsection \<open>Batch mode\<close>

lemma batch_loop_wf_appends:
  "wf_db d \<Longrightarrow> batch_loop voc env clock n folder fs lt d inp = Inr ((lt', d'), inp') \<Longrightarrow>
   wf_db d' \<and> appends_only d d'"
proof (induction fs arbitrary: n lt d inp)
  case Nil
  then show ?case by (simp add: appends_only_refl)
next
  case (Cons f fs)
  from Cons.prems obtain lt1 d1 inp1 where
    step: "tag_image voc env (clock n) (path_join folder f) lt d inp = Inr ((lt1, d1), inp1)"
    and rest: "batch_loop voc env clock (Suc n) folder fs lt1 d1 inp1 = Inr ((lt', d'), inp')"
    by (auto split: sum.splits prod.splits)
  from tag_image_wf_appends [OF Cons.prems(1) step] have "wf_db d1" and "appends_only d d1" by auto
  with Cons.IH [OF _ rest] show ?case by (blast intro: appends_only_trans)
qed

text \<open>
  C12. A batch run keeps the catalog well formed and append-only: whatever the folder
  holds and whatever the user answers, when \<open>run_batch\<close> returns, the rows that were
  in both tables are still there, in order, and the invariant holds.
\<close>

theorem run_batch_wf_appends:
  assumes "wf_db d" and "run_batch voc env clock d inp = Inr (d', inp')"
  shows "wf_db d' \<and> appends_only d d'"
  using assms batch_loop_wf_appends [OF assms(1)]
  by (auto simp: run_batch_def Let_def appends_only_refl split: sum.splits prod.splits if_splits)

end
