(* ===== verification/DateCheck.thy ===== *)
theory DateCheck
  imports Prelude "HOL-Library.Product_Lexorder"
begin

text \<open>
  The date check of the search menu of src/search.py (\<open>main\<close>, option 1):
  \<open>datetime.datetime.strptime(date_filter, '%Y-%m-%d')\<close> decides whether the typed date
  is kept, and the kept text is then compared with the stored \<open>added_time\<close> as TEXT
  (\<open>images.added_time >= ?\<close>). CPython's \<open>_strptime\<close> turns the format into the
  regular expression
  \<open>(?P<Y>\d\d\d\d)-(?P<m>1[0-2]|0[1-9]|[1-9])-(?P<d>3[01]|[12]\d|0[1-9]|[1-9]| [1-9])\<close>,
  applies \<open>re.match\<close> (anchored at the start only, alternatives tried left to right
  with backtracking), raises \<open>ValueError\<close> when nothing matches or when text is left
  after the match, converts the groups with \<open>int\<close>, and raises \<open>ValueError\<close> when
  \<open>datetime.date(year, month, day)\<close> is out of range. Digits are ASCII here
  (\<open>\d\<close> also matches other Unicode digits, which the byte strings of the model do
  not contain); the repr in the first message assumes a text without quotes.
  SQLite stores \<open>CURRENT_TIMESTAMP\<close> as \<open>YYYY-MM-DD HH:MM:SS\<close>.
\<close>

definition char_in :: "char \<Rightarrow> char \<Rightarrow> char \<Rightarrow> bool" where
  "char_in lo hi c \<longleftrightarrow> lo \<le> c \<and> c \<le> hi"

definition is_digit :: "char \<Rightarrow> bool" where
  "is_digit c \<longleftrightarrow> char_in CHR ''0'' CHR ''9'' c"

fun digits_val :: "string \<Rightarrow> nat" where
  "digits_val [] = 0"
| "digits_val (c # cs) = (of_char c - 48) * 10 ^ length cs + digits_val cs"

text \<open>\<open>int(group)\<close>: the digits of the group (\<open>int\<close> strips the blank of \<open>' 5'\<close>).\<close>

definition py_int :: "string \<Rightarrow> nat" where
  "py_int s = digits_val (filter is_digit s)"

text \<open>
  The alternatives of \<open>%m\<close> and \<open>%d\<close> that match a prefix of the text, as the lengths of
  those prefixes, in the order the regular expression engine tries them.
\<close>

definition re_month :: "string \<Rightarrow> nat list" where
  "re_month s =
     (if 2 \<le> length s \<and> s ! 0 = CHR ''1'' \<and> char_in CHR ''0'' CHR ''2'' (s ! 1) then [2] else []) @
     (if 2 \<le> length s \<and> s ! 0 = CHR ''0'' \<and> char_in CHR ''1'' CHR ''9'' (s ! 1) then [2] else []) @
     (if 1 \<le> length s \<and> char_in CHR ''1'' CHR ''9'' (s ! 0) then [1] else [])"

definition re_day :: "string \<Rightarrow> nat list" where
  "re_day s =
     (if 2 \<le> length s \<and> s ! 0 = CHR ''3'' \<and> char_in CHR ''0'' CHR ''1'' (s ! 1) then [2] else []) @
     (if 2 \<le> length s \<and> char_in CHR ''1'' CHR ''2'' (s ! 0) \<and> is_digit (s ! 1) then [2] else []) @
     (if 2 \<le> length s \<and> s ! 0 = CHR ''0'' \<and> char_in CHR ''1'' CHR ''9'' (s ! 1) then [2] else []) @
     (if 1 \<le> length s \<and> char_in CHR ''1'' CHR ''9'' (s ! 0) then [1] else []) @
     (if 2 \<le> length s \<and> s ! 0 = CHR '' '' \<and> char_in CHR ''1'' CHR ''9'' (s ! 1) then [2] else [])"

text \<open>
  \<open>re.match\<close>: the first way, in backtracking order, to read four digits, \<open>-\<close>, a month,
  \<open>-\<close> and a day; the result is the year, month and day groups and the unmatched rest.
\<close>

definition day_after :: "string \<Rightarrow> string \<Rightarrow> nat \<Rightarrow> (string \<times> string \<times> string \<times> string) option" where
  "day_after ys r n =
     (let r' = drop n r in
      if r' \<noteq> [] \<and> hd r' = CHR ''-''
      then (case re_day (tl r') of
              [] \<Rightarrow> None
            | k # _ \<Rightarrow> Some (ys, take n r, take k (tl r'), drop k (tl r')))
      else None)"

definition strptime_match :: "string \<Rightarrow> (string \<times> string \<times> string \<times> string) option" where
  "strptime_match s =
     (if 5 \<le> length s \<and> list_all is_digit (take 4 s) \<and> s ! 4 = CHR ''-''
      then (case List.map_filter (day_after (take 4 s) (drop 5 s)) (re_month (drop 5 s)) of
              [] \<Rightarrow> None
            | m # _ \<Rightarrow> Some m)
      else None)"

definition is_leap :: "nat \<Rightarrow> bool" where
  "is_leap y \<longleftrightarrow> y mod 4 = 0 \<and> (y mod 100 \<noteq> 0 \<or> y mod 400 = 0)"

definition days_in_month :: "nat \<Rightarrow> nat \<Rightarrow> nat" where
  "days_in_month y m =
     (if m = 2 then (if is_leap y then 29 else 28)
      else if m \<in> {4, 6, 9, 11} then 30 else 31)"

definition py_quote :: "string \<Rightarrow> string" where
  "py_quote s = CHR 0x27 # s @ [CHR 0x27]"

definition strptime_ymd :: "string \<Rightarrow> py_error + (nat \<times> nat \<times> nat)" where
  "strptime_ymd s =
     (case strptime_match s of
        None \<Rightarrow> Inl (ValueError (''time data '' @ py_quote s @ '' does not match format '' @ py_quote ''%Y-%m-%d''))
      | Some (ys, ms, ds, rest) \<Rightarrow>
          (if rest \<noteq> [] then Inl (ValueError (''unconverted data remains: '' @ rest))
           else (let y = py_int ys; m = py_int ms; d = py_int ds in
                 if y = 0 then Inl (ValueError ''year 0 is out of range'')
                 else if days_in_month y m < d then Inl (ValueError ''day is out of range for month'')
                 else Inr (y, m, d))))"

text \<open>The canonical text \<open>YYYY-MM-DD\<close> and the calendar date it (or a timestamp) starts with.\<close>

definition canonical_date :: "string \<Rightarrow> bool" where
  "canonical_date s \<longleftrightarrow>
     length s = 10 \<and> list_all is_digit (take 4 s) \<and> s ! 4 = CHR ''-'' \<and>
     list_all is_digit (take 2 (drop 5 s)) \<and> s ! 7 = CHR ''-'' \<and> list_all is_digit (drop 8 s)"

definition date_fields :: "string \<Rightarrow> nat \<times> nat \<times> nat" where
  "date_fields s = (digits_val (take 4 s), digits_val (take 2 (drop 5 s)), digits_val (take 2 (drop 8 s)))"

text \<open>The dates \<open>datetime.date(year, month, day)\<close> accepts (years have four digits here).\<close>

definition valid_ymd :: "nat \<times> nat \<times> nat \<Rightarrow> bool" where
  "valid_ymd ymd \<longleftrightarrow>
     (case ymd of (y, m, d) \<Rightarrow> 1 \<le> y \<and> 1 \<le> m \<and> m \<le> 12 \<and> 1 \<le> d \<and> d \<le> days_in_month y m)"

definition sqlite_timestamp :: "string \<Rightarrow> bool" where
  "sqlite_timestamp t \<longleftrightarrow>
     length t = 19 \<and> canonical_date (take 10 t) \<and> t ! 10 = CHR '' '' \<and>
     list_all is_digit (take 2 (drop 11 t)) \<and> t ! 13 = CHR '':'' \<and>
     list_all is_digit (take 2 (drop 14 t)) \<and> t ! 16 = CHR '':'' \<and> list_all is_digit (drop 17 t)"

lemma map_filter_hd:
  "List.map_filter f xs = y # ys \<Longrightarrow> \<exists>x \<in> set xs. f x = Some y"
  by (induction xs) (auto split: option.splits if_splits)

lemma char_in_digit:
  "char_in lo hi c \<Longrightarrow> CHR ''0'' \<le> lo \<Longrightarrow> hi \<le> CHR ''9'' \<Longrightarrow> is_digit c"
  unfolding is_digit_def char_in_def by (meson order_trans)

lemma re_month_mem:
  assumes "n \<in> set (re_month s)"
  shows "(n = 1 \<or> n = 2) \<and> n \<le> length s \<and> (\<forall>i < n. is_digit (s ! i))"
  using assms
  by (auto simp: re_month_def less_Suc_eq numeral_2_eq_2 split: if_splits
           intro: char_in_digit) (auto simp: is_digit_def char_in_def less_eq_char_def)

lemma re_day_mem:
  assumes "k \<in> set (re_day s)"
  shows "(k = 1 \<or> k = 2) \<and> k \<le> length s \<and> (\<forall>i < k. is_digit (s ! i) \<or> s ! i = CHR '' '')"
  using assms
  by (auto simp: re_day_def less_Suc_eq numeral_2_eq_2 split: if_splits
           intro: char_in_digit) (auto simp: is_digit_def char_in_def less_eq_char_def)

lemma list_all_take_nth:
  "n \<le> length s \<Longrightarrow> list_all P (take n s) \<longleftrightarrow> (\<forall>i < n. P (s ! i))"
  by (auto simp: list_all_length)

lemma char_eq_code:
  "c = d \<longleftrightarrow> (of_char c :: nat) = of_char d"
  by simp

lemma take_two:
  "2 \<le> length r \<Longrightarrow> take 2 r = [r ! 0, r ! 1]"
  by (cases r; cases "tl r") (auto simp: numeral_2_eq_2)

lemma digits_val_two:
  "digits_val [a, b] = (of_char a - 48) * 10 + (of_char b - 48)"
  by simp

lemma take_one:
  "1 \<le> length r \<Longrightarrow> take (Suc 0) r = [r ! 0]"
  by (cases r) auto

lemma re_month_val:
  assumes "n \<in> set (re_month r)"
  shows "1 \<le> py_int (take n r) \<and> py_int (take n r) \<le> 12"
  using assms
  by (auto simp: re_month_def py_int_def take_two take_one is_digit_def char_in_def less_eq_char_def
           split: if_splits)

lemma re_day_val:
  assumes "k \<in> set (re_day r)"
  shows "1 \<le> py_int (take k r)"
  using assms
  by (auto simp: re_day_def py_int_def take_two take_one is_digit_def char_in_def less_eq_char_def
           split: if_splits)

lemma strptime_match_Some:
  assumes "strptime_match s = Some (ys, ms, ds, rest)"
  shows "s = ys @ CHR ''-'' # ms @ CHR ''-'' # ds @ rest \<and> length ys = 4 \<and> list_all is_digit ys \<and>
         (length ms = 1 \<or> length ms = 2) \<and> list_all is_digit ms \<and>
         (length ds = 1 \<or> length ds = 2) \<and> list_all (\<lambda>c. is_digit c \<or> c = CHR '' '') ds \<and>
         1 \<le> py_int ms \<and> py_int ms \<le> 12 \<and> 1 \<le> py_int ds"
proof -
  define r where "r = drop 5 s"
  have s5: "5 \<le> length s" and y: "list_all is_digit (take 4 s)" and dash: "s ! 4 = CHR ''-''"
    and mf: "List.map_filter (day_after (take 4 s) r) (re_month r) \<noteq> []"
    and sel: "hd (List.map_filter (day_after (take 4 s) r) (re_month r)) = (ys, ms, ds, rest)"
    using assms by (auto simp: strptime_match_def r_def split: if_splits list.splits)
  then obtain n where n: "n \<in> set (re_month r)"
    and da: "day_after (take 4 s) r n = Some (ys, ms, ds, rest)"
    using map_filter_hd [of "day_after (take 4 s) r" "re_month r" "(ys, ms, ds, rest)"]
    by (cases "List.map_filter (day_after (take 4 s) r) (re_month r)") auto
  define r' where "r' = drop n r"
  from da obtain k ks where r'ne: "r' \<noteq> []" and hd': "hd r' = CHR ''-''"
    and rd: "re_day (tl r') = k # ks"
    and parts: "ys = take 4 s" "ms = take n r" "ds = take k (tl r')" "rest = drop k (tl r')"
    by (auto simp: day_after_def r'_def Let_def split: if_splits list.splits)
  have nm: "(n = 1 \<or> n = 2) \<and> n \<le> length r \<and> (\<forall>i < n. is_digit (r ! i))"
    using re_month_mem [OF n] .
  have kd: "(k = 1 \<or> k = 2) \<and> k \<le> length (tl r') \<and> (\<forall>i < k. is_digit (tl r' ! i) \<or> tl r' ! i = CHR '' '')"
    using re_day_mem [of k "tl r'"] rd by simp
  have d4: "drop 4 s = s ! 4 # r"
    using s5 Cons_nth_drop_Suc [of 4 s] by (simp add: r_def)
  have "ys @ CHR ''-'' # r = take 4 s @ drop 4 s"
    using d4 dash parts(1) by simp
  then have e1: "s = ys @ CHR ''-'' # r" by simp
  have "ms @ CHR ''-'' # ds @ rest = take n r @ drop n r"
    using r'ne hd' parts(2-4) unfolding r'_def by (cases "drop n r") simp_all
  then have e2: "r = ms @ CHR ''-'' # ds @ rest" by simp
  have ys: "length ys = 4" "list_all is_digit ys"
    using s5 y parts(1) by simp_all
  have ms: "length ms = n" "list_all is_digit ms"
    using nm parts(2) by (simp_all add: list_all_take_nth)
  have ds: "length ds = k" "list_all (\<lambda>c. is_digit c \<or> c = CHR '' '') ds"
    using kd parts(3) by (simp_all add: list_all_take_nth)
  have vals: "1 \<le> py_int ms \<and> py_int ms \<le> 12 \<and> 1 \<le> py_int ds"
    using re_month_val [OF n] re_day_val [of k "tl r'"] rd parts(2,3) by simp
  show ?thesis
    using e1 e2 ys ms ds nm kd vals by simp
qed

lemma strptime_canonical:
  assumes "strptime_ymd s = Inr (y, m, d)" and "length s = 10" and "CHR '' '' \<notin> set s"
  shows "canonical_date s \<and> date_fields s = (y, m, d)"
proof -
  obtain ys ms ds where mt: "strptime_match s = Some (ys, ms, ds, [])"
    and v: "y = py_int ys" "m = py_int ms" "d = py_int ds"
    using assms(1) by (auto simp: strptime_ymd_def Let_def split: option.splits if_splits)
  note st = strptime_match_Some [OF mt]
  then have dec: "s = ys @ CHR ''-'' # ms @ CHR ''-'' # ds" by simp
  have l: "length ys = 4" "length ms = 2" "length ds = 2"
    using st assms(2) by (auto simp: dec)
  have "list_all is_digit ds"
    using st assms(3) by (auto simp: dec list_all_iff)
  then have dg: "list_all is_digit ys" "list_all is_digit ms" "list_all is_digit ds"
    using st by simp_all
  have parts: "take 4 s = ys" "s ! 4 = CHR ''-''" "take 2 (drop 5 s) = ms" "s ! 7 = CHR ''-''" "drop 8 s = ds"
    using l by (simp_all add: dec nth_append)
  have py: "py_int ys = digits_val ys" "py_int ms = digits_val ms" "py_int ds = digits_val ds"
    using dg by (simp_all add: py_int_def list_all_iff filter_id_conv)
  show ?thesis
    using assms(2) dg l by (simp add: canonical_date_def date_fields_def parts py v)
qed

lemma lex_less_append:
  "length a = length c \<Longrightarrow> (a @ b < c @ e) \<longleftrightarrow> a < c \<or> a = c \<and> b < e"
  for a c :: "'a::linorder list"
proof (induction a arbitrary: c)
  case (Cons x xs)
  then show ?case by (cases c) auto
qed simp

lemma lex_le_append:
  "length a = length c \<Longrightarrow> (a @ b \<le> c @ e) \<longleftrightarrow> a < c \<or> a = c \<and> b \<le> e"
  for a c :: "'a::linorder list"
proof (induction a arbitrary: c)
  case (Cons x xs)
  then show ?case by (cases c) auto
qed simp

lemma digit_bounds:
  "is_digit c \<Longrightarrow> 48 \<le> (of_char c :: nat) \<and> (of_char c :: nat) \<le> 57"
  by (simp add: is_digit_def char_in_def less_eq_char_def)

lemma digits_val_bound:
  "list_all is_digit a \<Longrightarrow> digits_val a < 10 ^ length a"
proof (induction a)
  case (Cons x xs)
  then have "of_char x - 48 \<le> (9 :: nat)" and "digits_val xs < 10 ^ length xs"
    using digit_bounds [of x] by auto
  then have "(of_char x - 48) * 10 ^ length xs + digits_val xs < 9 * 10 ^ length xs + 10 ^ length xs"
    by (meson add_le_less_mono mult_le_mono1)
  then show ?case by simp
qed simp

lemma place_less:
  fixes N :: nat
  assumes "r < N" and "s < N"
  shows "a * N + r < b * N + s \<longleftrightarrow> a < b \<or> a = b \<and> r < s"
proof
  assume h: "a * N + r < b * N + s"
  show "a < b \<or> a = b \<and> r < s"
  proof (rule ccontr)
    assume "\<not> (a < b \<or> a = b \<and> r < s)"
    then have "Suc b \<le> a \<or> (a = b \<and> s \<le> r)" by auto
    then show False
    proof
      assume "Suc b \<le> a"
      then have "Suc b * N \<le> a * N" by (rule mult_le_mono1)
      then show False using h assms by simp
    qed (use h in simp)
  qed
next
  assume "a < b \<or> a = b \<and> r < s"
  then show "a * N + r < b * N + s"
  proof
    assume "a < b"
    then have "Suc a * N \<le> b * N" by (intro mult_le_mono1) simp
    then show ?thesis using assms by simp
  qed simp
qed

lemma digits_less:
  assumes "list_all is_digit a" and "list_all is_digit c" and "length a = length c"
  shows "a < c \<longleftrightarrow> digits_val a < digits_val c"
  using assms
proof (induction a arbitrary: c)
  case (Cons x xs)
  then obtain y ys where c: "c = y # ys" and l: "length ys = length xs"
    by (cases c) auto
  have dx: "is_digit x" "list_all is_digit xs" and dy: "is_digit y" "list_all is_digit ys"
    using Cons.prems c by simp_all
  have "x < y \<longleftrightarrow> of_char x - 48 < (of_char y - 48 :: nat)"
    using digit_bounds [OF dx(1)] digit_bounds [OF dy(1)] unfolding less_char_def by linarith
  moreover have "x = y \<longleftrightarrow> of_char x - 48 = (of_char y - 48 :: nat)"
  proof -
    have "of_char x - 48 = (of_char y - 48 :: nat) \<longleftrightarrow> (of_char x :: nat) = of_char y"
      using digit_bounds [OF dx(1)] digit_bounds [OF dy(1)] by linarith
    then show ?thesis by simp
  qed
  moreover have "xs < ys \<longleftrightarrow> digits_val xs < digits_val ys"
    using Cons.IH [OF dx(2) dy(2)] l by simp
  ultimately show ?case
    using place_less [OF digits_val_bound [OF dx(2)], of "digits_val ys"] digits_val_bound [OF dy(2)] c l
    by auto
qed simp

lemma digits_eq:
  assumes "list_all is_digit a" and "list_all is_digit c" and "length a = length c"
  shows "a = c \<longleftrightarrow> digits_val a = digits_val c"
  using digits_less [OF assms] digits_less [OF assms(2,1) assms(3) [symmetric]]
  by (metis linorder_neqE nat_neq_iff)

lemma lex_le_prefix:
  "length a = length c \<Longrightarrow> a \<le> c @ e \<longleftrightarrow> a \<le> c"
  for a c :: "'a::linorder list"
proof -
  assume "length a = length c"
  then have "a \<le> c @ e \<longleftrightarrow> a < c \<or> a = c"
    using lex_le_append [of a c "[]" e] by simp
  then show ?thesis by (simp only: order_le_less [of a c])
qed

lemma canonical_parts:
  assumes "canonical_date s"
  obtains y m d where "s = y @ CHR ''-'' # m @ CHR ''-'' # d"
    and "length y = 4" "length m = 2" "length d = 2"
    and "list_all is_digit y" "list_all is_digit m" "list_all is_digit d"
    and "date_fields s = (digits_val y, digits_val m, digits_val d)"
proof -
  have l: "length s = 10" and s4: "s ! 4 = CHR ''-''" and s7: "s ! 7 = CHR ''-''"
    using assms by (simp_all add: canonical_date_def)
  have d4: "drop 4 s = CHR ''-'' # drop 5 s"
    using l s4 Cons_nth_drop_Suc [of 4 s] by simp
  have d7: "drop 7 s = CHR ''-'' # drop 8 s"
    using l s7 Cons_nth_drop_Suc [of 7 s] by simp
  have "drop 5 s = take 2 (drop 5 s) @ drop 7 s"
    by (metis append_take_drop_id drop_drop numeral_Bit1 numeral_plus_numeral add_2_eq_Suc' numeral_2_eq_2
        semiring_norm(2) semiring_norm(7) add.commute Suc_numeral numeral_Bit0 numeral_One)
  then have "s = take 4 s @ CHR ''-'' # take 2 (drop 5 s) @ CHR ''-'' # drop 8 s"
    using d4 d7 by (metis append_take_drop_id)
  moreover have "length (take 4 s) = 4" "length (take 2 (drop 5 s)) = 2" "length (drop 8 s) = 2"
    using l by simp_all
  moreover have "take 2 (drop 8 s) = drop 8 s"
    using l by simp
  ultimately show ?thesis
    using that assms by (simp add: canonical_date_def date_fields_def)
qed

lemma canonical_text_le:
  assumes "canonical_date a" and "canonical_date b"
  shows "a \<le> b @ rest \<longleftrightarrow> date_fields a \<le> date_fields b"
proof -
  obtain y1 m1 d1 where a: "a = y1 @ CHR ''-'' # m1 @ CHR ''-'' # d1"
    and la: "length y1 = 4" "length m1 = 2" "length d1 = 2"
    and da: "list_all is_digit y1" "list_all is_digit m1" "list_all is_digit d1"
    and fa: "date_fields a = (digits_val y1, digits_val m1, digits_val d1)"
    using canonical_parts [OF assms(1)] by blast
  obtain y2 m2 d2 where b: "b = y2 @ CHR ''-'' # m2 @ CHR ''-'' # d2"
    and lb: "length y2 = 4" "length m2 = 2" "length d2 = 2"
    and db: "list_all is_digit y2" "list_all is_digit m2" "list_all is_digit d2"
    and fb: "date_fields b = (digits_val y2, digits_val m2, digits_val d2)"
    using canonical_parts [OF assms(2)] by blast
  have "a \<le> b @ rest \<longleftrightarrow> y1 < y2 \<or> y1 = y2 \<and> (m1 < m2 \<or> m1 = m2 \<and> d1 \<le> d2)"
    using la lb by (simp add: a b lex_le_append lex_le_prefix)
  also have "\<dots> \<longleftrightarrow> date_fields a \<le> date_fields b"
    using la lb da db
    by (auto simp add: fa fb digits_less digits_eq order_le_less)
  finally show ?thesis .
qed

lemma date_fields_take:
  "date_fields (take 10 t) = date_fields t"
  by (simp add: date_fields_def drop_take)

text \<open>
  C14. A date that passes the menu's check and is written in the canonical form
  \<open>YYYY-MM-DD\<close> (ten characters, no blank) selects, through the text comparison
  \<open>images.added_time >= ?\<close>, exactly the images whose stored timestamp falls on that
  calendar day or later: the SQL text order refines the order of calendar dates.
\<close>

theorem date_filter_text_order:
  assumes "strptime_ymd s = Inr (y, m, d)" and "length s = 10" and "CHR '' '' \<notin> set s"
    and "sqlite_timestamp t"
  shows "s \<le> t \<longleftrightarrow> (y, m, d) \<le> date_fields t"
proof -
  have c: "canonical_date s" and f: "date_fields s = (y, m, d)"
    using strptime_canonical [OF assms(1-3)] by simp_all
  have ct: "canonical_date (take 10 t)"
    using assms(4) by (simp add: sqlite_timestamp_def)
  have "s \<le> take 10 t @ drop 10 t \<longleftrightarrow> date_fields s \<le> date_fields (take 10 t)"
    by (rule canonical_text_le [OF c ct])
  then show ?thesis by (simp add: f date_fields_take)
qed

lemma re_month_two:
  assumes "2 \<le> length r" "is_digit (r ! 0)" "is_digit (r ! 1)"
    and "1 \<le> digits_val (take 2 r)" "digits_val (take 2 r) \<le> 12"
  shows "\<exists>ns. re_month r = 2 # ns"
proof -
  have "(r ! 0 = CHR ''1'' \<and> char_in CHR ''0'' CHR ''2'' (r ! 1)) \<or>
        (r ! 0 = CHR ''0'' \<and> char_in CHR ''1'' CHR ''9'' (r ! 1))"
    using assms digit_bounds [OF assms(2)] digit_bounds [OF assms(3)]
    by (simp add: take_two char_eq_code [of "r ! 0"] char_in_def less_eq_char_def) linarith
  then show ?thesis using assms(1) by (auto simp: re_month_def)
qed

lemma re_day_two:
  assumes "2 \<le> length r" "is_digit (r ! 0)" "is_digit (r ! 1)"
    and "1 \<le> digits_val (take 2 r)" "digits_val (take 2 r) \<le> 31"
  shows "\<exists>ks. re_day r = 2 # ks"
proof -
  have "(r ! 0 = CHR ''3'' \<and> char_in CHR ''0'' CHR ''1'' (r ! 1)) \<or>
        (char_in CHR ''1'' CHR ''2'' (r ! 0) \<and> is_digit (r ! 1)) \<or>
        (r ! 0 = CHR ''0'' \<and> char_in CHR ''1'' CHR ''9'' (r ! 1))"
    using assms digit_bounds [OF assms(2)] digit_bounds [OF assms(3)]
    by (simp add: take_two char_eq_code [of "r ! 0"] char_in_def less_eq_char_def) linarith
  then show ?thesis using assms(1,3) by (auto simp: re_day_def)
qed

lemma days_in_month_le: "days_in_month y m \<le> 31"
  by (simp add: days_in_month_def)

lemma py_int_digits: "list_all is_digit s \<Longrightarrow> py_int s = digits_val s"
  by (simp add: py_int_def list_all_iff filter_id_conv)

lemma strptime_accepts:
  assumes "canonical_date s" and "valid_ymd (date_fields s)"
  shows "strptime_ymd s = Inr (date_fields s)"
proof -
  obtain Y M D where dec: "s = Y @ CHR ''-'' # M @ CHR ''-'' # D"
    and l: "length Y = 4" "length M = 2" "length D = 2"
    and dg: "list_all is_digit Y" "list_all is_digit M" "list_all is_digit D"
    and f: "date_fields s = (digits_val Y, digits_val M, digits_val D)"
    using canonical_parts [OF assms(1)] by blast
  have v: "1 \<le> digits_val Y" "1 \<le> digits_val M" "digits_val M \<le> 12" "1 \<le> digits_val D"
    "digits_val D \<le> days_in_month (digits_val Y) (digits_val M)"
    using assms(2) by (simp_all add: f valid_ymd_def)
  define r where "r = M @ CHR ''-'' # D"
  have s5: "drop 5 s = r" "take 4 s = Y" "s ! 4 = CHR ''-''" "length s = 10"
    using l by (simp_all add: dec r_def nth_append)
  have dM: "is_digit (M ! 0)" "is_digit (M ! 1)" and dD: "is_digit (D ! 0)" "is_digit (D ! 1)"
    using dg l by (simp_all add: list_all_length)
  obtain ns where rm: "re_month r = 2 # ns"
    using re_month_two [of r] dM l v(2,3) by (auto simp: r_def nth_append)
  obtain ks where rd: "re_day D = 2 # ks"
    using re_day_two [of D] dD l v(4,5) days_in_month_le [of "digits_val Y" "digits_val M"] by auto
  have "day_after Y r 2 = Some (Y, M, D, [])"
    using l rd by (simp add: day_after_def r_def)
  then have "strptime_match s = Some (Y, M, D, [])"
    using s5 dg(1) rm by (simp add: strptime_match_def)
  then show ?thesis
    using v dg by (simp add: strptime_ymd_def f py_int_digits)
qed

lemma strptime_valid:
  assumes "strptime_ymd s = Inr v"
  shows "valid_ymd v"
proof -
  obtain ys ms ds where mt: "strptime_match s = Some (ys, ms, ds, [])"
    and v: "v = (py_int ys, py_int ms, py_int ds)"
    and c: "py_int ys \<noteq> 0" "py_int ds \<le> days_in_month (py_int ys) (py_int ms)"
    using assms by (auto simp: strptime_ymd_def Let_def split: option.splits if_splits)
  then show ?thesis
    using strptime_match_Some [OF mt] by (simp add: valid_ymd_def)
qed

lemma canonical_no_blank:
  assumes "canonical_date s"
  shows "CHR '' '' \<notin> set s"
proof -
  obtain Y M D where "s = Y @ CHR ''-'' # M @ CHR ''-'' # D"
    and "list_all is_digit Y" "list_all is_digit M" "list_all is_digit D"
    using canonical_parts [OF assms] by blast
  moreover have "\<not> is_digit CHR '' ''"
    by (simp add: is_digit_def char_in_def)
  ultimately show ?thesis
    by (auto simp: list_all_iff)
qed

text \<open>
  C15. On a canonical \<open>YYYY-MM-DD\<close> text the menu's date check accepts exactly the
  valid calendar dates, and an accepted text denotes the date its digits spell; every other
  canonical text raises \<open>ValueError\<close>, so the menu drops that date filter.
\<close>

theorem strptime_canonical_exact:
  assumes "canonical_date s"
  shows "(case strptime_ymd s of
            Inr v \<Rightarrow> v = date_fields s \<and> valid_ymd v
          | Inl e \<Rightarrow> \<not> valid_ymd (date_fields s))"
proof (cases "strptime_ymd s")
  case (Inl e)
  then show ?thesis
    using strptime_accepts [OF assms] by auto
next
  case (Inr v)
  obtain y m d where vv: "v = (y, m, d)" by (cases v) auto
  have "date_fields s = (y, m, d)"
    using strptime_canonical [of s y m d] Inr vv assms canonical_no_blank [OF assms]
    by (simp add: canonical_date_def)
  then show ?thesis
    using Inr vv strptime_valid [of s v] by simp
qed

lemmas strptime_defs = strptime_ymd_def strptime_match_def re_month_def re_day_def day_after_def
  is_digit_def char_in_def py_int_def days_in_month_def is_leap_def py_quote_def

end
