(* ===== verification/MenuStep.thy ===== *)
theory MenuStep
  imports Query DateCheck
begin

text \<open>
  One iteration of the menu loop \<open>main\<close> of src/search.py: read the choice, run the
  chosen operation of the query engine and report what it prints. The printed output is
  the list of \<open>menu_event\<close>s of the iteration; the boolean says whether the loop goes
  on (only choice \<open>5\<close> breaks). Option 1 reads the filter line, the host line and the
  date line; a non-empty date that \<open>strptime(date_filter, '%Y-%m-%d')\<close> rejects is
  reported and dropped, and the search runs with what is left.
\<close>

datatype menu_event =
    SearchResults "(image_row \<times> py_dict \<times> bool) list"
  | DateSkipped        \<comment> \<open>\<open>Invalid date format, skipping date filter.\<close>\<close>
  | CategoryList "string list"
  | ValueList string "string list"
  | GroupCounts string "(string \<times> nat) list"
  | InvalidChoice
  | Exiting

text \<open>
  \<open>if date_filter: try strptime ... except ValueError: date_filter = None\<close>, then
  \<open>date_filter or None\<close>.
\<close>

definition menu_date :: "string \<Rightarrow> string option \<times> menu_event list" where
  "menu_date date_filter =
     (if date_filter = [] then (None, [])
      else (case strptime_ymd date_filter of
              Inl _ \<Rightarrow> (None, [DateSkipped])
            | Inr _ \<Rightarrow> (Some date_filter, [])))"

definition opt_str :: "string \<Rightarrow> string option" where
  "opt_str s = (if s = [] then None else Some s)"

definition menu_search :: "db \<Rightarrow> stdin \<Rightarrow> py_error + ((menu_event list \<times> bool) \<times> stdin)" where
  "menu_search d inp =
     (case prompt_filters inp of
        Inl e \<Rightarrow> Inl e
      | Inr (filters, inp1) \<Rightarrow>
          (case py_input inp1 of
             Inl e \<Rightarrow> Inl e
           | Inr (pc_line, inp2) \<Rightarrow>
               (case py_input inp2 of
                  Inl e \<Rightarrow> Inl e
                | Inr (date_line, inp3) \<Rightarrow>
                    (case menu_date (py_strip date_line) of
                       (date, evs) \<Rightarrow>
                         (case search_images_by_tags filters (opt_str (py_strip pc_line)) date d inp3 of
                            Inl e \<Rightarrow> Inl e
                          | Inr (out, inp4) \<Rightarrow> Inr ((evs @ [SearchResults out], True), inp4))))))"

definition menu_step :: "db \<Rightarrow> stdin \<Rightarrow> py_error + ((menu_event list \<times> bool) \<times> stdin)" where
  "menu_step d inp =
     (case py_input inp of
        Inl e \<Rightarrow> Inl e
      | Inr (line, inp1) \<Rightarrow>
          (let choice = py_strip line in
           if choice = ''1'' then menu_search d inp1
           else if choice = ''2'' then
             (case list_tag_categories d of
                Inl e \<Rightarrow> Inl e
              | Inr cats \<Rightarrow> Inr (([CategoryList cats], True), inp1))
           else if choice = ''3'' then
             (case py_input inp1 of
                Inl e \<Rightarrow> Inl e
              | Inr (cl, inp2) \<Rightarrow>
                  (case list_values_for_category (py_strip cl) d of
                     Inl e \<Rightarrow> Inl e
                   | Inr vals \<Rightarrow> Inr (([ValueList (py_strip cl) vals], True), inp2)))
           else if choice = ''4'' then
             (case py_input inp1 of
                Inl e \<Rightarrow> Inl e
              | Inr (cl, inp2) \<Rightarrow>
                  (case group_by_tag (py_strip cl) d of
                     Inl e \<Rightarrow> Inl e
                   | Inr groups \<Rightarrow> Inr (([GroupCounts (py_strip cl) groups], True), inp2)))
           else if choice = ''5'' then Inr (([Exiting], False), inp1)
           else Inr (([InvalidChoice], True), inp1)))"

lemmas menu_defs = menu_step_def menu_search_def menu_date_def opt_str_def

subsection \<open>Every iteration reads at least one line\<close>

lemma py_input_Inr:
  "py_input inp = Inr (l, inp') \<longleftrightarrow> inp = l # inp'"
  by (cases inp) auto

lemma prompt_filters_consumes:
  "prompt_filters inp = Inr (fs, inp') \<Longrightarrow> \<exists>l. inp = l # inp'"
  by (cases inp) (auto simp: prompt_filters_def Let_def split: sum.splits)

lemma show_results_consumes:
  "show_results d rows inp = Inr (out, inp') \<Longrightarrow> \<exists>pre. inp = pre @ inp'"
proof (induction rows arbitrary: inp out)
  case (Cons r rs)
  then show ?case
    by (cases inp) (fastforce split: sum.splits prod.splits)+
qed simp

lemma search_images_by_tags_consumes:
  "search_images_by_tags fs pc date d inp = Inr (out, inp') \<Longrightarrow> \<exists>pre. inp = pre @ inp'"
  by (auto simp: search_images_by_tags_def dest: show_results_consumes split: sum.splits)

lemma menu_search_consumes:
  assumes "menu_search d inp = Inr (r, inp')"
  shows "\<exists>pre. inp = pre @ inp'"
proof -
  obtain fs inp1 pl inp2 dl inp3 where
    "prompt_filters inp = Inr (fs, inp1)" "inp1 = pl # inp2" "inp2 = dl # inp3"
    and s: "\<exists>pre. inp3 = pre @ inp'"
    using assms
    by (auto simp: menu_search_def py_input_Inr dest!: search_images_by_tags_consumes
             split: sum.splits prod.splits)
  then show ?thesis
    using prompt_filters_consumes by (metis append_Cons append_assoc append_Nil)
qed

lemma menu_step_consumes:
  assumes "menu_step d inp = Inr (r, inp')"
  shows "\<exists>l pre. inp = l # pre @ inp'"
  using assms
  by (auto simp: menu_step_def Let_def py_input_Inr dest!: menu_search_consumes
           split: sum.splits prod.splits if_splits)

lemma menu_step_shorter:
  "menu_step d inp = Inr (r, inp') \<Longrightarrow> length inp' < length inp"
  by (auto dest!: menu_step_consumes)

lemma menu_step_stop:
  assumes "menu_step d inp = Inr ((evs, False), inp')"
  shows "inp \<noteq> [] \<and> py_strip (hd inp) = ''5''"
  using assms
  by (auto simp: menu_step_def Let_def menu_search_def py_input_Inr split: sum.splits prod.splits if_splits)

subsection \<open>Option 1 of the menu\<close>

lemma set_py_strip: "set (py_strip s) \<subseteq> set s"
  by (auto simp: py_strip_def dest!: set_dropWhileD)

lemma py_split_subset:
  "w \<in> set (py_split c s) \<Longrightarrow> set w \<subseteq> set s"
proof (induction c s arbitrary: w rule: py_split.induct)
  case (2 c x xs)
  then show ?case
    by (auto split: if_splits list.splits) blast
qed simp

lemma prompt_filters_no_pair:
  assumes "CHR ''='' \<notin> set l"
  shows "prompt_filters (l # ls) = Inr ([], ls)"
proof -
  have "\<forall>item \<in> set (py_split CHR '','' (py_strip l)). CHR ''='' \<notin> set item"
    using assms set_py_strip [of l] by (auto dest!: py_split_subset)
  then have "filter (\<lambda>item. CHR ''='' \<in> set item) (py_split CHR '','' (py_strip l)) = []"
    by (simp add: filter_empty_conv)
  then show ?thesis by (simp add: prompt_filters_def)
qed

subsection \<open>The filter line\<close>

lemma length_py_split:
  "length (py_split c s) = Suc (length (filter (\<lambda>x. x = c) s))"
  by (induction c s rule: py_split.induct) (auto split: list.splits)

lemma filter_dropWhile_disjoint:
  "(\<And>x. P x \<Longrightarrow> \<not> Q x) \<Longrightarrow> filter Q (dropWhile P xs) = filter Q xs"
  by (induction xs) auto

lemma filter_py_strip:
  assumes "\<not> py_isspace c"
  shows "filter (\<lambda>x. x = c) (py_strip s) = filter (\<lambda>x. x = c) s"
proof -
  have h: "\<And>x. py_isspace x \<Longrightarrow> \<not> x = c" using assms by blast
  show ?thesis
    by (simp add: py_strip_def rev_filter [symmetric] filter_dropWhile_disjoint [OF h])
qed

lemma filter_dict_error:
  "filter_dict ps acc = Inl e \<longleftrightarrow>
     (\<exists>p \<in> set ps. length (py_split CHR ''='' p) \<noteq> 2) \<and> e = ValueError ''too many values to unpack (expected 2)''"
proof (induction ps arbitrary: acc)
  case (Cons p ps)
  show ?case
  proof (cases "length (py_split CHR ''='' p) = 2")
    case True
    then obtain k v where "py_split CHR ''='' p = [k, v]"
      by (auto simp: numeral_2_eq_2 length_Suc_conv)
    with Cons.IH True show ?thesis by simp
  next
    case False
    then have "filter_dict (p # ps) acc = Inl (ValueError ''too many values to unpack (expected 2)'')"
      by (auto split: list.split)
    with False show ?thesis by auto
  qed
qed simp

lemma nonempty_not_single:
  "xs \<noteq> [] \<and> length xs \<noteq> Suc 0 \<longleftrightarrow> 2 \<le> length xs"
  by (cases xs) (auto simp: Suc_le_eq)

lemma filter_item_bad:
  "(CHR ''='' \<in> set item \<and> length (py_split CHR ''='' (py_strip item)) \<noteq> 2) \<longleftrightarrow>
     2 \<le> length (filter (\<lambda>x. x = CHR ''='') item)"
proof -
  have sp: "\<not> py_isspace CHR ''=''" by (simp add: py_isspace_def)
  have "CHR ''='' \<in> set item \<longleftrightarrow> 0 < length (filter (\<lambda>x. x = CHR ''='') item)"
    by (auto simp: length_greater_0_conv filter_empty_conv)
  then show ?thesis
    by (simp add: length_py_split filter_py_strip [OF sp] nonempty_not_single)
qed

lemma isl_filter_dict:
  "isl (filter_dict ps acc) \<longleftrightarrow> (\<exists>p \<in> set ps. length (py_split CHR ''='' p) \<noteq> 2)"
  using filter_dict_error [of ps acc] by (cases "filter_dict ps acc") auto

lemma prompt_filters_error:
  "isl (prompt_filters (l # ls)) \<longleftrightarrow>
     (\<exists>item \<in> set (py_split CHR '','' (py_strip l)). 2 \<le> length (filter (\<lambda>x. x = CHR ''='') item))"
proof -
  have "isl (prompt_filters (l # ls)) \<longleftrightarrow>
          isl (filter_dict (map py_strip (filter (\<lambda>item. CHR ''='' \<in> set item) (py_split CHR '','' (py_strip l)))) [])"
    by (simp add: prompt_filters_def split: sum.split)
  also have "\<dots> \<longleftrightarrow> (\<exists>item \<in> set (py_split CHR '','' (py_strip l)).
                        CHR ''='' \<in> set item \<and> length (py_split CHR ''='' (py_strip item)) \<noteq> 2)"
    by (simp only: isl_filter_dict set_map set_filter) blast
  finally show ?thesis by (simp only: filter_item_bad)
qed

lemma prompt_filters_Inl:
  "prompt_filters (l # ls) = Inl e \<Longrightarrow> e = ValueError ''too many values to unpack (expected 2)''"
  by (auto simp: prompt_filters_def filter_dict_error split: sum.splits)

lemma menu_step_search:
  "py_strip c = ''1'' \<Longrightarrow> menu_step d (c # inp) = menu_search d inp"
  by (simp add: menu_step_def)

text \<open>
  C17. A date that \<open>strptime\<close> rejects does not abort the search: option 1 reports
  \<open>Invalid date format, skipping date filter.\<close> and then does exactly what it does
  when the date line is left blank.
\<close>

theorem menu_invalid_date_dropped:
  assumes "py_strip c = ''1''" and "py_strip dl \<noteq> []" and "isl (strptime_ymd (py_strip dl))"
  shows "menu_step d (c # fl # pl # dl # rest) =
           (case menu_step d (c # fl # pl # [] # rest) of
              Inl e \<Rightarrow> Inl e
            | Inr ((evs, go_on), inp') \<Rightarrow> Inr ((DateSkipped # evs, go_on), inp'))"
proof -
  have "menu_date (py_strip dl) = (None, [DateSkipped])"
    using assms(2,3) by (auto simp: menu_date_def split: sum.splits)
  moreover have "menu_date (py_strip []) = (None, [])"
    by (simp add: menu_date_def py_strip_def)
  ultimately show ?thesis
    using assms(1)
    by (simp add: menu_step_search menu_search_def prompt_filters_def Let_def split: sum.split prod.split)
qed

lemma menu_date_accepted:
  "strptime_ymd s = Inr ymd \<Longrightarrow> s \<noteq> [] \<Longrightarrow> fst (menu_date s) = Some s"
  by (simp add: menu_date_def)

text \<open>
  C19. The date check accepts a one-digit month (\<open>%m\<close> matches \<open>[1-9]\<close>), and the
  accepted text goes to \<open>images.added_time >= ?\<close> unchanged. Stored times are
  \<open>YYYY-MM-DD HH:MM:SS\<close> with a zero-padded month, so for a date \<open>Y-M-D\<close> with a
  one-digit month \<open>M\<close> the text comparison fails at the month's first character for every
  image added in months \<open>01\<close> to \<open>09\<close> of year \<open>Y\<close>: the search misses an image
  added in a later month of that year (whatever the other filters), which the same date
  written with \<open>0M\<close> finds.
\<close>

theorem unpadded_date_misses_later_image:
  assumes "strptime_ymd (y @ ''-'' @ c # ''-'' @ dd) = Inr ymd"
    and "strptime_ymd (y @ ''-0'' @ c # ''-'' @ dd) = Inr ymd'"
    and "c \<in> set ''123456789''" and "c < k"
    and "images_tbl d = Some ims" and "tags_tbl d = Some ts" and "r \<in> set ims"
    and "im_added_time r = y @ ''-0'' @ k # rest"
  shows "(\<exists>rows. sql_select_images (search_conditions filters pc (fst (menu_date (y @ ''-'' @ c # ''-'' @ dd)))) d = Inr rows \<and>
                r \<notin> set rows) \<and>
         (\<exists>rows. sql_select_images (search_conditions [] None (fst (menu_date (y @ ''-0'' @ c # ''-'' @ dd)))) d = Inr rows \<and>
                r \<in> set rows)"
proof -
  have c0: "CHR ''0'' < c" using assms(3) by auto
  have "\<not> (y @ ''-'' @ c # ''-'' @ dd \<le> y @ ''-0'' @ k # rest)"
    using lex_le_append [of "y @ ''-''" "y @ ''-''" "c # ''-'' @ dd" "CHR ''0'' # k # rest"] c0 by auto
  then have miss: "\<not> list_all (eval_cond ts r) (search_conditions filters pc (Some (y @ ''-'' @ c # ''-'' @ dd)))"
    using assms(8) by (simp add: list_all_search_conditions py_truthy_str_def)
  have "y @ ''-0'' @ c # ''-'' @ dd \<le> y @ ''-0'' @ k # rest"
    using lex_le_append [of "y @ ''-0''" "y @ ''-0''" "c # ''-'' @ dd" "k # rest"] assms(4) by auto
  then have hit: "list_all (eval_cond ts r) (search_conditions [] None (Some (y @ ''-0'' @ c # ''-'' @ dd)))"
    using assms(8) by (simp add: list_all_search_conditions py_truthy_str_def)
  show ?thesis
    using menu_date_accepted [OF assms(1)] menu_date_accepted [OF assms(2)] miss hit assms(5-7)
    by (simp add: sql_select_images_ok search_conditions_def py_truthy_str_def)
qed

end
