(* ===== verification/Menu.thy ===== *)
theory Menu
  imports MenuStep
begin

text \<open>
  The menu loop \<open>main\<close> of src/search.py: \<open>while True\<close> over \<open>menu_step\<close> until
  choice \<open>5\<close> breaks. An exception of an iteration (\<open>EOFError\<close> at the end of
  standard input, the \<open>ValueError\<close> of \<open>prompt_filters\<close>, an
  \<open>sqlite3.OperationalError\<close>) is not caught and ends the program; the result is the
  events of the completed iterations and \<open>Inl\<close> of the exception, or \<open>Inr ()\<close> after
  \<open>Exiting\<close>. The loop terminates because every iteration reads at least one line
  (\<open>menu_step_shorter\<close>); the search tool only reads the catalog, so the loop has no
  database result.
\<close>

function main_loop :: "db \<Rightarrow> stdin \<Rightarrow> menu_event list \<times> (py_error + unit)" where
  "main_loop d inp =
     (case menu_step d inp of
        Inl e \<Rightarrow> ([], Inl e)
      | Inr ((evs, go_on), inp') \<Rightarrow>
          (if go_on then (case main_loop d inp' of (evs', r) \<Rightarrow> (evs @ evs', r))
           else (evs, Inr ())))"
  by pat_completeness auto
termination
  by (relation "measure (\<lambda>(d, inp). length inp)") (auto dest: menu_step_shorter)

declare main_loop.simps [simp del]

text \<open>
  C18. The search tool returns normally only through option 5: if \<open>main\<close> returns
  without an exception, one of the lines it read was \<open>5\<close>. On an input without such a
  line it always ends with an exception (at the latest \<open>EOFError\<close>).
\<close>

theorem main_loop_quits:
  assumes "snd (main_loop d inp) = Inr ()"
  shows "\<exists>l \<in> set inp. py_strip l = ''5''"
  using assms
proof (induction d inp rule: main_loop.induct)
  case (1 d inp)
  show ?case
  proof (cases "menu_step d inp")
    case (Inl e)
    with "1.prems" show ?thesis by (simp add: main_loop.simps [of d inp])
  next
    case (Inr x)
    obtain evs go_on inp' where x: "x = ((evs, go_on), inp')" by (cases x) auto
    show ?thesis
    proof (cases go_on)
      case True
      then have "snd (main_loop d inp') = Inr ()"
        using "1.prems" Inr x by (simp add: main_loop.simps [of d inp] split: prod.splits)
      then obtain l where "l \<in> set inp'" "py_strip l = ''5''"
        using "1.IH" [OF Inr] x True by blast
      moreover have "set inp' \<subseteq> set inp"
        using menu_step_consumes [of d inp "(evs, go_on)" inp'] Inr x by auto
      ultimately show ?thesis by blast
    next
      case False
      then show ?thesis
        using menu_step_stop [of d inp evs inp'] Inr x by (cases inp) auto
    qed
  qed
qed

text \<open>
  C16. A search with no \<open>key=value\<close> pair, a blank host and no usable date (blank, or
  rejected by the date check) ends the search tool: the query text \<open>WHERE ORDER BY\<close>
  raises \<open>sqlite3.OperationalError\<close>, which \<open>main\<close> does not catch, whatever input follows.
\<close>

theorem main_search_without_constraints_exits:
  assumes "py_strip c = ''1''" and "CHR ''='' \<notin> set fl" and "py_strip pl = []"
    and "py_strip dl = [] \<or> isl (strptime_ymd (py_strip dl))"
  shows "main_loop d (c # fl # pl # dl # rest) = ([], Inl (OperationalError ''near \"ORDER\": syntax error''))"
proof -
  have "fst (menu_date (py_strip dl)) = None"
    using assms(4) by (auto simp: menu_date_def split: sum.splits)
  then have "menu_step d (c # fl # pl # dl # rest) = Inl (OperationalError ''near \"ORDER\": syntax error'')"
    using assms(1,3) prompt_filters_no_pair [OF assms(2)]
    by (auto simp: menu_step_search menu_search_def opt_str_def search_images_by_tags_def
                   sql_select_images_def search_conditions_def py_truthy_str_def split: prod.split)
  then show ?thesis by (simp add: main_loop.simps)
qed

text \<open>
  C20. A filter line with an item that holds two \<open>=\<close> (a value containing \<open>=\<close>,
  such as \<open>note=a=b\<close>) makes \<open>p.split('=')\<close> return three parts; the unpacking into
  \<open>k, v\<close> raises \<open>ValueError\<close>, which \<open>main\<close> does not catch, and the search tool
  ends before it reads the host and date lines.
\<close>

theorem main_filter_value_error_exits:
  assumes "py_strip c = ''1''"
    and "\<exists>item \<in> set (py_split CHR '','' (py_strip fl)). 2 \<le> length (filter (\<lambda>x. x = CHR ''='') item)"
  shows "main_loop d (c # fl # rest) = ([], Inl (ValueError ''too many values to unpack (expected 2)''))"
proof -
  obtain e where e: "prompt_filters (fl # rest) = Inl e"
    using prompt_filters_error [of fl rest] assms(2) by (cases "prompt_filters (fl # rest)") auto
  then have "menu_step d (c # fl # rest) = Inl (ValueError ''too many values to unpack (expected 2)'')"
    using assms(1) prompt_filters_Inl [OF e] by (simp add: menu_step_search menu_search_def)
  then show ?thesis by (simp add: main_loop.simps)
qed

end
