(* ===== verification/Catalog.thy ===== *)
theory Catalog
  imports Store Query
begin

text \<open>
  The catalog as the spec describes it (sections 3 and 4): a sequence of images in
  insertion order, each with its tag mapping category \<open>\<rightarrow>\<close> value; \<open>insert\<close> appends
  an image with its mapping, and \<open>search\<close> keeps the images whose mapping has every
  filter pair, from the given host and not before the given date, most recent first.
  \<open>catalog_of\<close> reads this abstract catalog off the two tables the way the code reads
  tags back (\<open>{cat: val for cat, val in rows}\<close>). The lemmas show that the SQL the code
  runs implements these abstract operations on well-formed data: the \<open>EXISTS\<close>
  sub-query over tag rows agrees with a lookup in the tag mapping because an image has at
  most one row per category (\<open>wf_db\<close>).
\<close>

type_synonym catalog = "(image_row \<times> py_dict) list"

definition catalog_of :: "db \<Rightarrow> catalog" where
  "catalog_of d =
     map (\<lambda>r. (r, py_dict_of (tag_pairs (rows_of (tags_tbl d)) (im_id r)))) (rows_of (images_tbl d))"

definition cat_insert :: "image_row \<Rightarrow> py_dict \<Rightarrow> catalog \<Rightarrow> catalog" where
  "cat_insert r tags c = c @ [(r, tags)]"

definition cat_matches :: "py_dict \<Rightarrow> string option \<Rightarrow> string option \<Rightarrow> image_row \<times> py_dict \<Rightarrow> bool" where
  "cat_matches filters pc date e \<longleftrightarrow>
     list_all (\<lambda>(k, v). map_of (snd e) k = Some v) filters \<and>
     (if py_truthy_str pc then im_pc_name (fst e) = the pc else True) \<and>
     (if py_truthy_str date then the date \<le> im_added_time (fst e) else True)"

definition cat_search :: "py_dict \<Rightarrow> string option \<Rightarrow> string option \<Rightarrow> catalog \<Rightarrow> image_row list" where
  "cat_search filters pc date c = sort_desc_key im_added_time (map fst (filter (cat_matches filters pc date) c))"

text \<open>
  The modules share data only through the database files: the tagger inserts into the
  file \<open>DB_PATH\<close> of tagger.py (\<open>get_connection\<close>), the search tool reads the file
  \<open>db_path\<close> of search.py.
\<close>

definition tagger_insert_files :: "config \<Rightarrow> host \<Rightarrow> timestamp \<Rightarrow> path \<Rightarrow> py_dict \<Rightarrow> files \<Rightarrow> files" where
  "tagger_insert_files c pc now fp tags fs =
     fs(tagger_DB_PATH c := snd (insert_image_with_tags pc now fp tags (fs (tagger_DB_PATH c))))"

definition search_catalog :: "config \<Rightarrow> files \<Rightarrow> catalog" where
  "search_catalog c fs = catalog_of (fs (search_db_path c))"

text \<open>\<open>if __name__ == "__main__": create_schema(db_path)\<close> of initialize_db.py.\<close>

definition initialize_files :: "config \<Rightarrow> files \<Rightarrow> files" where
  "initialize_files c fs = fs(initialize_db_path c := create_schema (fs (initialize_db_path c)))"

subsection \<open>Tag rows of one image under the invariant\<close>

lemma distinct_tag_pairs_keys:
  "distinct (map (\<lambda>t. (tg_image_id t, tg_category t)) ts) \<Longrightarrow> distinct (map fst (tag_pairs ts i))"
  by (induction ts) (fastforce simp: tag_pairs_def image_iff)+

lemma wf_db_tag_dict:
  assumes "wf_db d" and "tags_tbl d = Some ts"
  shows "map_of (py_dict_of (tag_pairs ts i)) c = Some v \<longleftrightarrow>
           (\<exists>t \<in> set ts. tg_image_id t = i \<and> tg_category t = c \<and> tg_value t = v)"
proof -
  have "distinct (map fst (tag_pairs ts i))"
    using assms by (intro distinct_tag_pairs_keys) (simp add: wf_db_def)
  then have "map_of (py_dict_of (tag_pairs ts i)) c = Some v \<longleftrightarrow> (c, v) \<in> set (tag_pairs ts i)"
    by (auto intro: map_of_is_SomeI dest: map_of_SomeD)
  then show ?thesis
    by (auto simp: tag_pairs_def)
qed

lemma catalog_matches:
  assumes "wf_db d" and "tags_tbl d = Some ts"
  shows "cat_matches filters pc date (r, py_dict_of (tag_pairs ts (im_id r))) \<longleftrightarrow>
           list_all (eval_cond ts r) (search_conditions filters pc date)"
proof -
  have e: "list_all (\<lambda>(k, v). map_of (py_dict_of (tag_pairs ts (im_id r))) k = Some v) filters \<longleftrightarrow>
           (\<forall>(c, v) \<in> set filters. \<exists>t \<in> set ts. tg_image_id t = im_id r \<and> tg_category t = c \<and> tg_value t = v)"
    unfolding list_all_iff by (simp only: wf_db_tag_dict [OF assms])
  show ?thesis
    unfolding list_all_search_conditions cat_matches_def fst_conv snd_conv e by simp
qed

lemma wf_db_images_distinct:
  "wf_db d \<Longrightarrow> images_tbl d = Some ims \<Longrightarrow> distinct ims"
  using wf_db_image_ids_distinct [of d] by (simp add: image_ids_def distinct_map)

subsection \<open>Refinement\<close>

text \<open>
  C21. The insert refines the abstract \<open>insert\<close>: when \<open>insert_image_with_tags\<close>
  succeeds on a well-formed catalog with a dict (distinct keys), the abstract catalog of
  the new state is the old one with the new image and exactly that dict appended; the
  tags of every image already stored are unchanged.
\<close>

theorem insert_refines_cat_insert:
  assumes "wf_db d" and "distinct (map fst tags)"
    and "insert_image_with_tags pc now fp tags d = (Inr (), d')"
  shows "catalog_of d' = cat_insert (new_image_row d now fp pc) tags (catalog_of d)"
proof -
  have ok: "\<not> insert_fails tags d"
    using insert_image_with_tags_fail [OF assms(1), of tags pc now fp] assms(3) by auto
  then have d': "d' = inserted_db d now fp pc tags"
    using insert_image_with_tags_success [OF assms(1) ok, of pc now fp] assms(3) by simp
  obtain ims where ims: "images_tbl d = Some ims"
    using ok by (auto simp: insert_fails_def)
  have old: "im_id r \<noteq> images_seq d + 1" if "r \<in> set ims" for r
    using ids_ok_fresh [OF wf_db_ids(1) [OF assms(1)], of "im_id r"] that ims
    by (simp add: image_ids_def)
  show ?thesis
  proof (cases "tags_tbl d")
    case None
    then have "tags = []" using ok by (simp add: insert_fails_def)
    with None show ?thesis
      by (simp add: d' catalog_of_def cat_insert_def inserted_db_def ims new_image_row_def tag_pairs_def)
  next
    case (Some ts)
    have fresh: "tag_pairs ts (images_seq d + 1) = []"
      using wf_db_fresh_image_tags [OF assms(1) Some] .
    have "map (\<lambda>r. (r, py_dict_of (tag_pairs ts (im_id r) @ (if im_id r = images_seq d + 1 then tags else [])))) ims =
          map (\<lambda>r. (r, py_dict_of (tag_pairs ts (im_id r)))) ims"
      using old by simp
    with Some fresh assms(2) show ?thesis
      by (simp add: d' catalog_of_def cat_insert_def inserted_db_def ims new_image_row_def)
  qed
qed

text \<open>
  C22. The search query refines the abstract \<open>search\<close>: on a well-formed catalog with both
  tables and at least one condition, \<open>sql_select_images\<close> returns exactly the images the
  abstract search selects from \<open>catalog_of\<close>, in the same order.
\<close>

theorem search_refines_cat_search:
  assumes "wf_db d" and "images_tbl d = Some ims" and "tags_tbl d = Some ts"
    and "search_conditions filters pc date \<noteq> []"
  shows "sql_select_images (search_conditions filters pc date) d =
           Inr (cat_search filters pc date (catalog_of d))"
proof -
  have "map fst (filter (cat_matches filters pc date) (catalog_of d)) =
        filter (\<lambda>r. list_all (eval_cond ts r) (search_conditions filters pc date)) ims"
    using catalog_matches [OF assms(1,3)]
    by (simp add: catalog_of_def assms(2,3) filter_map comp_def)
  moreover have "distinct (filter (\<lambda>r. list_all (eval_cond ts r) (search_conditions filters pc date)) ims)"
    using wf_db_images_distinct [OF assms(1,2)] by simp
  ultimately show ?thesis
    using assms by (simp add: sql_select_images_ok cat_search_def)
qed

subsection \<open>The modules together\<close>

text \<open>
  C23. What the search tool sees of an insert by the tagger: with the test database
  selected (or both paths equal) it reads the file the tagger wrote; with
  \<open>use_production_db\<close> and two different paths the insert never reaches it, since
  search.py always opens \<open>test_db_path\<close>.
\<close>

theorem search_sees_tagger_insert:
  "search_catalog c (tagger_insert_files c pc now fp tags fs) =
     (if use_production_db c \<and> prod_db_path c \<noteq> test_db_path c then search_catalog c fs
      else catalog_of (snd (insert_image_with_tags pc now fp tags (fs (test_db_path c)))))"
  by (auto simp: search_catalog_def tagger_insert_files_def search_db_path_def tagger_DB_PATH_def)

text \<open>
  C24. Running initialize_db.py prepares the file that tagger.py and db_interface.py open,
  whatever the config says: both tables exist there afterwards, so their inserts cannot
  fail with \<open>no such table\<close>, and the rows already in that file are kept.
\<close>

theorem initialize_prepares_tagger_file:
  "images_tbl (initialize_files c fs (tagger_DB_PATH c)) \<noteq> None \<and>
   tags_tbl (initialize_files c fs (tagger_DB_PATH c)) \<noteq> None \<and>
   db_interface_DB_PATH c = tagger_DB_PATH c \<and>
   rows_of (images_tbl (initialize_files c fs (tagger_DB_PATH c))) = rows_of (images_tbl (fs (tagger_DB_PATH c))) \<and>
   rows_of (tags_tbl (initialize_files c fs (tagger_DB_PATH c))) = rows_of (tags_tbl (fs (tagger_DB_PATH c)))"
proof -
  have p: "initialize_db_path c = tagger_DB_PATH c" "db_interface_DB_PATH c = tagger_DB_PATH c"
    by (simp_all add: initialize_db_path_def tagger_DB_PATH_def db_interface_DB_PATH_def)
  then show ?thesis
    using create_schema_tables [of "fs (tagger_DB_PATH c)"]
    by (auto simp: initialize_files_def)
qed

end
