(* ===== verification/OpenFile.thy ===== *)
theory OpenFile
  imports Query
begin

text \<open>
  Opening a search result (src/search.py, \<open>search_images_by_tags\<close>): on Windows
  (\<open>os.name == 'nt'\<close>) \<open>subprocess.run(['start', '', path], shell=True)\<close>, on POSIX
  \<open>subprocess.run(['open', path])\<close>, elsewhere nothing. The OS request is the datatype
  \<open>open_action\<close>. With \<open>shell=True\<close> on Windows, CPython joins the list with
  \<open>subprocess.list2cmdline\<close> (the quoting rules of the Microsoft C runtime) and runs
  \<open>COMSPEC /c "line"\<close>; \<open>cmd.exe\<close> then applies the quote rule of \<open>cmd /c\<close>
  (documented in \<open>cmd /?\<close>: unless the text has exactly two quotes around an
  executable name, the first and the last quote are removed) and splits the rest into
  commands at every \<open>&\<close> outside double quotes. \<open>list2cmdline\<close> and the \<open>cmd\<close>
  rules are library and operating-system behaviour, modelled from their documentation.
\<close>

abbreviation backslash :: char where "backslash \<equiv> CHR 0x5C"
abbreviation dquote :: char where "dquote \<equiv> CHR 0x22"

datatype open_action =
    NoOpen
  | ShellCommand string      \<comment> \<open>the command line handed to \<open>COMSPEC\<close>\<close>
  | ExecArgv "string list"   \<comment> \<open>an argument vector executed without a shell\<close>

text \<open>
  \<open>list2cmdline\<close>, one argument: backslashes are held back until the next character;
  before a quote they are doubled and the quote is escaped, otherwise they are copied.
  The result is the text and the number of backslashes still held at the end.
\<close>

fun l2c_chars :: "nat \<Rightarrow> string \<Rightarrow> string \<times> nat" where
  "l2c_chars n [] = ([], n)"
| "l2c_chars n (c # cs) =
     (if c = backslash then l2c_chars (Suc n) cs
      else if c = dquote then
        (case l2c_chars 0 cs of (r, m) \<Rightarrow> (replicate (2 * n) backslash @ [backslash, dquote] @ r, m))
      else (case l2c_chars 0 cs of (r, m) \<Rightarrow> (replicate n backslash @ c # r, m)))"

definition l2c_arg :: "string \<Rightarrow> string" where
  "l2c_arg s =
     (let needquote = (CHR '' '' \<in> set s \<or> CHR 0x09 \<in> set s \<or> s = []) in
      case l2c_chars 0 s of
        (r, n) \<Rightarrow> (if needquote then [dquote] else []) @ r @ replicate n backslash @
                   (if needquote then replicate n backslash @ [dquote] else []))"

text \<open>
  The arguments joined by one blank (\<open>if result: result.append(' ')\<close>; every encoded
  argument is non-empty, an empty one being \<open>""\<close>).
\<close>

fun list2cmdline :: "string list \<Rightarrow> string" where
  "list2cmdline [] = []"
| "list2cmdline [a] = l2c_arg a"
| "list2cmdline (a # b # args) = l2c_arg a @ CHR '' '' # list2cmdline (b # args)"

text \<open>\<open>'{} /c "{}"'.format(comspec, list2cmdline(args))\<close> of \<open>subprocess.Popen\<close>.\<close>

definition shell_command :: "string \<Rightarrow> string list \<Rightarrow> string" where
  "shell_command comspec args = comspec @ '' /c '' @ dquote # list2cmdline args @ [dquote]"

definition open_image :: "string \<Rightarrow> string \<Rightarrow> path \<Rightarrow> open_action" where
  "open_image os_name comspec p =
     (if os_name = ''nt'' then ShellCommand (shell_command comspec [''start'', [], p])
      else if os_name = ''posix'' then ExecArgv [''open'', p]
      else NoOpen)"

text \<open>The requests the answers of one search make, in result order.\<close>

definition open_actions :: "string \<Rightarrow> string \<Rightarrow> (image_row \<times> py_dict \<times> bool) list \<Rightarrow> open_action list" where
  "open_actions os_name comspec out =
     map (\<lambda>(r, _, _). open_image os_name comspec (im_file_path r)) (filter (\<lambda>(_, _, yes). yes) out)"

subsection \<open>What cmd.exe does with the line\<close>

text \<open>
  \<open>cmd /c\<close>: when the text after the switch has exactly two quotes, with white space and
  none of \<open>&<>()@^|\<close> between them, and names an executable (\<open>is_exe\<close>), the quotes
  are kept; otherwise a leading quote is removed together with the last quote.
\<close>

definition cmd_special :: "char \<Rightarrow> bool" where
  "cmd_special c \<longleftrightarrow> c \<in> set ''&<>()@^|''"

definition cmd_keeps_quotes :: "(string \<Rightarrow> bool) \<Rightarrow> string \<Rightarrow> bool" where
  "cmd_keeps_quotes is_exe s \<longleftrightarrow>
     length (filter (\<lambda>c. c = dquote) s) = 2 \<and>
     (let inner = takeWhile (\<lambda>c. c \<noteq> dquote) (tl (dropWhile (\<lambda>c. c \<noteq> dquote) s)) in
      \<not> list_ex cmd_special inner \<and> CHR '' '' \<in> set inner \<and> is_exe inner)"

definition drop_last_quote :: "string \<Rightarrow> string" where
  "drop_last_quote s =
     (if dquote \<in> set s
      then (let i = length s - 1 - length (takeWhile (\<lambda>c. c \<noteq> dquote) (rev s)) in take i s @ drop (Suc i) s)
      else s)"

definition cmd_c_line :: "(string \<Rightarrow> bool) \<Rightarrow> string \<Rightarrow> string" where
  "cmd_c_line is_exe s =
     (if cmd_keeps_quotes is_exe s then s
      else if s \<noteq> [] \<and> hd s = dquote then drop_last_quote (tl s) else s)"

text \<open>The commands of a line: \<open>&\<close> outside double quotes separates two commands.\<close>

fun cmd_split :: "bool \<Rightarrow> string \<Rightarrow> string list" where
  "cmd_split q [] = [[]]"
| "cmd_split q (c # cs) =
     (if c = CHR ''&'' \<and> \<not> q then [] # cmd_split q cs
      else (case cmd_split (if c = dquote then \<not> q else q) cs of
              w # ws \<Rightarrow> (c # w) # ws
            | [] \<Rightarrow> [[c]]))"

definition cmd_commands :: "(string \<Rightarrow> bool) \<Rightarrow> string \<Rightarrow> string list" where
  "cmd_commands is_exe s = cmd_split False (cmd_c_line is_exe s)"

subsection \<open>A file name reaches cmd.exe unquoted\<close>

lemma l2c_chars_plain:
  "dquote \<notin> set s \<Longrightarrow> fst (l2c_chars n s) @ replicate (snd (l2c_chars n s)) backslash = replicate n backslash @ s"
  by (induction n s rule: l2c_chars.induct) (auto split: prod.split simp: replicate_app_Cons_same)

lemma l2c_arg_plain:
  assumes "s \<noteq> []" and "CHR '' '' \<notin> set s" and "CHR 0x09 \<notin> set s" and "dquote \<notin> set s"
  shows "l2c_arg s = s"
proof -
  obtain r n where rn: "l2c_chars 0 s = (r, n)" by (cases "l2c_chars 0 s") auto
  then show ?thesis
    using assms l2c_chars_plain [OF assms(4), of 0] by (simp add: l2c_arg_def)
qed

lemma cmd_split_nonempty: "cmd_split q s \<noteq> []"
  by (induction q s rule: cmd_split.induct) (auto split: list.split)

lemma cmd_split_plain:
  assumes "CHR ''&'' \<notin> set w" and "dquote \<notin> set w"
  shows "cmd_split q (w @ rest) = (case cmd_split q rest of v # vs \<Rightarrow> (w @ v) # vs | [] \<Rightarrow> [w])"
  using assms
proof (induction w)
  case (Cons c w)
  then show ?case
    using cmd_split_nonempty [of q rest] by (auto split: list.split)
next
  case Nil
  then show ?case
    using cmd_split_nonempty [of q rest] by (simp split: list.split)
qed

lemma drop_last_quote_snoc: "drop_last_quote (s @ [dquote]) = s"
  by (simp add: drop_last_quote_def)

text \<open>
  C25. Opening a result whose stored path contains \<open>&\<close> and no blank: on POSIX the
  path is one argument of \<open>open\<close>; on Windows \<open>list2cmdline\<close> leaves it unquoted,
  \<open>cmd /c\<close> strips the outer quotes, and \<open>cmd\<close> runs the text after the \<open>&\<close> as a
  command of its own.
\<close>

theorem open_image_windows_splits_path:
  assumes "\<forall>c \<in> set (a @ b). c \<noteq> CHR '' '' \<and> c \<noteq> CHR 0x09 \<and> c \<noteq> dquote \<and> c \<noteq> CHR ''&''"
  shows "open_image ''posix'' comspec (a @ ''&'' @ b) = ExecArgv [''open'', a @ ''&'' @ b] \<and>
         (\<exists>X. open_image ''nt'' comspec (a @ ''&'' @ b) = ShellCommand (comspec @ '' /c '' @ X) \<and>
              cmd_commands is_exe X = [''start '' @ [dquote, dquote, CHR '' ''] @ a, b])"
proof -
  let ?p = "a @ ''&'' @ b"
  have "l2c_arg ?p = ?p"
    using assms by (intro l2c_arg_plain) auto
  then have enc: "l2c_arg (a @ CHR ''&'' # b) = a @ CHR ''&'' # b" by simp
  define X where "X = dquote # ''start'' @ CHR '' '' # [dquote, dquote] @ CHR '' '' # ?p @ [dquote]"
  have "l2c_arg ''start'' = ''start''" "l2c_arg [] = [dquote, dquote]"
    by (simp_all add: l2c_arg_def)
  then have cmd: "open_image ''nt'' comspec ?p = ShellCommand (comspec @ '' /c '' @ X)"
    by (simp add: open_image_def shell_command_def X_def enc)
  have "\<not> cmd_keeps_quotes is_exe X"
    by (simp add: cmd_keeps_quotes_def X_def)
  then have line: "cmd_c_line is_exe X = ''start'' @ CHR '' '' # [dquote, dquote] @ CHR '' '' # ?p"
    using drop_last_quote_snoc [of "''start'' @ CHR '' '' # [dquote, dquote] @ CHR '' '' # ?p"]
    by (simp add: cmd_c_line_def X_def)
  have na: "CHR ''&'' \<notin> set a" "dquote \<notin> set a" and nb: "CHR ''&'' \<notin> set b" "dquote \<notin> set b"
    using assms by auto
  have "cmd_split False (''start'' @ CHR '' '' # [dquote, dquote] @ CHR '' '' # ?p) =
        [''start '' @ [dquote, dquote, CHR '' ''] @ a, b]"
    using cmd_split_plain [OF na, of False "''&'' @ b"] cmd_split_plain [OF nb, of False "[]"]
    by simp
  with cmd line show ?thesis
    by (auto simp: open_image_def cmd_commands_def)
qed

end
