(* ===== verification/Rowid64.thy ===== *)
theory Rowid64
  imports Schema "HOL-Library.Word"
begin

text \<open>
  SQLite stores a rowid as a 64-bit signed integer. The model keeps rowids as \<open>int\<close>;
  this theory reads them back through \<open>64 word\<close> (\<open>sint\<close>, two's complement) to show
  that the AUTOINCREMENT rule of \<open>autoinc_rowid\<close> (src/tagger.py and
  src/db_interface.py insert through it) never hands out a rowid that the 64-bit column
  cannot hold, and that the single rowid it refuses is exactly the one that would wrap.
\<close>

type_synonym int64 = "64 word"

definition fits_int64 :: "int \<Rightarrow> bool" where
  "fits_int64 i \<longleftrightarrow> sint (word_of_int i :: int64) = i"

lemma fits_int64_iff: "fits_int64 i \<longleftrightarrow> - (2 ^ 63) \<le> i \<and> i < 2 ^ 63"
  by (simp add: fits_int64_def sint_sbintrunc' signed_take_bit_int_eq_self_iff)

lemma sqlite_max_rowid_eq: "sqlite_max_rowid = 2 ^ 63 - 1"
  by (simp add: sqlite_max_rowid_def)

text \<open>
  C26. Under the counter invariant \<open>ids_ok\<close>, every rowid AUTOINCREMENT hands out is
  positive and survives the round trip through a 64-bit signed integer, and the insert
  fails with \<open>SQLITE_FULL\<close> exactly when the next rowid would wrap around.
\<close>

theorem autoinc_rowid_fits_int64:
  assumes "ids_ok seq ids"
  shows "(\<forall>i. autoinc_rowid seq ids = Inr i \<longrightarrow> 0 < i \<and> fits_int64 i) \<and>
         (autoinc_rowid seq ids = Inl DatabaseFull \<longleftrightarrow> \<not> fits_int64 (seq + 1))"
proof -
  have b: "0 \<le> seq" "seq \<le> 2 ^ 63 - 1"
    using assms by (simp_all add: ids_ok_def sqlite_max_rowid_eq)
  show ?thesis
    using assms b by (auto simp: fits_int64_iff sqlite_max_rowid_eq)
qed

end
