(* ===== verification/Batch.thy ===== *)
theory Batch
  imports Workflow
begin

text \<open>
  Progress of the tagging workflow of src/tagger.py: on a catalog whose two tables exist,
  tagging one file reads at most eight lines (the overwrite question, six fields and the
  confirmation) and never raises, so a batch over a folder with \<open>n\<close> image files runs to
  its end when standard input holds the folder line and \<open>8 * n\<close> more lines.
\<close>

definition tables_present :: "db \<Rightarrow> bool" where
  "tables_present d \<longleftrightarrow> images_tbl d \<noteq> None \<and> tags_tbl d \<noteq> None"

lemma prompt_tags_total:
  assumes "6 \<le> length inp"
  shows "\<exists>tags w. prompt_tags voc lt inp = Inr ((tags, w), drop 6 inp)"
proof -
  have "length tagger_fields = 6" "distinct tagger_fields"
    by (simp_all add: tagger_fields_def)
  then show ?thesis
    using prompt_fields_result [of tagger_fields inp "[]" voc lt "[]"] assms
    by (auto simp: prompt_tags_def)
qed

lemma tag_and_save_total:
  assumes "7 \<le> length inp"
  shows "\<exists>lt' d'. tag_and_save voc pc now fp lt d inp = Inr ((lt', d'), drop 7 inp)"
proof -
  obtain tags w where pt: "prompt_tags voc lt inp = Inr ((tags, w), drop 6 inp)"
    using prompt_tags_total [of inp voc lt] assms by auto
  have inp6: "drop 6 inp = inp ! 6 # drop 7 inp"
    using assms Cons_nth_drop_Suc [of 6 inp] by simp
  show ?thesis
    using pt inp6
    by (auto simp: tag_and_save_def split: prod.split sum.split)
qed

lemma tag_image_total:
  assumes "tables_present d" and "8 \<le> length inp"
  shows "\<exists>lt' d' inp'. tag_image voc env now fp lt d inp = Inr ((lt', d'), inp') \<and> length inp \<le> length inp' + 8"
proof (cases "is_file env fp")
  case False
  then show ?thesis by (simp add: tag_image_def)
next
  case True
  obtain rs ts where tb: "images_tbl d = Some rs" "tags_tbl d = Some ts"
    using assms(1) by (auto simp: tables_present_def)
  define ex where "ex = map_option im_id (find (\<lambda>r. im_file_path r = fp) rs)"
  have ie: "image_exists fp d = Inr ex"
    by (simp add: image_exists_def tb ex_def)
  obtain line rest where inp: "inp = line # rest"
    using assms(2) by (cases inp) auto
  have gt: "\<exists>g. get_tags_for_image i d = Inr g" for i
    by (simp add: get_tags_for_image_def sql_select_tags_of_def tb)
  have ts1: "\<exists>lt' d'. tag_and_save voc (hostname env) now fp lt d rest = Inr ((lt', d'), drop 7 rest)"
    using assms(2) inp by (intro tag_and_save_total) simp
  have ts0: "\<exists>lt' d'. tag_and_save voc (hostname env) now fp lt d inp = Inr ((lt', d'), drop 7 inp)"
    using assms(2) by (intro tag_and_save_total) simp
  show ?thesis
  proof (cases "ex \<noteq> None \<and> the ex \<noteq> 0")
    case ask: True
    then obtain g where g: "get_tags_for_image (the ex) d = Inr g"
      using gt by blast
    show ?thesis
      using True ie ask g ts1 inp by (auto simp: tag_image_def)
  next
    case False
    then show ?thesis
      using True ie ts0 by (auto simp: tag_image_def)
  qed
qed

lemma tables_present_inserted:
  "tables_present d \<Longrightarrow> tables_present (inserted_db d now fp pc tags)"
  by (auto simp: tables_present_def inserted_db_def)

lemma tag_image_tables_present:
  assumes "wf_db d" and "tables_present d" and "tag_image voc env now fp lt d inp = Inr ((lt', d'), inp')"
  shows "tables_present d'"
  using tag_image_effect [OF assms(1,3)] assms(2) tables_present_inserted by auto

lemma batch_loop_total:
  assumes "wf_db d" and "tables_present d" and "8 * length fs \<le> length inp"
  shows "\<exists>lt' d' inp'. batch_loop voc env clock n folder fs lt d inp = Inr ((lt', d'), inp')"
  using assms
proof (induction fs arbitrary: n lt d inp)
  case Nil
  then show ?case by simp
next
  case (Cons f fs)
  obtain lt1 d1 inp1 where step: "tag_image voc env (clock n) (path_join folder f) lt d inp = Inr ((lt1, d1), inp1)"
    and len: "length inp \<le> length inp1 + 8"
  proof -
    have "8 \<le> length inp" using Cons.prems(3) by simp
    then show ?thesis
      using tag_image_total [OF Cons.prems(2), of inp voc env "clock n" "path_join folder f" lt] that by blast
  qed
  have "wf_db d1" using tag_image_wf_appends [OF Cons.prems(1) step] by simp
  moreover have "tables_present d1" using tag_image_tables_present [OF Cons.prems(1,2) step] .
  moreover have "8 * length fs \<le> length inp1" using Cons.prems(3) len by simp
  ultimately obtain lt' d' inp' where "batch_loop voc env clock (Suc n) folder fs lt1 d1 inp1 = Inr ((lt', d'), inp')"
    using Cons.IH by blast
  then show ?case using step by simp
qed

text \<open>
  C27. A batch run on a catalog whose tables exist runs to its end and returns when
  standard input holds the folder line and eight lines for every image file of the
  folder: no answer sequence makes it raise, and a failing insert is caught.
\<close>

theorem run_batch_completes:
  assumes "wf_db d" and "images_tbl d \<noteq> None" and "tags_tbl d \<noteq> None"
    and "8 * length (filter is_image_name (listdir env (py_strip l))) \<le> length rest"
  shows "\<exists>d' inp'. run_batch voc env clock d (l # rest) = Inr (d', inp')"
proof -
  have tp: "tables_present d" using assms(2,3) by (simp add: tables_present_def)
  obtain lt' d' inp' where
    "batch_loop voc env clock 0 (py_strip l) (filter is_image_name (listdir env (py_strip l))) [] d rest = Inr ((lt', d'), inp')"
    using batch_loop_total [OF assms(1) tp assms(4)] by blast
  then show ?thesis
    by (simp add: run_batch_def Let_def)
qed

end
