(* ===== verification/Warnings.thy ===== *)
theory Warnings
  imports Workflow
begin

text \<open>
  The vocabulary check of \<open>prompt_tags\<close> (src/tagger.py): a value outside the allowed
  values that tags_list.json lists for its key is reported, and kept in the dict.
\<close>

lemma prompt_fields_warns:
  assumes "prompt_fields voc lt keys inp tags warns = Inr ((tags', warns'), inp')"
    and "distinct keys" and "set keys \<inter> fst ` set tags = {}"
  shows "\<exists>new. tags' = tags @ new \<and> warns' = warns @ map fst (filter (\<lambda>(k, v). not_allowed voc k v) new)"
  using assms
proof (induction keys arbitrary: inp tags warns)
  case Nil
  then show ?case by simp
next
  case (Cons key keys)
  obtain line rest where inp: "inp = line # rest"
    using Cons.prems(1) by (cases inp) auto
  show ?case
  proof (cases "field_value lt key line = []")
    case True
    then have "prompt_fields voc lt keys rest tags warns = Inr ((tags', warns'), inp')"
      using Cons.prems(1) inp by simp
    with Cons.IH Cons.prems(2,3) show ?thesis by auto
  next
    case False
    let ?v = "field_value lt key line"
    have fresh: "key \<notin> fst ` set tags" using Cons.prems(3) by auto
    then have "prompt_fields voc lt keys rest (tags @ [(key, ?v)])
                 (warns @ (if not_allowed voc key ?v then [key] else [])) = Inr ((tags', warns'), inp')"
      using Cons.prems(1) inp False by (simp add: Let_def)
    moreover have "set keys \<inter> fst ` set (tags @ [(key, ?v)]) = {}"
      using Cons.prems(2,3) by auto
    ultimately obtain new where "tags' = (tags @ [(key, ?v)]) @ new"
      and "warns' = (warns @ (if not_allowed voc key ?v then [key] else [])) @
                    map fst (filter (\<lambda>(k, v). not_allowed voc k v) new)"
      using Cons.IH Cons.prems(2) by fastforce
    then show ?thesis
      by (intro exI [of _ "(key, ?v) # new"]) auto
  qed
qed

text \<open>
  C28. \<open>prompt_tags\<close> warns about exactly the entered fields whose value is not among
  the allowed values of its key, in field order, and keeps every entered value in the
  dict: the warnings never change the tags.
\<close>

theorem prompt_tags_warns_exactly:
  assumes "prompt_tags voc lt inp = Inr ((tags, warns), inp')"
  shows "warns = map fst (filter (\<lambda>(k, v). not_allowed voc k v) tags)"
proof -
  have "distinct tagger_fields" by (simp add: tagger_fields_def)
  then show ?thesis
    using prompt_fields_warns [of voc lt tagger_fields inp "[]" "[]" tags warns inp'] assms
    by (auto simp: prompt_tags_def)
qed

end
