(* ===== verification/Config.thy ===== *)
theory Config
  imports Catalog Workflow "HOL-Library.Sublist"
begin

text \<open>
  Loading the configuration at import time. Every module runs
  \<open>config = json.load(open(...))\<close> and picks its database path from it; tagger.py also
  loads the optional vocabulary \<open>TAGS_DICT\<close> from tags_list.json. \<open>json.load\<close> is
  library code: its result is the datatype \<open>json\<close> (objects as the list of their
  members in file order, so that duplicate keys resolve as \<open>dict\<close> does, the last one
  winning), and a file holds a parsed document, a malformed one, or nothing. Numbers are
  integers; a JSON fraction is not modelled. Python's \<open>if x\<close>, \<open>x[k]\<close> and
  \<open>k in x\<close> on these values are \<open>py_truthy\<close>, \<open>py_getitem\<close> and
  \<open>py_contains\<close>, each with the exceptions CPython raises. The relative path
  \<open>config_local.json\<close> is the file of that name in the working directory.
\<close>

abbreviation squote :: char where "squote \<equiv> CHR 0x27"

datatype json =
    JNull
  | JBool bool
  | JInt int
  | JStr string
  | JList "json list"
  | JObj "(string \<times> json) list"

datatype json_file = Missing | Malformed | Parsed json

type_synonym json_fs = "path \<Rightarrow> json_file"

text \<open>\<open>with open(p) as f: json.load(f)\<close>.\<close>

definition json_load :: "json_fs \<Rightarrow> path \<Rightarrow> py_error + json" where
  "json_load fs p =
     (case fs p of
        Missing \<Rightarrow> Inl (FileNotFoundError p)
      | Malformed \<Rightarrow> Inl JSONDecodeError
      | Parsed j \<Rightarrow> Inr j)"

definition py_os_path_exists :: "json_fs \<Rightarrow> path \<Rightarrow> bool" where
  "py_os_path_exists fs p \<longleftrightarrow> fs p \<noteq> Missing"

fun py_type_name :: "json \<Rightarrow> string" where
  "py_type_name JNull = ''NoneType''"
| "py_type_name (JBool b) = ''bool''"
| "py_type_name (JInt i) = ''int''"
| "py_type_name (JStr s) = ''str''"
| "py_type_name (JList xs) = ''list''"
| "py_type_name (JObj ps) = ''dict''"

fun py_truthy :: "json \<Rightarrow> bool" where
  "py_truthy JNull = False"
| "py_truthy (JBool b) = b"
| "py_truthy (JInt i) = (i \<noteq> 0)"
| "py_truthy (JStr s) = (s \<noteq> [])"
| "py_truthy (JList xs) = (xs \<noteq> [])"
| "py_truthy (JObj ps) = (ps \<noteq> [])"

text \<open>\<open>x[k]\<close> with a string key.\<close>

fun py_getitem :: "json \<Rightarrow> string \<Rightarrow> py_error + json" where
  "py_getitem (JObj ps) k = (case map_of (py_dict_of ps) k of Some v \<Rightarrow> Inr v | None \<Rightarrow> Inl (KeyError k))"
| "py_getitem (JList xs) k = Inl (TypeError ''list indices must be integers or slices, not str'')"
| "py_getitem (JStr s) k = Inl (TypeError (''string indices must be integers, not '' @ squote # ''str'' @ [squote]))"
| "py_getitem j k = Inl (TypeError (squote # py_type_name j @ squote # '' object is not subscriptable''))"

text \<open>\<open>x in c\<close> with a string \<open>x\<close>: a key of a dict, an element of a list, a substring of a str.\<close>

fun py_contains :: "string \<Rightarrow> json \<Rightarrow> py_error + bool" where
  "py_contains x (JObj ps) = Inr (x \<in> set (map fst ps))"
| "py_contains x (JList xs) = Inr (JStr x \<in> set xs)"
| "py_contains x (JStr s) = Inr (sublist x s)"
| "py_contains x j = Inl (TypeError (''argument of type '' @ squote # py_type_name j @ squote # '' is not iterable''))"

text \<open>The path argument of \<open>sqlite3.connect\<close>.\<close>

fun py_path_arg :: "json \<Rightarrow> py_error + path" where
  "py_path_arg (JStr p) = Inr p"
| "py_path_arg j = Inl (TypeError (''expected str, bytes or os.PathLike object, not '' @ py_type_name j))"

subsection \<open>The database path of each module\<close>

text \<open>
  \<open>config["prod_db_path"] if config["use_production_db"] else config["test_db_path"]\<close>
  (tagger.py, db_interface.py): the condition first, then only the chosen key.
\<close>

definition config_select :: "json \<Rightarrow> py_error + json" where
  "config_select cfg =
     (case py_getitem cfg ''use_production_db'' of
        Inl e \<Rightarrow> Inl e
      | Inr u \<Rightarrow> (if py_truthy u then py_getitem cfg ''prod_db_path'' else py_getitem cfg ''test_db_path''))"

text \<open>\<open>config["test_db_path"] if not config["use_production_db"] else config["prod_db_path"]\<close> (initialize_db.py).\<close>

definition config_select_not :: "json \<Rightarrow> py_error + json" where
  "config_select_not cfg =
     (case py_getitem cfg ''use_production_db'' of
        Inl e \<Rightarrow> Inl e
      | Inr u \<Rightarrow> (if \<not> py_truthy u then py_getitem cfg ''test_db_path'' else py_getitem cfg ''prod_db_path''))"

definition db_interface_module :: "json_fs \<Rightarrow> py_error + json" where
  "db_interface_module fs = (case json_load fs ''config_local.json'' of Inl e \<Rightarrow> Inl e | Inr cfg \<Rightarrow> config_select cfg)"

definition search_module :: "json_fs \<Rightarrow> py_error + json" where
  "search_module fs =
     (case json_load fs ''config_local.json'' of Inl e \<Rightarrow> Inl e | Inr cfg \<Rightarrow> py_getitem cfg ''test_db_path'')"

definition initialize_db_module :: "json_fs \<Rightarrow> py_error + json" where
  "initialize_db_module fs = (case json_load fs ''config_local.json'' of Inl e \<Rightarrow> Inl e | Inr cfg \<Rightarrow> config_select_not cfg)"

text \<open>\<open>if __name__ == "__main__": create_schema(db_path)\<close>, from the import on.\<close>

definition initialize_db_main :: "json_fs \<Rightarrow> files \<Rightarrow> py_error + files" where
  "initialize_db_main fs dbs =
     (case initialize_db_module fs of
        Inl e \<Rightarrow> Inl e
      | Inr dbp \<Rightarrow> (case py_path_arg dbp of
                     Inl e \<Rightarrow> Inl e
                   | Inr p \<Rightarrow> Inr (dbs(p := create_schema (dbs p)))))"

definition tagger_CONFIG_PATH :: path where
  "tagger_CONFIG_PATH = ''E:/NanowaveOMproj/config_local.json''"

definition tagger_TAGS_LIST_PATH :: path where
  "tagger_TAGS_LIST_PATH = ''E:/NanowaveOMproj/tags_list.json''"

text \<open>The import of tagger.py: its \<open>DB_PATH\<close> and \<open>TAGS_DICT\<close>.\<close>

definition tagger_module :: "json_fs \<Rightarrow> py_error + (json \<times> json)" where
  "tagger_module fs =
     (case json_load fs tagger_CONFIG_PATH of
        Inl e \<Rightarrow> Inl e
      | Inr cfg \<Rightarrow> (case config_select cfg of
          Inl e \<Rightarrow> Inl e
        | Inr dbp \<Rightarrow> (case (if py_os_path_exists fs tagger_TAGS_LIST_PATH
                            then json_load fs tagger_TAGS_LIST_PATH else Inr (JObj [])) of
            Inl e \<Rightarrow> Inl e
          | Inr td \<Rightarrow> Inr (dbp, td))))"

text \<open>\<open>if key in TAGS_DICT and val not in TAGS_DICT[key]\<close> of \<open>prompt_tags\<close>.\<close>

definition tags_check :: "json \<Rightarrow> string \<Rightarrow> string \<Rightarrow> py_error + bool" where
  "tags_check td key val =
     (case py_contains key td of
        Inl e \<Rightarrow> Inl e
      | Inr found \<Rightarrow>
          (if \<not> found then Inr False
           else (case py_getitem td key of
                   Inl e \<Rightarrow> Inl e
                 | Inr allowed \<Rightarrow> (case py_contains val allowed of Inl e \<Rightarrow> Inl e | Inr b \<Rightarrow> Inr (\<not> b)))))"

subsection \<open>The documents the model's arguments stand for\<close>

text \<open>
  A config whose two paths are strings determines the record \<open>config\<close>; its flag is
  read as Python's \<open>if\<close> reads it. A vocabulary document is an object of lists of
  strings.
\<close>

definition config_of_json :: "json \<Rightarrow> config option" where
  "config_of_json j =
     (case (py_getitem j ''use_production_db'', py_getitem j ''prod_db_path'', py_getitem j ''test_db_path'') of
        (Inr u, Inr (JStr pp), Inr (JStr tp)) \<Rightarrow>
          Some \<lparr>use_production_db = py_truthy u, prod_db_path = pp, test_db_path = tp\<rparr>
      | _ \<Rightarrow> None)"

fun json_strs :: "json list \<Rightarrow> string list option" where
  "json_strs [] = Some []"
| "json_strs (JStr s # xs) = map_option (Cons s) (json_strs xs)"
| "json_strs (_ # xs) = None"

fun vocab_members :: "(string \<times> json) list \<Rightarrow> vocab option" where
  "vocab_members [] = Some []"
| "vocab_members ((k, JList xs) # ps) =
     (case (json_strs xs, vocab_members ps) of (Some vs, Some voc) \<Rightarrow> Some ((k, vs) # voc) | _ \<Rightarrow> None)"
| "vocab_members (_ # ps) = None"

fun vocab_of_json :: "json \<Rightarrow> vocab option" where
  "vocab_of_json (JObj ps) = map_option py_dict_of (vocab_members ps)"
| "vocab_of_json _ = None"

subsection \<open>The modules' paths refine the config record\<close>

lemma config_of_json_Some:
  assumes "config_of_json j = Some c"
  shows "\<exists>u. py_getitem j ''use_production_db'' = Inr u \<and> py_truthy u = use_production_db c \<and>
             py_getitem j ''prod_db_path'' = Inr (JStr (prod_db_path c)) \<and>
             py_getitem j ''test_db_path'' = Inr (JStr (test_db_path c))"
  using assms by (auto simp: config_of_json_def split: sum.splits json.splits)

lemma config_select_of_json:
  assumes "config_of_json j = Some c"
  shows "config_select j = Inr (JStr (tagger_DB_PATH c))"
    and "config_select j = Inr (JStr (db_interface_DB_PATH c))"
    and "config_select_not j = Inr (JStr (initialize_db_path c))"
  using config_of_json_Some [OF assms]
  by (auto simp: config_select_def config_select_not_def tagger_DB_PATH_def db_interface_DB_PATH_def
                 initialize_db_path_def)

text \<open>
  C29. Loading a config whose paths are strings gives each module the path the record
  \<open>config\<close> selects: db_interface.py and initialize_db.py the production or test
  path by the flag, search.py always the test path, and the main block of
  initialize_db.py creates the schema in exactly the file \<open>initialize_files\<close> does.
\<close>

theorem config_refines_module_paths:
  assumes "fs ''config_local.json'' = Parsed cfg" and "config_of_json cfg = Some c"
  shows "db_interface_module fs = Inr (JStr (db_interface_DB_PATH c)) \<and>
         search_module fs = Inr (JStr (search_db_path c)) \<and>
         initialize_db_module fs = Inr (JStr (initialize_db_path c)) \<and>
         initialize_db_main fs dbs = Inr (initialize_files c dbs)"
  using assms config_select_of_json [OF assms(2)] config_of_json_Some [OF assms(2)]
  by (auto simp: db_interface_module_def search_module_def initialize_db_module_def initialize_db_main_def
                 initialize_files_def json_load_def search_db_path_def)

text \<open>
  C30. The import of tagger.py: its \<open>DB_PATH\<close> is the path the config record selects;
  without tags_list.json the vocabulary is empty (no warning is ever printed), a malformed
  tags_list.json makes the import fail with \<open>JSONDecodeError\<close> although the file is
  optional, and otherwise the document is the vocabulary.
\<close>

theorem tagger_module_loads:
  assumes "fs tagger_CONFIG_PATH = Parsed cfg" and "config_of_json cfg = Some c"
  shows "(fs tagger_TAGS_LIST_PATH = Missing \<longrightarrow>
            tagger_module fs = Inr (JStr (tagger_DB_PATH c), JObj []) \<and> vocab_of_json (JObj []) = Some []) \<and>
         (fs tagger_TAGS_LIST_PATH = Malformed \<longrightarrow> tagger_module fs = Inl JSONDecodeError) \<and>
         (\<forall>td. fs tagger_TAGS_LIST_PATH = Parsed td \<longrightarrow> tagger_module fs = Inr (JStr (tagger_DB_PATH c), td))"
  using assms config_select_of_json(1) [OF assms(2)]
  by (auto simp: tagger_module_def json_load_def py_os_path_exists_def py_dict_of_def)

subsection \<open>The vocabulary check\<close>

lemma json_strs_mem: "json_strs xs = Some vs \<Longrightarrow> (JStr x \<in> set xs) = (x \<in> set vs)"
  by (induction xs arbitrary: vs rule: json_strs.induct) auto

lemma vocab_members_rel:
  "vocab_members ps = Some voc \<Longrightarrow>
   list_all2 (\<lambda>(k, x) (k', vs). k' = k \<and> (\<exists>xs. x = JList xs \<and> json_strs xs = Some vs)) ps voc"
  by (induction ps arbitrary: voc rule: vocab_members.induct) (auto split: option.splits)

text \<open>
  C31. On a vocabulary document (an object of lists of strings, duplicate keys resolved as
  \<open>json.load\<close> resolves them) the check \<open>key in TAGS_DICT and val not in
  TAGS_DICT[key]\<close> never raises and is \<open>not_allowed\<close> of the vocabulary it
  denotes: the argument \<open>voc\<close> of the tagging model is exactly what the code checks.
\<close>

theorem tags_check_refines_not_allowed:
  assumes "vocab_of_json td = Some voc"
  shows "tags_check td key val = Inr (not_allowed voc key val)"
proof -
  obtain ps voc0 where td: "td = JObj ps" and v0: "vocab_members ps = Some voc0" and voc: "voc = py_dict_of voc0"
    using assms by (cases td) auto
  let ?R = "\<lambda>x vs. \<exists>xs. x = JList xs \<and> json_strs xs = Some vs"
  have rel: "list_all2 (\<lambda>(k, x) (k', vs). k' = k \<and> ?R x vs) ps voc0"
    using vocab_members_rel [OF v0] .
  then have rrel: "list_all2 (\<lambda>(k, x) (k', vs). k' = k \<and> ?R x vs) (rev ps) (rev voc0)"
    by (simp add: list_all2_rev)
  have keys: "map fst voc0 = map fst ps" using keys_rel [OF rel] .
  show ?thesis
  proof (cases "key \<in> set (map fst ps)")
    case False
    then have "map_of (rev voc0) key = None"
      using keys by (metis map_of_eq_None_iff set_map set_rev)
    with False show ?thesis
      by (simp add: tags_check_def td voc not_allowed_def)
  next
    case True
    then obtain x where x: "map_of (rev ps) key = Some x"
      by (metis map_of_eq_None_iff not_Some_eq set_map set_rev)
    with map_of_rel [OF rrel, of key] obtain xs vs where
      "x = JList xs" "json_strs xs = Some vs" "map_of (rev voc0) key = Some vs" by auto
    with True x json_strs_mem show ?thesis
      by (simp add: tags_check_def td voc not_allowed_def)
  qed
qed

text \<open>
  C32. On other documents the check is not a vocabulary test: a key mapped to a string
  accepts every substring of it, a top-level list raises \<open>TypeError\<close> on a key it
  contains (and accepts everything else), and a key mapped to a number raises
  \<open>TypeError\<close>.
\<close>

theorem tags_check_other_shapes:
  "tags_check (JObj [(key, JStr s)]) key val = Inr (\<not> sublist val s) \<and>
   tags_check (JList xs) key val =
     (if JStr key \<in> set xs then Inl (TypeError ''list indices must be integers or slices, not str'') else Inr False) \<and>
   tags_check (JObj [(key, JInt i)]) key val =
     Inl (TypeError (''argument of type '' @ squote # ''int'' @ squote # '' is not iterable''))"
  by (simp add: tags_check_def py_dict_of_def)

text \<open>
  C33. The flag is read with Python's truthiness, so a config that writes
  \<open>"use_production_db": "false"\<close> as a string makes db_interface.py and
  initialize_db.py open the production database; search.py opens the test database.
\<close>

theorem use_production_db_false_string:
  assumes "fs ''config_local.json'' =
           Parsed (JObj [(''use_production_db'', JStr ''false''), (''prod_db_path'', JStr pp), (''test_db_path'', JStr tp)])"
  shows "db_interface_module fs = Inr (JStr pp) \<and> initialize_db_module fs = Inr (JStr pp) \<and>
         search_module fs = Inr (JStr tp)"
  using assms
  by (simp add: db_interface_module_def initialize_db_module_def search_module_def json_load_def
                config_select_def config_select_not_def py_dict_of_def)

text \<open>
  C34. Only the chosen path key is read: a config without \<open>prod_db_path\<close> loads in
  db_interface.py and initialize_db.py while the flag is false, and raises
  \<open>KeyError\<close> naming that key when it is true; both modules agree.
\<close>

theorem config_unchosen_key_not_read:
  assumes "fs ''config_local.json'' = Parsed (JObj ps)" and "map_of (rev ps) ''use_production_db'' = Some u"
    and "''prod_db_path'' \<notin> set (map fst ps)"
  shows "db_interface_module fs =
           (if py_truthy u then Inl (KeyError ''prod_db_path'') else py_getitem (JObj ps) ''test_db_path'') \<and>
         initialize_db_module fs = db_interface_module fs"
proof -
  have "map_of (rev ps) ''prod_db_path'' = None"
    using assms(3) by (simp add: map_of_eq_None_iff)
  then show ?thesis
    using assms(1,2)
    by (simp add: db_interface_module_def initialize_db_module_def json_load_def
                  config_select_def config_select_not_def)
qed

end
