(* ===== verification/Examples.thy ===== *)
theory Examples
  imports Store Query Workflow Menu Catalog OpenFile Rowid64 Batch Warnings Config
begin

text \<open>
  Concrete catalogs from the scenarios of the spec (section 8): image A tagged
  \<open>{material: WS2}\<close>, image B tagged \<open>{material: WS2, thickness: monolayer}\<close>, and
  image C tagged \<open>{material: MoS2}\<close> inserted from another host. They are written out as
  tables and shown to be what the inserts of src/tagger.py produce; the witnesses of the
  claims evaluate on them.
\<close>

definition img_A :: image_row where
  "img_A = \<lparr>im_id = 1, im_file_path = ''a.png'', im_pc_name = ''lab-pc'', im_added_time = ''2024-01-01 10:00:00''\<rparr>"

definition img_B :: image_row where
  "img_B = \<lparr>im_id = 2, im_file_path = ''b.png'', im_pc_name = ''lab-pc'', im_added_time = ''2024-01-02 10:00:00''\<rparr>"

definition img_C :: image_row where
  "img_C = \<lparr>im_id = 3, im_file_path = ''c.png'', im_pc_name = ''office-pc'', im_added_time = ''2024-01-03 10:00:00''\<rparr>"

definition tags_AB :: "tag_row list" where
  "tags_AB =
     [\<lparr>tg_id = 1, tg_image_id = 1, tg_category = ''material'', tg_value = ''WS2''\<rparr>,
      \<lparr>tg_id = 2, tg_image_id = 2, tg_category = ''material'', tg_value = ''WS2''\<rparr>,
      \<lparr>tg_id = 3, tg_image_id = 2, tg_category = ''thickness'', tg_value = ''monolayer''\<rparr>]"

definition catalog_AB :: db where
  "catalog_AB = \<lparr>images_tbl = Some [img_A, img_B], tags_tbl = Some tags_AB, images_seq = 2, tags_seq = 3\<rparr>"

definition half_schema_db :: db where
  "half_schema_db = \<lparr>images_tbl = Some [], tags_tbl = None, images_seq = 0, tags_seq = 0\<rparr>"

definition catalog_ABC :: db where
  "catalog_ABC =
     \<lparr>images_tbl = Some [img_A, img_B, img_C],
      tags_tbl = Some (tags_AB @ [\<lparr>tg_id = 4, tg_image_id = 3, tg_category = ''material'', tg_value = ''MoS2''\<rparr>]),
      images_seq = 3, tags_seq = 4\<rparr>"

definition lab_env :: os_env where
  "lab_env = \<lparr>is_file = (\<lambda>_. True), is_dir = (\<lambda>f. f = ''/data''),
              listdir = (\<lambda>_. [''s1.PNG'', ''notes.txt'', ''s2.jpg'']), hostname = ''lab-pc''\<rparr>"

definition batch_clock :: "nat \<Rightarrow> timestamp" where
  "batch_clock n = ''2024-02-0'' @ [char_of (49 + n)] @ '' 09:00:00''"

text \<open>A after the overwrite path: a second row for \<open>a.png\<close> with the new tags.\<close>

definition catalog_AB_overwritten :: db where
  "catalog_AB_overwritten =
     \<lparr>images_tbl = Some [img_A, img_B,
        \<lparr>im_id = 3, im_file_path = ''a.png'', im_pc_name = ''lab-pc'', im_added_time = ''2024-02-01 00:00:00''\<rparr>],
      tags_tbl = Some (tags_AB @ [\<lparr>tg_id = 4, tg_image_id = 3, tg_category = ''material'', tg_value = ''MoS2''\<rparr>]),
      images_seq = 3, tags_seq = 4\<rparr>"

definition lab_config_json :: json where
  "lab_config_json = JObj [(''use_production_db'', JBool False), (''prod_db_path'', JStr ''E:/db/prod.db''),
                           (''test_db_path'', JStr ''E:/db/test.db'')]"

definition lab_config :: config where
  "lab_config = \<lparr>use_production_db = False, prod_db_path = ''E:/db/prod.db'', test_db_path = ''E:/db/test.db''\<rparr>"

definition lab_tags_json :: json where
  "lab_tags_json = JObj [(''material'', JList [JStr ''WS2'', JStr ''MoS2''])]"

definition lab_json_fs :: json_fs where
  "lab_json_fs = (\<lambda>_. Missing)(''config_local.json'' := Parsed lab_config_json,
                    tagger_CONFIG_PATH := Parsed lab_config_json, tagger_TAGS_LIST_PATH := Parsed lab_tags_json)"

definition string_flag_fs :: json_fs where
  "string_flag_fs = (\<lambda>_. Missing)(''config_local.json'' :=
     Parsed (JObj [(''use_production_db'', JStr ''false''), (''prod_db_path'', JStr ''prod.db''),
                   (''test_db_path'', JStr ''test.db'')]))"

definition no_prod_fs :: json_fs where
  "no_prod_fs = (\<lambda>_. Missing)(''config_local.json'' :=
     Parsed (JObj [(''use_production_db'', JBool True), (''test_db_path'', JStr ''t.db'')]))"

lemmas config_example_defs = lab_config_json_def lab_config_def lab_tags_json_def lab_json_fs_def
  tagger_CONFIG_PATH_def tagger_TAGS_LIST_PATH_def

lemmas example_defs = img_A_def img_B_def img_C_def tags_AB_def catalog_AB_def catalog_ABC_def half_schema_db_def catalog_AB_overwritten_def

lemma catalog_AB_reachable:
  "catalog_AB =
     snd (insert_image_with_tags ''lab-pc'' ''2024-01-02 10:00:00'' ''b.png''
            [(''material'', ''WS2''), (''thickness'', ''monolayer'')]
       (snd (insert_image_with_tags ''lab-pc'' ''2024-01-01 10:00:00'' ''a.png''
              [(''material'', ''WS2'')] (create_schema empty_db))))"
  by (simp add: example_defs insert_image_with_tags_def sql_defs)

lemma catalog_ABC_reachable:
  "catalog_ABC =
     snd (insert_image_with_tags ''office-pc'' ''2024-01-03 10:00:00'' ''c.png''
            [(''material'', ''MoS2'')] catalog_AB)"
  by (simp add: example_defs insert_image_with_tags_def sql_defs)

lemma wf_catalog_AB: "wf_db catalog_AB"
  by (simp add: example_defs wf_db_def ids_ok_def image_ids_def sqlite_max_rowid_def)

lemma wf_half_schema_db: "wf_db half_schema_db"
  by (simp add: half_schema_db_def wf_db_def ids_ok_def image_ids_def sqlite_max_rowid_def)

subsection \<open>Witnesses\<close>

text \<open>Spec 8: searching for WS2 and monolayer over A and B finds B only.\<close>

theorem search_conjunctive_witness:
  "\<exists>rows. sql_select_images (search_conditions [(''material'', ''WS2''), (''thickness'', ''monolayer'')] None None)
            catalog_AB = Inr rows \<and> set rows = {img_B}"
proof -
  have "images_tbl catalog_AB = Some [img_A, img_B]" and "tags_tbl catalog_AB = Some tags_AB"
    and "search_conditions [(''material'', ''WS2''), (''thickness'', ''monolayer'')] None None \<noteq> []"
    by (simp_all add: catalog_AB_def search_conditions_def)
  from search_conjunctive [OF this] obtain rows where
    q: "sql_select_images (search_conditions [(''material'', ''WS2''), (''thickness'', ''monolayer'')] None None)
          catalog_AB = Inr rows"
    and s: "set rows = {r \<in> set [img_A, img_B].
             (\<forall>(c, v) \<in> set [(''material'', ''WS2''), (''thickness'', ''monolayer'')].
                \<exists>t \<in> set tags_AB. tg_image_id t = im_id r \<and> tg_category t = c \<and> tg_value t = v) \<and>
             (py_truthy_str None \<longrightarrow> im_pc_name r = the None) \<and>
             (py_truthy_str None \<longrightarrow> the None \<le> im_added_time r)}"
    by blast
  from s have "set rows = {img_B}"
    by (simp only: set_filter [symmetric]) (simp add: example_defs py_truthy_str_def)
  with q show ?thesis by blast
qed

text \<open>Spec 8: searching for WS2 finds both, B (the later) first.\<close>

theorem search_order_distinct_witness:
  "sql_select_images (search_conditions [(''material'', ''WS2'')] None None) catalog_AB = Inr [img_B, img_A] \<and>
   sorted_wrt (\<lambda>a b. im_added_time b \<le> im_added_time a) [img_B, img_A] \<and> distinct (map im_id [img_B, img_A])"
proof -
  have q: "sql_select_images (search_conditions [(''material'', ''WS2'')] None None) catalog_AB = Inr [img_B, img_A]"
    by (simp add: example_defs sql_select_images_def search_conditions_def py_defs)
  show ?thesis using q search_order_distinct [OF wf_catalog_AB q] by simp
qed

theorem search_without_constraints_fails_witness:
  "search_images_by_tags [] None None catalog_AB [] = Inl (OperationalError ''near \"ORDER\": syntax error'')"
  using search_without_constraints_fails [of None None] by (simp add: py_truthy_str_def)

theorem insert_then_get_tags_witness:
  "\<exists>d' i. insert_image_with_tags ''office-pc'' ''2024-01-03 10:00:00'' ''c.png'' [(''material'', ''MoS2'')] catalog_AB = (Inr (), d') \<and>
     images_tbl d' = Some ([img_A, img_B] @ [\<lparr>im_id = i, im_file_path = ''c.png'', im_pc_name = ''office-pc'',
                                                im_added_time = ''2024-01-03 10:00:00''\<rparr>]) \<and>
     i \<notin> set (map im_id [img_A, img_B]) \<and> get_tags_for_image i d' = Inr [(''material'', ''MoS2'')]"
proof -
  have "images_tbl catalog_AB = Some [img_A, img_B]" and "tags_tbl catalog_AB = Some tags_AB"
    and "images_seq catalog_AB < sqlite_max_rowid"
    and "tags_seq catalog_AB + int (length [(''material'', ''MoS2'')]) \<le> sqlite_max_rowid"
    and "distinct (map fst [(''material'', ''MoS2'')])"
    by (simp_all add: catalog_AB_def sqlite_max_rowid_def)
  from insert_then_get_tags [OF wf_catalog_AB this] show ?thesis .
qed

theorem insert_image_with_tags_wf_witness:
  "wf_db (snd (insert_image_with_tags ''office-pc'' ''2024-01-03 10:00:00'' ''c.png'' [(''material'', ''MoS2'')] catalog_AB))"
  by (rule insert_image_with_tags_wf [OF wf_catalog_AB]) simp

text \<open>With the images table created and the tags table missing, the image row is rolled back.\<close>

theorem insert_image_with_tags_rollback_witness:
  "snd (insert_image_with_tags ''lab-pc'' ''2024-01-01 10:00:00'' ''a.png'' [(''material'', ''WS2'')] half_schema_db) = half_schema_db"
proof -
  have "fst (insert_image_with_tags ''lab-pc'' ''2024-01-01 10:00:00'' ''a.png'' [(''material'', ''WS2'')] half_schema_db)
        = Inl (no_such_table ''tags'')"
    by (simp add: half_schema_db_def insert_image_with_tags_def sql_defs)
  from insert_image_with_tags_rollback [OF wf_half_schema_db this] show ?thesis by simp
qed

text \<open>Spec 8: three images tagged WS2, WS2 and MoS2 give \<open>[(WS2, 2), (MoS2, 1)]\<close>.\<close>

theorem group_by_tag_counts_witness:
  "group_by_tag ''material'' catalog_ABC = Inr [(''WS2'', 2), (''MoS2'', 1)] \<and>
   sorted_wrt (\<lambda>a b. snd b \<le> snd a) [(''WS2'', 2::nat), (''MoS2'', 1)]"
proof -
  have wf: "wf_db catalog_ABC"
    by (simp add: example_defs wf_db_def ids_ok_def image_ids_def sqlite_max_rowid_def)
  have q: "group_by_tag ''material'' catalog_ABC = Inr [(''WS2'', 2), (''MoS2'', 1)]"
    by (simp add: example_defs group_by_tag_def value_group_def py_defs)
  from group_by_tag_counts [OF wf, of _ "''material''"] q show ?thesis
    by (simp add: catalog_ABC_def)
qed

theorem listings_distinct_complete_witness:
  "tags_tbl catalog_AB = Some tags_AB \<and>
   (\<exists>cs. list_tag_categories catalog_AB = Inr cs \<and> distinct cs \<and> set cs = tg_category ` set tags_AB) \<and>
   (\<exists>vs. list_values_for_category ''material'' catalog_AB = Inr vs \<and> distinct vs \<and>
          set vs = tg_value ` {t \<in> set tags_AB. tg_category t = ''material''})"
proof -
  have t: "tags_tbl catalog_AB = Some tags_AB" by (simp add: catalog_AB_def)
  from t listings_distinct_complete [OF t, of "''material''"] show ?thesis by blast
qed

theorem image_exists_least_witness: "image_exists ''b.png'' catalog_AB = Inr (Some 2)"
proof -
  have "images_tbl catalog_AB = Some [img_A, img_B]" by (simp add: catalog_AB_def)
  from image_exists_least [OF wf_catalog_AB this, of "''b.png''"] show ?thesis
    by (simp add: img_A_def img_B_def)
qed

text \<open>
  Overwriting \<open>a.png\<close> (answers: overwrite \<open>y\<close>, material MoS2, five empty fields,
  save) adds row 3 for the same path; \<open>image_exists\<close> still finds row 1, whose tags
  are still \<open>{material: WS2}\<close>.
\<close>

theorem tag_image_keeps_existing_witness:
  "tag_image [] lab_env ''2024-02-01 00:00:00'' ''a.png'' [] catalog_AB
     [''y'', ''MoS2'', '''', '''', '''', '''', '''', ''''] = Inr (([(''material'', ''MoS2'')], catalog_AB_overwritten), []) \<and>
   image_exists ''a.png'' catalog_AB_overwritten = Inr (Some 1) \<and>
   get_tags_for_image 1 catalog_AB_overwritten = Inr [(''material'', ''WS2'')]"
proof -
  have run: "tag_image [] lab_env ''2024-02-01 00:00:00'' ''a.png'' [] catalog_AB
     [''y'', ''MoS2'', '''', '''', '''', '''', '''', ''''] = Inr (([(''material'', ''MoS2'')], catalog_AB_overwritten), [])"
    by (simp add: tag_image_def lab_env_def example_defs image_exists_def get_tags_for_image_def
                  sql_defs py_defs tag_and_save_def insert_image_with_tags_def)
  have ex: "image_exists ''a.png'' catalog_AB = Inr (Some 1)"
    by (simp add: image_exists_def example_defs)
  have old: "get_tags_for_image 1 catalog_AB = Inr [(''material'', ''WS2'')]"
    by (simp add: get_tags_for_image_def sql_defs py_defs example_defs)
  from tag_image_keeps_existing [OF wf_catalog_AB ex run] run old show ?thesis by simp
qed

text \<open>A batch over a folder with two images (and a text file, which is skipped).\<close>

theorem run_batch_wf_appends_witness:
  "\<exists>d' inp'. run_batch [] lab_env batch_clock (create_schema empty_db)
      [''/data'', ''WS2'', '' mono'', '''', '''', '''', '''', '''', '''', '''', '''', '''', '''', '''', '''']
      = Inr (d', inp') \<and> wf_db d' \<and> appends_only (create_schema empty_db) d'"
proof -
  have wf0: "wf_db (create_schema empty_db)"
    by (simp add: create_schema_def empty_db_def create_table_if_not_exists_def wf_db_def ids_ok_def
                  image_ids_def sqlite_max_rowid_def)
  have "\<exists>d' inp'. run_batch [] lab_env batch_clock (create_schema empty_db)
      [''/data'', ''WS2'', '' mono'', '''', '''', '''', '''', '''', '''', '''', '''', '''', '''', '''', '''']
      = Inr (d', inp')"
    by (simp add: run_batch_def lab_env_def batch_clock_def tag_image_def image_exists_def
                  get_tags_for_image_def sql_defs py_defs tag_and_save_def insert_image_with_tags_def)
  then obtain d' inp' where r: "run_batch [] lab_env batch_clock (create_schema empty_db)
      [''/data'', ''WS2'', '' mono'', '''', '''', '''', '''', '''', '''', '''', '''', '''', '''', '''', '''']
      = Inr (d', inp')" by blast
  from r run_batch_wf_appends [OF wf0 r] show ?thesis by blast
qed

theorem prompt_tags_result_witness:
  "\<exists>warns. prompt_tags [(''material'', [''WS2'', ''MoS2''])] [(''material'', ''WS2''), (''note'', ''old'')]
      ['' MoS2 '', '''', ''yes'', '''', '''', ''me''] =
     Inr (([(''material'', ''MoS2''), (''used'', ''yes''), (''note'', ''old''), (''operator'', ''me'')], warns), [])"
  using prompt_tags_result [of "['' MoS2 '', '''', ''yes'', '''', '''', ''me'']" "[(''material'', [''WS2'', ''MoS2''])]"
                               "[(''material'', ''WS2''), (''note'', ''old'')]"]
  by (simp add: py_defs)

theorem prompt_tags_warns_exactly_witness:
  "prompt_tags [(''material'', [''WS2'', ''MoS2'']), (''thickness'', [''1L'', ''2L''])] []
     [''WSe2'', '' 1L '', '''', '''', '''', ''me''] =
     Inr (([(''material'', ''WSe2''), (''thickness'', ''1L''), (''operator'', ''me'')], [''material'']), []) \<and>
   [''material''] = map fst (filter (\<lambda>(k, v). not_allowed [(''material'', [''WS2'', ''MoS2'']), (''thickness'', [''1L'', ''2L''])] k v)
                     [(''material'', ''WSe2''), (''thickness'', ''1L''), (''operator'', ''me'')])"
proof -
  have run: "prompt_tags [(''material'', [''WS2'', ''MoS2'']), (''thickness'', [''1L'', ''2L''])] []
     [''WSe2'', '' 1L '', '''', '''', '''', ''me''] =
     Inr (([(''material'', ''WSe2''), (''thickness'', ''1L''), (''operator'', ''me'')], [''material'']), [])"
    by (simp add: tagger_fields_def field_value_def not_allowed_def py_defs)
  show ?thesis
    using prompt_tags_warns_exactly [OF run] run by simp
qed

subsection \<open>The search menu and its date check\<close>

theorem date_filter_text_order_witness:
  "''2024-01-05'' \<le> ''2024-02-01 00:00:00'' \<and> (2024, 1, 5) \<le> date_fields ''2024-02-01 00:00:00'' \<and>
   \<not> ''2024-01-05'' \<le> ''2023-12-31 23:59:59'' \<and> \<not> (2024, 1, 5) \<le> date_fields ''2023-12-31 23:59:59''"
proof -
  have acc: "strptime_ymd ''2024-01-05'' = Inr (2024, 1, 5)"
    by (simp add: strptime_defs)
  have t1: "sqlite_timestamp ''2024-02-01 00:00:00''" and t2: "sqlite_timestamp ''2023-12-31 23:59:59''"
    by (simp_all add: sqlite_timestamp_def canonical_date_def is_digit_def char_in_def)
  have f1: "date_fields ''2024-02-01 00:00:00'' = (2024, 2, 1)"
    and f2: "date_fields ''2023-12-31 23:59:59'' = (2023, 12, 31)"
    by (simp_all add: date_fields_def)
  show ?thesis
    using date_filter_text_order [OF acc _ _ t1] date_filter_text_order [OF acc _ _ t2]
    by (simp add: f1 f2)
qed

theorem strptime_canonical_exact_witness:
  "canonical_date ''2023-02-29'' \<and> strptime_ymd ''2023-02-29'' = Inl (ValueError ''day is out of range for month'') \<and>
   \<not> valid_ymd (date_fields ''2023-02-29'')"
proof -
  have c: "canonical_date ''2023-02-29''"
    by (simp add: canonical_date_def is_digit_def char_in_def)
  have e: "strptime_ymd ''2023-02-29'' = Inl (ValueError ''day is out of range for month'')"
    by (simp add: strptime_defs)
  from strptime_canonical_exact [OF c] c e show ?thesis by simp
qed

theorem main_search_without_constraints_exits_witness:
  "main_loop catalog_AB [''1'', '''', '''', ''2024-13-01'', ''2'', ''5''] =
     ([], Inl (OperationalError ''near \"ORDER\": syntax error''))"
proof -
  have "isl (strptime_ymd (py_strip ''2024-13-01''))"
    by (simp add: strptime_defs py_defs)
  then show ?thesis
    using main_search_without_constraints_exits [of "''1''" "''''" "''''" "''2024-13-01''" catalog_AB "[''2'', ''5'']"]
    by (simp add: py_defs)
qed

theorem menu_invalid_date_dropped_witness:
  "menu_step catalog_AB [''1'', ''material=WS2'', '''', ''2024-13-01'', ''n'', ''n''] =
     Inr (([DateSkipped, SearchResults [(img_B, [(''material'', ''WS2''), (''thickness'', ''monolayer'')], False),
                                        (img_A, [(''material'', ''WS2'')], False)]], True), [])"
proof -
  have bad: "isl (strptime_ymd (py_strip ''2024-13-01''))"
    by (simp add: strptime_defs py_defs)
  have blank: "menu_step catalog_AB [''1'', ''material=WS2'', '''', '''', ''n'', ''n''] =
     Inr (([SearchResults [(img_B, [(''material'', ''WS2''), (''thickness'', ''monolayer'')], False),
                           (img_A, [(''material'', ''WS2'')], False)]], True), [])"
    by (simp add: menu_defs prompt_filters_def search_images_by_tags_def get_all_tags_for_image_def
                  sql_defs py_defs example_defs strptime_defs)
  show ?thesis
    using menu_invalid_date_dropped [of "''1''" "''2024-13-01''" catalog_AB "''material=WS2''" "''''" "[''n'', ''n'']"]
      bad blank by (simp add: py_defs)
qed

theorem main_loop_quits_witness:
  "snd (main_loop catalog_AB [''2'', '' 5 '']) = Inr () \<and> (\<exists>l \<in> set [''2'', '' 5 '']. py_strip l = ''5'')"
proof -
  have s1: "menu_step catalog_AB [''2'', '' 5 ''] = Inr (([CategoryList [''material'', ''thickness'']], True), ['' 5 ''])"
    by (simp add: menu_defs list_tag_categories_def py_defs example_defs)
  have s2: "menu_step catalog_AB ['' 5 ''] = Inr (([Exiting], False), [])"
    by (simp add: menu_defs py_defs)
  have "snd (main_loop catalog_AB [''2'', '' 5 '']) = Inr ()"
    by (simp add: main_loop.simps [of catalog_AB "[''2'', '' 5 '']"] main_loop.simps [of catalog_AB "['' 5 '']"] s1 s2)
  with main_loop_quits [OF this] show ?thesis by simp
qed

theorem unpadded_date_misses_later_image_witness:
  "(\<exists>rows. sql_select_images (search_conditions [(''material'', ''MoS2'')] None (fst (menu_date ''2024-1-5'')))
            catalog_AB_overwritten = Inr rows \<and>
          \<lparr>im_id = 3, im_file_path = ''a.png'', im_pc_name = ''lab-pc'', im_added_time = ''2024-02-01 00:00:00''\<rparr> \<notin> set rows) \<and>
   (\<exists>rows. sql_select_images (search_conditions [] None (fst (menu_date ''2024-01-5''))) catalog_AB_overwritten = Inr rows \<and>
          \<lparr>im_id = 3, im_file_path = ''a.png'', im_pc_name = ''lab-pc'', im_added_time = ''2024-02-01 00:00:00''\<rparr> \<in> set rows)"
proof -
  have s1: "strptime_ymd ''2024-1-5'' = Inr (2024, 1, 5)" and s2: "strptime_ymd ''2024-01-5'' = Inr (2024, 1, 5)"
    by (simp_all add: strptime_defs)
  show ?thesis
    using unpadded_date_misses_later_image [of "''2024''" "CHR ''1''" "''5''" "(2024, 1, 5)" "(2024, 1, 5)" "CHR ''2''"
            catalog_AB_overwritten "[img_A, img_B, \<lparr>im_id = 3, im_file_path = ''a.png'', im_pc_name = ''lab-pc'',
                                      im_added_time = ''2024-02-01 00:00:00''\<rparr>]"
            "tags_AB @ [\<lparr>tg_id = 4, tg_image_id = 3, tg_category = ''material'', tg_value = ''MoS2''\<rparr>]"
            "\<lparr>im_id = 3, im_file_path = ''a.png'', im_pc_name = ''lab-pc'', im_added_time = ''2024-02-01 00:00:00''\<rparr>"
            "''-01 00:00:00''" "[(''material'', ''MoS2'')]" None] s1 s2
    by (simp add: catalog_AB_overwritten_def)
qed

theorem main_filter_value_error_exits_witness:
  "main_loop catalog_AB [''1'', ''material=WS2, note=a=b'', '''', '''', ''5''] =
     ([], Inl (ValueError ''too many values to unpack (expected 2)''))"
  using main_filter_value_error_exits [of "''1''" "''material=WS2, note=a=b''" catalog_AB "['''', '''', ''5'']"]
  by (simp add: py_defs)

subsection \<open>The abstract catalog\<close>

theorem insert_refines_cat_insert_witness:
  "insert_image_with_tags ''office-pc'' ''2024-01-03 10:00:00'' ''c.png'' [(''material'', ''MoS2'')] catalog_AB =
     (Inr (), catalog_ABC) \<and>
   catalog_of catalog_ABC =
     cat_insert img_C [(''material'', ''MoS2'')] (catalog_of catalog_AB)"
proof -
  have run: "insert_image_with_tags ''office-pc'' ''2024-01-03 10:00:00'' ''c.png'' [(''material'', ''MoS2'')] catalog_AB =
     (Inr (), catalog_ABC)"
    by (simp add: example_defs insert_image_with_tags_def sql_defs)
  have row: "new_image_row catalog_AB ''2024-01-03 10:00:00'' ''c.png'' ''office-pc'' = img_C"
    by (simp add: new_image_row_def example_defs)
  from insert_refines_cat_insert [OF wf_catalog_AB _ run] run row show ?thesis by simp
qed

theorem search_refines_cat_search_witness:
  "sql_select_images (search_conditions [(''material'', ''WS2''), (''thickness'', ''monolayer'')] None None) catalog_AB =
     Inr [img_B] \<and>
   cat_search [(''material'', ''WS2''), (''thickness'', ''monolayer'')] None None (catalog_of catalog_AB) = [img_B]"
proof -
  have q: "sql_select_images (search_conditions [(''material'', ''WS2''), (''thickness'', ''monolayer'')] None None) catalog_AB =
     Inr [img_B]"
    by (simp add: sql_select_images_def search_conditions_def example_defs py_defs)
  have t: "images_tbl catalog_AB = Some [img_A, img_B]" "tags_tbl catalog_AB = Some tags_AB"
    by (simp_all add: catalog_AB_def)
  have "search_conditions [(''material'', ''WS2''), (''thickness'', ''monolayer'')] None None \<noteq> []"
    by (simp add: search_conditions_def)
  from search_refines_cat_search [OF wf_catalog_AB t this] q show ?thesis by simp
qed

subsection \<open>Opening files, rowid bounds, batch progress, dicts, menu iterations\<close>

theorem open_image_windows_splits_path_witness:
  "open_image ''posix'' ''cmd.exe'' ''x&calc.png'' = ExecArgv [''open'', ''x&calc.png''] \<and>
   (\<exists>X. open_image ''nt'' ''cmd.exe'' ''x&calc.png'' = ShellCommand (''cmd.exe /c '' @ X) \<and>
        cmd_commands (\<lambda>_. True) X = [''start '' @ [dquote, dquote, CHR '' ''] @ ''x'', ''calc.png''])"
  using open_image_windows_splits_path [of "''x''" "''calc.png''" "''cmd.exe''" "\<lambda>_. True"]
  by simp

theorem autoinc_rowid_fits_int64_witness:
  "autoinc_rowid 2 [1, 2] = Inr 3 \<and> fits_int64 3 \<and>
   autoinc_rowid sqlite_max_rowid [sqlite_max_rowid] = Inl DatabaseFull \<and> \<not> fits_int64 (sqlite_max_rowid + 1)"
proof -
  have o1: "ids_ok 2 [1, 2]" and o2: "ids_ok sqlite_max_rowid [sqlite_max_rowid]"
    by (simp_all add: ids_ok_def sqlite_max_rowid_def)
  have a1: "autoinc_rowid 2 [1, 2] = Inr 3" and a2: "autoinc_rowid sqlite_max_rowid [sqlite_max_rowid] = Inl DatabaseFull"
    by (simp_all add: autoinc_rowid_def sqlite_max_rowid_def)
  show ?thesis
    using autoinc_rowid_fits_int64 [OF o1] autoinc_rowid_fits_int64 [OF o2] a1 a2 by simp
qed

theorem run_batch_completes_witness:
  "\<exists>d' inp'. run_batch [] lab_env batch_clock (create_schema empty_db) (''/data'' # replicate 16 '''') = Inr (d', inp')"
proof -
  have wf0: "wf_db (create_schema empty_db)"
    by (simp add: create_schema_def empty_db_def create_table_if_not_exists_def wf_db_def ids_ok_def
                  image_ids_def sqlite_max_rowid_def)
  have t: "images_tbl (create_schema empty_db) \<noteq> None" "tags_tbl (create_schema empty_db) \<noteq> None"
    by (simp_all add: create_schema_def create_table_if_not_exists_def empty_db_def)
  have n: "8 * length (filter is_image_name (listdir lab_env (py_strip ''/data''))) \<le> length (replicate 16 ([] :: string))"
    by (simp add: lab_env_def is_image_name_def py_defs)
  show ?thesis
    using run_batch_completes [OF wf0 t n] by simp
qed

subsection \<open>Loading the configuration\<close>

theorem config_refines_module_paths_witness:
  "lab_json_fs ''config_local.json'' = Parsed lab_config_json \<and> config_of_json lab_config_json = Some lab_config \<and>
   db_interface_module lab_json_fs = Inr (JStr ''E:/db/test.db'') \<and>
   initialize_db_main lab_json_fs (\<lambda>_. empty_db) = Inr (initialize_files lab_config (\<lambda>_. empty_db))"
proof -
  have h1: "lab_json_fs ''config_local.json'' = Parsed lab_config_json"
    by (simp add: config_example_defs)
  have h2: "config_of_json lab_config_json = Some lab_config"
    by (simp add: config_example_defs config_of_json_def py_dict_of_def)
  show ?thesis
    using config_refines_module_paths [of lab_json_fs lab_config_json lab_config "\<lambda>_. empty_db"] h1 h2
    by (simp add: lab_config_def db_interface_DB_PATH_def)
qed

theorem tagger_module_loads_witness:
  "lab_json_fs tagger_CONFIG_PATH = Parsed lab_config_json \<and> config_of_json lab_config_json = Some lab_config \<and>
   lab_json_fs tagger_TAGS_LIST_PATH = Parsed lab_tags_json \<and>
   tagger_module lab_json_fs = Inr (JStr ''E:/db/test.db'', lab_tags_json)"
proof -
  have h1: "lab_json_fs tagger_CONFIG_PATH = Parsed lab_config_json"
    by (simp add: config_example_defs)
  have h2: "config_of_json lab_config_json = Some lab_config"
    by (simp add: config_example_defs config_of_json_def py_dict_of_def)
  have h3: "lab_json_fs tagger_TAGS_LIST_PATH = Parsed lab_tags_json"
    by (simp add: config_example_defs)
  show ?thesis
    using tagger_module_loads [of lab_json_fs lab_config_json lab_config] h1 h2 h3
    by (simp add: lab_config_def tagger_DB_PATH_def)
qed

theorem tags_check_refines_not_allowed_witness:
  "vocab_of_json lab_tags_json = Some [(''material'', [''WS2'', ''MoS2''])] \<and>
   tags_check lab_tags_json ''material'' ''WSe2'' = Inr True"
proof -
  have h: "vocab_of_json lab_tags_json = Some [(''material'', [''WS2'', ''MoS2''])]"
    by (simp add: lab_tags_json_def py_dict_of_def)
  show ?thesis
    using tags_check_refines_not_allowed [OF h, of "''material''" "''WSe2''"] h
    by (simp add: not_allowed_def)
qed

theorem use_production_db_false_string_witness:
  "string_flag_fs ''config_local.json'' =
      Parsed (JObj [(''use_production_db'', JStr ''false''), (''prod_db_path'', JStr ''prod.db''),
                    (''test_db_path'', JStr ''test.db'')]) \<and>
   db_interface_module string_flag_fs = Inr (JStr ''prod.db'') \<and>
   initialize_db_module string_flag_fs = Inr (JStr ''prod.db'')"
proof -
  have h: "string_flag_fs ''config_local.json'' =
      Parsed (JObj [(''use_production_db'', JStr ''false''), (''prod_db_path'', JStr ''prod.db''),
                    (''test_db_path'', JStr ''test.db'')])"
    by (simp add: string_flag_fs_def)
  show ?thesis
    using use_production_db_false_string [of string_flag_fs "''prod.db''" "''test.db''"] h by simp
qed

theorem config_unchosen_key_not_read_witness:
  "no_prod_fs ''config_local.json'' = Parsed (JObj [(''use_production_db'', JBool True), (''test_db_path'', JStr ''t.db'')]) \<and>
   map_of (rev [(''use_production_db'', JBool True), (''test_db_path'', JStr ''t.db'')]) ''use_production_db'' = Some (JBool True) \<and>
   ''prod_db_path'' \<notin> set (map fst [(''use_production_db'', JBool True), (''test_db_path'', JStr ''t.db'')]) \<and>
   db_interface_module no_prod_fs = Inl (KeyError ''prod_db_path'')"
proof -
  have h: "no_prod_fs ''config_local.json'' = Parsed (JObj [(''use_production_db'', JBool True), (''test_db_path'', JStr ''t.db'')])"
    by (simp add: no_prod_fs_def)
  show ?thesis
    using config_unchosen_key_not_read [of no_prod_fs "[(''use_production_db'', JBool True), (''test_db_path'', JStr ''t.db'')]" "JBool True"] h by simp
qed

end
