(* ===== verification/Spec2Isabelle.thy ===== *)
theory Spec2Isabelle
  imports Examples
begin

text \<open>
  \<^bold>\<open>A verification model of NanowaveOMproj, an image catalog over SQLite.\<close>

  \<^bold>\<open>The program.\<close> Four Python modules share one SQLite file with two tables,
  \<open>images(id, file_path, pc_name, added_time)\<close> and
  \<open>tags(id, image_id, tag_category, tag_value)\<close>:
  \<^item> src/initialize_db.py, \<open>create_schema\<close>: creates both tables if absent;
  \<^item> src/tagger.py: \<open>image_exists\<close>, \<open>get_tags_for_image\<close>,
    \<open>insert_image_with_tags\<close> (one image row, then one tag row per dict entry, one
    commit), and the interactive \<open>prompt_tags\<close>, \<open>tag_image\<close>, \<open>run_batch\<close>;
  \<^item> src/db_interface.py, \<open>add_image\<close>: the same insert;
  \<^item> src/search.py: \<open>list_tag_categories\<close>, \<open>list_values_for_category\<close>,
    \<open>group_by_tag\<close>, \<open>search_images_by_tags\<close> (dynamic conjunctive query),
    \<open>prompt_filters\<close> and the menu loop \<open>main\<close>.
  The modules interact only through the database file, selected by a shared config.

  \<^bold>\<open>Theories.\<close>
  \<^item> \<open>Prelude\<close>: Python exceptions (\<open>py_error\<close>), dicts as association lists in
    insertion order (\<open>AList.update\<close> is \<open>d[k] = v\<close>, \<open>py_dict_of\<close> a dict
    comprehension), the string methods used (\<open>py_strip\<close>, \<open>py_lower\<close>,
    \<open>py_split\<close>), \<open>input()\<close> over a list of lines (\<open>py_input\<close>, \<open>EOFError\<close> at
    the end), SQL \<open>DISTINCT\<close> (\<open>sql_distinct\<close>) and \<open>ORDER BY ... DESC\<close>
    (\<open>sort_desc_key\<close>, a stable descending insertion sort).
  \<^item> \<open>Schema\<close>: the row records, the database record \<open>db\<close> (a table is \<open>None\<close>
    until created; rows in rowid order; the AUTOINCREMENT counters), \<open>create_schema\<close>,
    the per-module database path of the config, the SQL statements shared by the modules
    (\<open>sql_insert_image\<close>, \<open>sql_insert_tag\<close>, \<open>sql_select_tags_of\<close>), the
    transaction rule \<open>sql_txn\<close> (commit on success, rollback when an exception leaves
    the function before \<open>commit()\<close>), and the data invariant \<open>wf_db\<close>.
  \<^item> \<open>Store\<close>: the catalog store of tagger.py and db_interface.py.
  \<^item> \<open>Query\<close>: the query engine of search.py.
  \<^item> \<open>Workflow\<close>: the interactive tagging of tagger.py: \<open>prompt_tags\<close>
    (\<open>prompt_fields\<close> over \<open>tagger_fields\<close>), \<open>tag_image\<close> with its
    overwrite question (\<open>tag_and_save\<close> is the part from \<open>prompt_tags\<close> to the
    insert), and \<open>run_batch\<close> (\<open>batch_loop\<close> over the image files of a folder);
    the operating system is the record \<open>os_env\<close>.
  \<^item> \<open>DateCheck\<close>: \<open>datetime.datetime.strptime(date_filter, '%Y-%m-%d')\<close> as CPython's
    \<open>_strptime\<close> computes it (\<open>strptime_ymd\<close>: the regular expression's alternatives
    \<open>re_month\<close>, \<open>re_day\<close> in backtracking order, \<open>strptime_match\<close>, the
    \<open>int\<close> conversion \<open>py_int\<close>, the range check with \<open>days_in_month\<close>), the
    \<open>CURRENT_TIMESTAMP\<close> text \<open>sqlite_timestamp\<close>, and the calendar reading
    \<open>date_fields\<close> of a \<open>YYYY-MM-DD\<close> prefix.
  \<^item> \<open>MenuStep\<close> and \<open>Menu\<close>: the menu \<open>main\<close> of search.py; one iteration is
    \<open>menu_step\<close> (option 1 is \<open>menu_search\<close> with the date check \<open>menu_date\<close>),
    its printed output a list of \<open>menu_event\<close>s; the loop \<open>main_loop\<close> is a
    \<open>function\<close> that terminates by the length of standard input, since every iteration
    reads a line (\<open>menu_step_consumes\<close>).
  \<^item> \<open>Catalog\<close>: the spec's abstract catalog (images in insertion order with their
    tag dicts), its \<open>cat_insert\<close> and \<open>cat_search\<close>, the abstraction
    \<open>catalog_of\<close> of the two tables, and the files the modules share
    (\<open>initialize_files\<close>, \<open>tagger_insert_files\<close>, \<open>search_catalog\<close>).
  \<^item> \<open>OpenFile\<close>: opening a search result per \<open>os.name\<close> (\<open>open_image\<close>,
    \<open>open_actions\<close>), with \<open>subprocess.list2cmdline\<close> and the \<open>cmd /c\<close> quote and
    \<open>&\<close> rules for Windows' \<open>shell=True\<close>, modelled from their documentation.
  \<^item> \<open>Rowid64\<close>: rowids read back through \<open>64 word\<close> (\<open>fits_int64\<close>).
  \<^item> \<open>Batch\<close>: progress of the tagging workflow (\<open>tag_image_total\<close>,
    \<open>batch_loop_total\<close>).
  \<^item> \<open>Warnings\<close>: the vocabulary warnings of \<open>prompt_tags\<close> (\<open>not_allowed\<close>).
  \<^item> \<open>Config\<close>: the import of each module: \<open>json.load\<close> of the config file (its result
    the datatype \<open>json\<close>; a file is \<open>Missing\<close>, \<open>Malformed\<close> or \<open>Parsed\<close>),
    Python's \<open>if\<close>, \<open>x[k]\<close> and \<open>k in x\<close> on JSON values (\<open>py_truthy\<close>,
    \<open>py_getitem\<close>, \<open>py_contains\<close>) with their \<open>KeyError\<close> and \<open>TypeError\<close>,
    the path selection (\<open>config_select\<close>, \<open>config_select_not\<close>,
    \<open>db_interface_module\<close>, \<open>search_module\<close>, \<open>initialize_db_module\<close>,
    \<open>tagger_module\<close> with the optional tags_list.json), the main block
    \<open>initialize_db_main\<close>, and the vocabulary check \<open>tags_check\<close> on any document;
    \<open>config_of_json\<close> and \<open>vocab_of_json\<close> read the record \<open>config\<close> and the
    \<open>vocab\<close> argument of the other theories off the documents.
  \<^item> \<open>Examples\<close>: the catalogs of the spec's scenarios, shown reachable by inserts,
    and the witnesses of the claims.

  \<^bold>\<open>Modelling choices.\<close> The host name and \<open>CURRENT_TIMESTAMP\<close> are arguments.
  Text is compared as SQLite's BINARY collation does (\<open>List_Lexorder\<close> on bytes), which
  is how \<open>added_time >= ?\<close> and \<open>ORDER BY added_time\<close> behave on the stored
  \<open>YYYY-MM-DD HH:MM:SS\<close> text. Rowids are \<open>int\<close> with SQLite's bound
  \<open>2^63 - 1\<close>: AUTOINCREMENT fails with \<open>SQLITE_FULL\<close> past it. Ties of
  \<open>ORDER BY\<close> are left in scan order; no lemma depends on that choice. Standard input is
  a list of lines, so every interactive loop is structural recursion over it.
  Characters are bytes, so \<open>strip\<close> and \<open>lower\<close> act on ASCII white space and
  letters only; \<open>os.path.join\<close> is the POSIX join (no lemma depends on the joined
  text); when an iteration of the search menu raises, \<open>main_loop\<close> keeps the events
  of the completed iterations and the exception, not what the failing iteration printed
  before it.

  \<^bold>\<open>What is proved.\<close> Search (theory \<open>Query\<close>): conjunctive matching (C1),
  most recent first and no duplicates (C2), a search with no constraint fails with an SQL
  syntax error (C3), group counts sorted by count (C7), listings distinct and complete (C9).
  Store (\<open>Store\<close>): insert then read back gives the inserted dict (C4), the insert
  keeps \<open>wf_db\<close> (C5) and rolls back on every failure (C6), \<open>image_exists\<close>
  finds the earliest row of a path (C10). Schema: \<open>create_schema\<close> is idempotent
  (C8). Workflow: tagging again never replaces what the catalog says of a stored path
  (C11), a batch keeps \<open>wf_db\<close> and only appends (C12), \<open>prompt_tags\<close> reads
  six lines and returns the stripped answers, or the previous values for empty answers, in
  field order (C13). Date check: on
  canonical \<open>YYYY-MM-DD\<close> text the SQL text order refines the calendar order (C14) and
  \<open>strptime\<close> accepts exactly the valid dates (C15); an accepted unpadded date
  misses, in every year, the images of later months \<open>01\<close> to \<open>09\<close> that the padded
  date finds (C19). Menu: a search with no usable constraint ends the tool (C16), a
  rejected date is reported and dropped (C17), the tool returns normally only through
  option 5 (C18), a filter value containing \<open>=\<close> ends the tool with
  \<open>ValueError\<close> (C20). Catalog: the insert and the search refine the spec's abstract
  catalog operations under \<open>wf_db\<close> (C21, C22); the search tool sees the tagger's
  inserts only when both use the same file (C23); initialize_db.py prepares the file the
  tagger and db_interface.py open, for every config (C24). Opening a result: on Windows a
  stored path with \<open>&\<close> and no blank is split by \<open>cmd.exe\<close> into two commands, on
  POSIX it stays one argument (C25). Bounds: AUTOINCREMENT rowids fit a 64-bit signed
  integer and the insert fails exactly where the next one would wrap (C26). Liveness: a
  batch with eight input lines per image file runs to its end (C27). Warnings: \<open>prompt_tags\<close> warns about
  exactly the entered values outside the vocabulary and keeps them (C28). Config: the
  modules' imports select the paths of the record \<open>config\<close> and initialize_db.py's main
  block is \<open>initialize_files\<close> (C29); tagger.py's import, with a missing, malformed or
  parsed tags_list.json (C30); on a vocabulary document the code's check is
  \<open>not_allowed\<close> (C31), on other shapes a substring test or a \<open>TypeError\<close> (C32);
  the flag is read by truthiness, so \<open>"false"\<close> selects production (C33); only the
  chosen path key is read (C34).

  \<^bold>\<open>Bounds and termination.\<close> Rowids are bounded by \<open>2^63 - 1\<close> as in SQLite
  (\<open>sqlite_max_rowid\<close>); every interactive loop reads from a finite list of lines, so
  \<open>prompt_fields\<close>, \<open>batch_loop\<close> and \<open>show_results\<close> are structural and
  \<open>main_loop\<close> is a \<open>function\<close> whose termination is proved by the length of the
  input (every iteration reads a line); a tagging step reads at most eight lines (C27).

  \<^bold>\<open>Further work.\<close> The spec's \<open>replace_tags\<close> against the overwrite path as an
  abstract operation (the code never replaces tags; C11 shows that); the group counts as
  a refinement of an abstract count per value; the vocabulary warnings collected over a
  whole batch; the main blocks of tagger.py and search.py over an arbitrary config.

  \<^bold>\<open>Not modelled.\<close> Console printing (the search menu's output is kept as events,
  not as text); what \<open>start\<close> and \<open>open\<close> do with a file once the request is
  made; the JSON parser itself (a file holds its parsed document) and JSON fractions; the
  main blocks of tagger.py and search.py as whole programs: \<open>run_batch\<close> and
  \<open>main_loop\<close> take the vocabulary and the database the import yields (C29 to C31
  show which), and a path that is not a string or a vocabulary of another shape would
  raise only at the first \<open>connect\<close> or check inside those loops, which their model
  does not carry; SQLite's file locking and concurrent writers, and
  connections left open when an exception escapes (no observable effect on the data).
\<close>

end
